theory Spec2Isabelle
  imports Main
begin

section \<open>Python values, strings and exceptions\<close>

text \<open>
  The tool handlers of \<^verbatim>\<open>mcp_server.py\<close>, \<^verbatim>\<open>mcp_http_server.py\<close> and
  \<^verbatim>\<open>mcp_http_server_minimal.py\<close> are Python functions over dynamically typed data.
  A Python \<^verbatim>\<open>str\<close> is a sequence of Unicode code points, so a string is a list of
  natural numbers here: slicing and \<^verbatim>\<open>len\<close> count code points, as Python does. The
  literals of \<^verbatim>\<open>mcp_http_server.py\<close> are stored in the file as wrongly decoded text;
  their code points are written out as the file has them.

  Floating-point numbers are outside the model.
\<close>

type_synonym pystr = "nat list"

abbreviation py :: "string \<Rightarrow> pystr" where
  "py s \<equiv> map of_char s"

datatype pyval =
    PNone
  | PBool bool
  | PInt int
  | PStr pystr
  | PList "pyval list"
  | PDict "(pystr \<times> pyval) list"

text \<open>
  An exception carries its class name and the text \<^verbatim>\<open>str(e)\<close>. \<open>PyException\<close> stands for
  every class derived from \<^verbatim>\<open>Exception\<close>, \<open>PyBaseException\<close> for the classes that are not
  (\<^verbatim>\<open>KeyboardInterrupt\<close>, \<^verbatim>\<open>asyncio.CancelledError\<close>), and \<open>McpError code message\<close> for
  \<^verbatim>\<open>McpError(ErrorData(code=..., message=...))\<close>, itself an \<^verbatim>\<open>Exception\<close>.
\<close>

datatype pyexc =
    PyException pystr pystr
  | PyBaseException pystr pystr
  | McpError int pystr

datatype 'a outcome = Return 'a | Raise pyexc

fun obind :: "'a outcome \<Rightarrow> ('a \<Rightarrow> 'b outcome) \<Rightarrow> 'b outcome" where
  "obind (Return x) f = f x"
| "obind (Raise e) f = Raise e"

fun exc_str :: "pyexc \<Rightarrow> pystr" where
  "exc_str (PyException cls msg) = msg"
| "exc_str (PyBaseException cls msg) = msg"
| "exc_str (McpError code msg) = msg"

fun is_Exception :: "pyexc \<Rightarrow> bool" where
  "is_Exception (PyException cls msg) = True"
| "is_Exception (PyBaseException cls msg) = False"
| "is_Exception (McpError code msg) = True"

text \<open>The JSON-RPC error codes of \<^verbatim>\<open>mcp.types\<close>.\<close>

definition INVALID_PARAMS :: int where
  "INVALID_PARAMS = - 32602"

definition INTERNAL_ERROR :: int where
  "INTERNAL_ERROR = - 32603"

fun py_truthy :: "pyval \<Rightarrow> bool" where
  "py_truthy PNone = False"
| "py_truthy (PBool b) = b"
| "py_truthy (PInt i) = (i \<noteq> 0)"
| "py_truthy (PStr s) = (s \<noteq> [])"
| "py_truthy (PList xs) = (xs \<noteq> [])"
| "py_truthy (PDict kvs) = (kvs \<noteq> [])"

fun type_name :: "pyval \<Rightarrow> pystr" where
  "type_name PNone = py ''NoneType''"
| "type_name (PBool b) = py ''bool''"
| "type_name (PInt i) = py ''int''"
| "type_name (PStr s) = py ''str''"
| "type_name (PList xs) = py ''list''"
| "type_name (PDict kvs) = py ''dict''"

definition AttributeError :: "pyval \<Rightarrow> pystr \<Rightarrow> pyexc" where
  "AttributeError v attr =
     PyException (py ''AttributeError'')
       ([39] @ type_name v @ [39] @ py '' object has no attribute '' @ [39] @ attr @ [39])"

definition TypeError :: "pystr \<Rightarrow> pyexc" where
  "TypeError msg = PyException (py ''TypeError'') msg"

subsection \<open>Conversion to text\<close>

fun digits :: "nat \<Rightarrow> pystr" where
  "digits n = (if n < 10 then [48 + n] else digits (n div 10) @ [48 + n mod 10])"

declare digits.simps [simp del]

definition int_str :: "int \<Rightarrow> pystr" where
  "int_str i = (if i < 0 then 45 # digits (nat (- i)) else digits (nat i))"

fun join_strs :: "pystr \<Rightarrow> pystr list \<Rightarrow> pystr" where
  "join_strs sep [] = []"
| "join_strs sep [x] = x"
| "join_strs sep (x # y # ys) = x @ sep @ join_strs sep (y # ys)"

definition hex_digit :: "nat \<Rightarrow> nat" where
  "hex_digit d = (if d < 10 then 48 + d else 87 + d)"

text \<open>
  \<^verbatim>\<open>repr\<close> of a string: single quotes unless the text has a single and no double quote;
  the quote and the backslash are escaped, as are tab, newline, carriage return and, with
  \<^verbatim>\<open>\x\<close> and two hexadecimal digits, the other code points below 256 that are not
  printable (0 to 31, 127 to 160 and 173). Code points from 256 on are copied; Python
  escapes the unprintable ones among them with \<^verbatim>\<open>\u\<close> or \<^verbatim>\<open>\U\<close>, so the two agree on
  every string whose code points from 256 on are printable.
\<close>

definition repr_quote :: "pystr \<Rightarrow> nat" where
  "repr_quote s = (if 39 \<in> set s \<and> 34 \<notin> set s then 34 else 39)"

definition repr_char :: "nat \<Rightarrow> nat \<Rightarrow> pystr" where
  "repr_char q c =
     (if c = q \<or> c = 92 then [92, c]
      else if c = 9 then [92, 116]
      else if c = 10 then [92, 110]
      else if c = 13 then [92, 114]
      else if c < 32 \<or> (127 \<le> c \<and> c \<le> 160) \<or> c = 173 then
        [92, 120, hex_digit (c div 16), hex_digit (c mod 16)]
      else [c])"

definition repr_str :: "pystr \<Rightarrow> pystr" where
  "repr_str s = (let q = repr_quote s in q # concat (map (repr_char q) s) @ [q])"

fun py_repr :: "pyval \<Rightarrow> pystr" where
  "py_repr PNone = py ''None''"
| "py_repr (PBool b) = (if b then py ''True'' else py ''False'')"
| "py_repr (PInt i) = int_str i"
| "py_repr (PStr s) = repr_str s"
| "py_repr (PList xs) = py ''['' @ join_strs (py '', '') (map py_repr xs) @ py '']''"
| "py_repr (PDict kvs) =
     py ''{'' @ join_strs (py '', '')
        (map (\<lambda>kv. repr_str (fst kv) @ py '': '' @ py_repr (snd kv)) kvs) @ py ''}''"

text \<open>\<^verbatim>\<open>str(v)\<close>, which is what an f-string field \<^verbatim>\<open>{v}\<close> inserts.\<close>

fun py_str :: "pyval \<Rightarrow> pystr" where
  "py_str (PStr s) = s"
| "py_str v = py_repr v"

subsection \<open>Operations on values\<close>

text \<open>\<^verbatim>\<open>obj.get(key, default)\<close>: only a dict has the method.\<close>

definition dict_get :: "(pystr \<times> pyval) list \<Rightarrow> pystr \<Rightarrow> pyval \<Rightarrow> pyval" where
  "dict_get kvs key dflt = (case map_of kvs key of None \<Rightarrow> dflt | Some v \<Rightarrow> v)"

fun py_get :: "pyval \<Rightarrow> pystr \<Rightarrow> pyval \<Rightarrow> pyval outcome" where
  "py_get (PDict kvs) key dflt = Return (dict_get kvs key dflt)"
| "py_get v key dflt = Raise (AttributeError v (py ''get''))"

text \<open>
  \<^verbatim>\<open>s.lower()\<close> and \<^verbatim>\<open>s.title()\<close> as they are on ASCII text: the letters A to Z and a to z
  change case, every other code point is copied, and in \<^verbatim>\<open>title\<close> every code point that
  is not one of these letters ends a word. Python's methods also change the case of the
  cased code points beyond ASCII, and \<^verbatim>\<open>title\<close> counts them as part of a word; so the two
  agree on every string without cased code points beyond ASCII.
\<close>

definition is_upper :: "nat \<Rightarrow> bool" where
  "is_upper c = (65 \<le> c \<and> c \<le> 90)"

definition is_lower :: "nat \<Rightarrow> bool" where
  "is_lower c = (97 \<le> c \<and> c \<le> 122)"

definition str_lower :: "pystr \<Rightarrow> pystr" where
  "str_lower s = map (\<lambda>c. if is_upper c then c + 32 else c) s"

fun py_lower :: "pyval \<Rightarrow> pystr outcome" where
  "py_lower (PStr s) = Return (str_lower s)"
| "py_lower v = Raise (AttributeError v (py ''lower''))"

fun title_from :: "bool \<Rightarrow> pystr \<Rightarrow> pystr" where
  "title_from prev [] = []"
| "title_from prev (c # cs) =
     (if is_lower c then (if prev then c else c - 32) # title_from True cs
      else if is_upper c then (if prev then c + 32 else c) # title_from True cs
      else c # title_from False cs)"

definition str_title :: "pystr \<Rightarrow> pystr" where
  "str_title s = title_from False s"

text \<open>\<^verbatim>\<open>needle in hay\<close> on strings.\<close>

fun starts_with :: "pystr \<Rightarrow> pystr \<Rightarrow> bool" where
  "starts_with hay [] = True"
| "starts_with [] (n # ns) = False"
| "starts_with (h # hs) (n # ns) = (h = n \<and> starts_with hs ns)"

fun str_in :: "pystr \<Rightarrow> pystr \<Rightarrow> bool" where
  "str_in needle [] = (needle = [])"
| "str_in needle (h # hs) = (starts_with (h # hs) needle \<or> str_in needle hs)"

text \<open>\<^verbatim>\<open>xs[:n]\<close>: a negative bound counts from the end.\<close>

definition slice_to :: "'a list \<Rightarrow> int \<Rightarrow> 'a list" where
  "slice_to xs n = (if 0 \<le> n then take (nat n) xs else take (length xs - nat (- n)) xs)"

text \<open>
  \<^verbatim>\<open>v[:n]\<close> on a value. A dict rejects the slice as a key with
  \<^verbatim>\<open>TypeError: unhashable type: 'slice'\<close> (CPython up to 3.11; from 3.12 on it is a
  \<^verbatim>\<open>KeyError\<close>, an \<^verbatim>\<open>Exception\<close> as well).
\<close>

fun py_slice_to :: "pyval \<Rightarrow> int \<Rightarrow> pyval outcome" where
  "py_slice_to (PList xs) n = Return (PList (slice_to xs n))"
| "py_slice_to (PStr s) n = Return (PStr (slice_to s n))"
| "py_slice_to (PDict kvs) n = Raise (TypeError (py ''unhashable type: '' @ [39] @ py ''slice'' @ [39]))"
| "py_slice_to v n = Raise (TypeError ([39] @ type_name v @ [39] @ py '' object is not subscriptable''))"

text \<open>The items a \<^verbatim>\<open>for\<close> loop sees.\<close>

fun py_iter :: "pyval \<Rightarrow> pyval list outcome" where
  "py_iter (PList xs) = Return xs"
| "py_iter (PStr s) = Return (map (\<lambda>c. PStr [c]) s)"
| "py_iter (PDict kvs) = Return (map (\<lambda>kv. PStr (fst kv)) kvs)"
| "py_iter v = Raise (TypeError ([39] @ type_name v @ [39] @ py '' object is not iterable''))"

fun py_len :: "pyval \<Rightarrow> int outcome" where
  "py_len (PList xs) = Return (int (length xs))"
| "py_len (PStr s) = Return (int (length s))"
| "py_len (PDict kvs) = Return (int (length kvs))"
| "py_len v = Raise (TypeError (py ''object of type '' @ [39] @ type_name v @ [39] @ py '' has no len()''))"

text \<open>\<^verbatim>\<open>sep.join(v)\<close>: every item has to be a string.\<close>

fun join_items :: "nat \<Rightarrow> pyval list \<Rightarrow> pystr list outcome" where
  "join_items i [] = Return []"
| "join_items i (PStr s # vs) = obind (join_items (Suc i) vs) (\<lambda>ss. Return (s # ss))"
| "join_items i (v # vs) =
     Raise (TypeError (py ''sequence item '' @ digits i @ py '': expected str instance, ''
                       @ type_name v @ py '' found''))"

definition py_join :: "pystr \<Rightarrow> pyval \<Rightarrow> pystr outcome" where
  "py_join sep v =
     (case py_iter v of
        Raise e \<Rightarrow> Raise (TypeError (py ''can only join an iterable''))
      | Return items \<Rightarrow> obind (join_items 0 items) (\<lambda>ss. Return (join_strs sep ss)))"

text \<open>A \<^verbatim>\<open>for\<close> loop that extends the response and stops at the first exception.\<close>

fun for_each :: "('s \<Rightarrow> 'a \<Rightarrow> 's outcome) \<Rightarrow> 's \<Rightarrow> 'a list \<Rightarrow> 's outcome" where
  "for_each body s [] = Return s"
| "for_each body s (x # xs) = obind (body s x) (\<lambda>s'. for_each body s' xs)"

section \<open>Collaborator calls\<close>

text \<open>
  The provider collaborators (\<^verbatim>\<open>services.weather_api.get_forecast\<close> and the others) are
  imported from modules that are not part of the sources at hand. A collaborator is a
  parameter of each handler: a function from the positional and the keyword arguments of
  the call to what the awaited call does, return a value or raise.

  A handler yields the calls it made, in order, and its own outcome.
\<close>

type_synonym collaborator = "pyval list \<Rightarrow> (string \<times> pyval) list \<Rightarrow> pyval outcome"

record pcall =
  callee :: string
  args :: "pyval list"
  kwargs :: "(string \<times> pyval) list"

type_synonym 'a run = "pcall list \<times> 'a outcome"

definition call :: "string \<Rightarrow> collaborator \<Rightarrow> pyval list \<Rightarrow> (string \<times> pyval) list \<Rightarrow> pyval run" where
  "call name f as kws = ([\<lparr>callee = name, args = as, kwargs = kws\<rparr>], f as kws)"

definition pure :: "'a outcome \<Rightarrow> 'a run" where
  "pure r = ([], r)"

definition rbind :: "'a run \<Rightarrow> ('a \<Rightarrow> 'b run) \<Rightarrow> 'b run" where
  "rbind r f =
     (case snd r of
        Return x \<Rightarrow> (fst r @ fst (f x), snd (f x))
      | Raise e \<Rightarrow> (fst r, Raise e))"

text \<open>
  The wrapper every handler of the two HTTP servers has:
  \<^verbatim>\<open>try: ... except Exception as e: raise McpError(ErrorData(code=INTERNAL_ERROR,
  message=f"<label>: {str(e)}"))\<close>.
\<close>

definition internal_error :: "pystr \<Rightarrow> pyexc \<Rightarrow> 'a outcome" where
  "internal_error label e = Raise (McpError INTERNAL_ERROR (label @ exc_str e))"

fun reraise :: "pystr \<Rightarrow> 'a outcome \<Rightarrow> 'a outcome" where
  "reraise label (Return x) = Return x"
| "reraise label (Raise e) = (if is_Exception e then internal_error label e else Raise e)"

definition try_except :: "pystr \<Rightarrow> 'a run \<Rightarrow> 'a run" where
  "try_except label r = (fst r, reraise label (snd r))"

section \<open>\<^verbatim>\<open>mcp_http_server.py\<close>\<close>

subsection \<open>\<^verbatim>\<open>get_weather\<close>\<close>

definition weather_unable :: "pystr \<Rightarrow> pystr" where
  "weather_unable location = [0xE2, 0x152] @ py '' Unable to get weather forecast for '' @ location"

definition weather_header :: "pystr \<Rightarrow> pystr" where
  "weather_header location =
     [0x11F, 0x178, 0x152, 0xA4, 0xEF, 0xB8] @ py '' **Weather Forecast for '' @ location
     @ py ''**'' @ [10, 10]"

definition weather_tip :: "pystr \<Rightarrow> pystr" where
  "weather_tip low =
     (if str_in (py ''rain'') low \<or> str_in (py ''storm'') low then
        py ''  '' @ [0x11F, 0x178, 0x152, 0xA7, 0xEF, 0xB8] @ py '' *Recommend indoor activities*'' @ [10]
      else if str_in (py ''snow'') low then
        py ''  '' @ [0xE2, 0x201E, 0xEF, 0xB8] @ py '' *Pack warm clothes, check transport*'' @ [10]
      else if str_in (py ''sun'') low \<or> str_in (py ''clear'') low then
        py ''  '' @ [0xE2, 0x2DC, 0x20AC, 0xEF, 0xB8] @ py '' *Perfect for outdoor activities*'' @ [10]
      else [])"

text \<open>What one pass of the loop body adds to the response for \<open>day\<close>.\<close>

definition weather_day :: "pyval \<Rightarrow> pystr outcome" where
  "weather_day day =
     obind (py_get day (py ''date'') (PStr (py ''Unknown''))) (\<lambda>date.
     obind (py_get day (py ''temperature_high'') (PStr (py ''N/A''))) (\<lambda>temp_high.
     obind (py_get day (py ''temperature_low'') (PStr (py ''N/A''))) (\<lambda>temp_low.
     obind (py_get day (py ''description'') (PStr (py ''No description''))) (\<lambda>description.
     obind (py_lower description) (\<lambda>low.
     Return (py ''**'' @ py_str date @ py ''**: '' @ py_str temp_high @ [0xC2, 0xB0] @ py ''/''
             @ py_str temp_low @ [0xC2, 0xB0] @ py '' - '' @ py_str description @ [10]
             @ weather_tip low
             @ [10]))))))"

definition add_to :: "('a \<Rightarrow> pystr outcome) \<Rightarrow> pystr \<Rightarrow> 'a \<Rightarrow> pystr outcome" where
  "add_to part response x = obind (part x) (\<lambda>t. Return (response @ t))"

definition weather_format :: "pystr \<Rightarrow> int \<Rightarrow> pyval \<Rightarrow> pystr outcome" where
  "weather_format location days forecast =
     (if \<not> py_truthy forecast then Return (weather_unable location)
      else
        obind (py_slice_to forecast days) (\<lambda>sl.
        obind (py_iter sl) (\<lambda>items.
        for_each (add_to weather_day) (weather_header location) items)))"

definition get_weather_body :: "collaborator \<Rightarrow> pystr \<Rightarrow> int \<Rightarrow> pystr run" where
  "get_weather_body get_forecast location days =
     rbind (call ''get_forecast'' get_forecast [PStr location] [])
       (\<lambda>forecast. pure (weather_format location days forecast))"

definition get_weather :: "collaborator \<Rightarrow> pystr \<Rightarrow> int \<Rightarrow> pystr run" where
  "get_weather get_forecast location days =
     try_except (py ''Weather lookup failed: '') (get_weather_body get_forecast location days)"

subsection \<open>\<^verbatim>\<open>validate\<close> and \<^verbatim>\<open>plan_trip\<close>\<close>

text \<open>\<^verbatim>\<open>MY_NUMBER\<close> is read from the environment at start-up; it is a parameter.\<close>

definition validate :: "pystr \<Rightarrow> pystr run" where
  "validate MY_NUMBER = pure (Return MY_NUMBER)"

text \<open>Arguments declared \<^verbatim>\<open>str | None\<close> and \<^verbatim>\<open>list[str]\<close>, as values.\<close>

fun opt_str :: "pystr option \<Rightarrow> pyval" where
  "opt_str None = PNone"
| "opt_str (Some s) = PStr s"

definition str_list :: "pystr list \<Rightarrow> pyval" where
  "str_list xs = PList (map PStr xs)"

definition ValueError :: "pystr \<Rightarrow> pyexc" where
  "ValueError msg = PyException (py ''ValueError'') msg"

text \<open>
  The format specification \<^verbatim>\<open>:.2f\<close>. An \<^verbatim>\<open>int\<close> is converted to a \<^verbatim>\<open>float\<close> first: to the
  nearest double, a tie to the one with an even significand of 53 bits, and with an
  \<^verbatim>\<open>OverflowError\<close> when that is \<open>2 ^ 1024\<close> or more. The double of an integer is an
  integer, and prints as its digits and \<^verbatim>\<open>.00\<close>.
\<close>

fun bit_length :: "nat \<Rightarrow> nat" where
  "bit_length n = (if n = 0 then 0 else Suc (bit_length (n div 2)))"

declare bit_length.simps [simp del]

definition nearest_double :: "nat \<Rightarrow> nat" where
  "nearest_double n =
     (if bit_length n \<le> 53 then n
      else
        (let shift = bit_length n - 53;
             q = n div 2 ^ shift;
             r = n mod 2 ^ shift;
             half = 2 ^ (shift - 1)
         in (if half < r \<or> (r = half \<and> odd q) then q + 1 else q) * 2 ^ shift))"

definition OverflowError :: "pystr \<Rightarrow> pyexc" where
  "OverflowError msg = PyException (py ''OverflowError'') msg"

definition int_to_float :: "int \<Rightarrow> int outcome" where
  "int_to_float i =
     (let m = nearest_double (nat \<bar>i\<bar>)
      in if 2 ^ 1024 \<le> m then Raise (OverflowError (py ''int too large to convert to float''))
         else Return (if i < 0 then - int m else int m))"

fun format_2f :: "pyval \<Rightarrow> pystr outcome" where
  "format_2f (PInt i) = obind (int_to_float i) (\<lambda>f. Return (int_str f @ py ''.00''))"
| "format_2f (PBool b) = Return ((if b then py ''1'' else py ''0'') @ py ''.00'')"
| "format_2f (PStr s) =
     Raise (ValueError (py ''Unknown format code '' @ [39] @ py ''f'' @ [39]
                        @ py '' for object of type '' @ [39] @ py ''str'' @ [39]))"
| "format_2f v =
     Raise (TypeError (py ''unsupported format string passed to '' @ type_name v @ py ''.__format__''))"

text \<open>
  A block of the response that is written only when \<open>xs\<close> is true: its title, one part for
  each item, and an empty line.
\<close>

definition listing :: "pystr \<Rightarrow> (pyval \<Rightarrow> pystr outcome) \<Rightarrow> pystr \<Rightarrow> pyval \<Rightarrow> pystr outcome" where
  "listing title part response xs =
     (if py_truthy xs then
        obind (py_iter xs) (\<lambda>items.
        obind (for_each (add_to part) (response @ title) items) (\<lambda>r.
        Return (r @ [10])))
      else Return response)"

definition numbered :: "pystr \<Rightarrow> (nat \<times> pyval \<Rightarrow> pystr outcome) \<Rightarrow> pystr \<Rightarrow> pyval \<Rightarrow> pystr outcome" where
  "numbered title part response xs =
     (if py_truthy xs then
        obind (py_iter xs) (\<lambda>items.
        obind (for_each (add_to part) (response @ title) (enumerate 1 items)) (\<lambda>r.
        Return (r @ [10])))
      else Return response)"

definition trip_flight :: "nat \<times> pyval \<Rightarrow> pystr outcome" where
  "trip_flight p = (case p of (i, flight) \<Rightarrow>
     obind (py_get flight (py ''airline'') (PStr (py ''Unknown''))) (\<lambda>airline.
     obind (py_get flight (py ''price'') (PStr (py ''N/A''))) (\<lambda>price.
     obind (py_get flight (py ''departure_time'') (PStr (py ''TBD''))) (\<lambda>departure_time.
     Return (digits i @ py ''. '' @ py_str airline @ py '' - $'' @ py_str price @ py '' - ''
             @ py_str departure_time @ [10])))))"

definition trip_hotel :: "nat \<times> pyval \<Rightarrow> pystr outcome" where
  "trip_hotel p = (case p of (i, hotel) \<Rightarrow>
     obind (py_get hotel (py ''name'') (PStr (py ''Unknown''))) (\<lambda>name.
     obind (py_get hotel (py ''price_per_night'') (PStr (py ''N/A''))) (\<lambda>price.
     obind (py_get hotel (py ''rating'') (PStr (py ''N/A''))) (\<lambda>rating.
     Return (digits i @ py ''. '' @ py_str name @ py '' - $'' @ py_str price @ py ''/night - ''
             @ [0xE2, 0xAD] @ py_str rating @ [10])))))"

definition trip_activity :: "pyval \<Rightarrow> pystr outcome" where
  "trip_activity activity = Return (py ''  '' @ [0xE2, 0x20AC, 0xA2] @ py '' '' @ py_str activity @ [10])"

definition trip_day :: "pyval \<Rightarrow> pystr outcome" where
  "trip_day day =
     obind (py_get day (py ''date'') (PStr (py ''TBD''))) (\<lambda>date.
     obind (py_get day (py ''activities'') (PList [])) (\<lambda>activities.
     obind (py_slice_to activities 3) (\<lambda>sl.
     obind (py_iter sl) (\<lambda>items.
     obind (for_each (add_to trip_activity) (py ''**'' @ py_str date @ py '':**'' @ [10]) items) (\<lambda>r.
     Return (r @ [10]))))))"

definition trip_restaurant :: "pyval \<Rightarrow> pystr outcome" where
  "trip_restaurant restaurant =
     obind (py_get restaurant (py ''name'') (PStr (py ''Unknown''))) (\<lambda>name.
     obind (py_get restaurant (py ''cuisine'') (PStr (py ''Various''))) (\<lambda>cuisine.
     obind (py_get restaurant (py ''price_level'') (PStr (py ''$''))) (\<lambda>price_level.
     Return ([0xE2, 0x20AC, 0xA2] @ py '' '' @ py_str name @ py '' - '' @ py_str cuisine @ py '' - ''
             @ py_str price_level @ [10]))))"

definition trip_event :: "pyval \<Rightarrow> pystr outcome" where
  "trip_event event =
     obind (py_get event (py ''name'') (PStr (py ''Unknown Event''))) (\<lambda>name.
     obind (py_get event (py ''start_time'') (PStr (py ''TBD''))) (\<lambda>start_time.
     Return ([0xE2, 0x20AC, 0xA2] @ py '' '' @ py_str name @ py '' - '' @ py_str start_time @ [10])))"

definition trip_travel_info :: "pystr \<Rightarrow> pyval \<Rightarrow> pyval \<Rightarrow> pystr outcome" where
  "trip_travel_info response visa_info safety_info =
     (if py_truthy visa_info \<or> py_truthy safety_info then
        obind (py_get visa_info (py ''required'') PNone) (\<lambda>required.
        obind (if py_truthy required then
                 obind (py_get visa_info (py ''details'') (PStr (py ''Check requirements''))) (\<lambda>details.
                 Return ([0xE2, 0x20AC, 0xA2] @ py '' Visa Required: '' @ py_str details @ [10]))
               else Return []) (\<lambda>visa_line.
        obind (py_get safety_info (py ''advisories'') PNone) (\<lambda>advisories.
        obind (if py_truthy advisories then
                 obind (py_get safety_info (py ''level'') (PStr (py ''Standard precautions''))) (\<lambda>level.
                 Return ([0xE2, 0x20AC, 0xA2] @ py '' Safety Advisory: '' @ py_str level @ [10]))
               else Return []) (\<lambda>safety_line.
        Return (response @ [0xE2, 0x201E, 0xB9, 0xEF, 0xB8] @ py '' **Important Travel Information:**'' @ [10]
                @ visa_line @ safety_line @ [10])))))
      else Return response)"

definition trip_booking_links :: "pystr \<Rightarrow> pyval \<Rightarrow> pystr outcome" where
  "trip_booking_links response booking_links =
     (if py_truthy booking_links then
        obind (py_get booking_links (py ''hotels'') PNone) (\<lambda>hotels.
        obind (if py_truthy hotels then
                 obind (py_len hotels) (\<lambda>n.
                 Return ([0xE2, 0x20AC, 0xA2] @ py '' Hotels: '' @ int_str n @ py '' options available'' @ [10]))
               else Return []) (\<lambda>hotels_line.
        obind (py_get booking_links (py ''flights'') PNone) (\<lambda>flights.
        obind (if py_truthy flights then
                 obind (py_len flights) (\<lambda>n.
                 Return ([0xE2, 0x20AC, 0xA2] @ py '' Flights: '' @ int_str n @ py '' booking options'' @ [10]))
               else Return []) (\<lambda>flights_line.
        Return (response @ [0x11F, 0x178, 0x201D, 0x2014] @ py '' **Quick Booking Links:**'' @ [10]
                @ hotels_line @ flights_line @ [10])))))
      else Return response)"

definition trip_format ::
  "pystr \<Rightarrow> pystr \<Rightarrow> pystr \<Rightarrow> pystr \<Rightarrow> int \<Rightarrow> pyval \<Rightarrow> pystr outcome" where
  "trip_format origin destination start_date end_date adults result =
     obind (py_get result (py ''trip_data'') (PDict [])) (\<lambda>trip_data.
     obind (py_get result (py ''estimated_cost'') PNone) (\<lambda>estimated_cost.
     obind (if py_truthy estimated_cost then
              obind (format_2f estimated_cost) (\<lambda>cost.
              Return ([0x11F, 0x178, 0x2019, 0xB0] @ py '' **Estimated Cost**: $'' @ cost @ [10, 10]))
            else Return []) (\<lambda>cost_line.
     obind (py_get trip_data (py ''flights'') (PList [])) (\<lambda>all_flights.
     obind (py_slice_to all_flights 3) (\<lambda>flights.
     obind (numbered ([0xE2, 0x153, 0x2C6, 0xEF, 0xB8] @ py '' **Flight Options:**'' @ [10]) trip_flight
              ([0x11F, 0x178, 0x152] @ py '' **Complete Trip Plan: '' @ origin @ py '' ''
               @ [0xE2, 0x2020, 0x2019] @ py '' '' @ destination @ py ''**'' @ [10, 10]
               @ [0x11F, 0x178, 0x201C, 0x2026] @ py '' **Dates**: '' @ start_date @ py '' to ''
               @ end_date @ [10]
               @ [0x11F, 0x178, 0x2018, 0xA5] @ py '' **Travelers**: '' @ int_str adults
               @ py '' adult(s)'' @ [10]
               @ cost_line)
              flights) (\<lambda>response.
     obind (py_get trip_data (py ''hotels'') (PList [])) (\<lambda>all_hotels.
     obind (py_slice_to all_hotels 3) (\<lambda>hotels.
     obind (numbered ([0x11F, 0x178, 0xA8] @ py '' **Hotel Options:**'' @ [10]) trip_hotel
              response hotels) (\<lambda>response.
     obind (py_get result (py ''itinerary'') (PList [])) (\<lambda>itinerary.
     obind (if py_truthy itinerary then
              obind (py_slice_to itinerary 5) (\<lambda>sl.
              obind (py_iter sl) (\<lambda>days.
              for_each (add_to trip_day)
                (response @ [0x11F, 0x178, 0x201C, 0x2039] @ py '' **Daily Itinerary:**'' @ [10]) days))
            else Return response) (\<lambda>response.
     obind (py_get trip_data (py ''restaurants'') (PList [])) (\<lambda>all_restaurants.
     obind (py_slice_to all_restaurants 5) (\<lambda>restaurants.
     obind (listing ([0x11F, 0x178, 0xBD, 0xEF, 0xB8] @ py '' **Restaurant Recommendations:**'' @ [10])
              trip_restaurant response restaurants) (\<lambda>response.
     obind (py_get trip_data (py ''events'') (PList [])) (\<lambda>all_events.
     obind (py_slice_to all_events 3) (\<lambda>events.
     obind (listing ([0x11F, 0x178, 0xAD] @ py '' **Events During Your Visit:**'' @ [10])
              trip_event response events) (\<lambda>response.
     obind (py_get trip_data (py ''visa_info'') (PDict [])) (\<lambda>visa_info.
     obind (py_get trip_data (py ''safety_info'') (PDict [])) (\<lambda>safety_info.
     obind (trip_travel_info response visa_info safety_info) (\<lambda>response.
     obind (py_get trip_data (py ''booking_links'') (PDict [])) (\<lambda>booking_links.
     obind (trip_booking_links response booking_links) (\<lambda>response.
     Return (response @ [0xE2, 0x153, 0xA8]
             @ py '' **Trip planning complete! Use the booking links to reserve your selections.**'')
     ))))))))))))))))))))))"

text \<open>\<open>budget\<close> is declared \<^verbatim>\<open>float | None\<close>; it is only passed on, as the value it is.\<close>

definition plan_trip_body ::
  "collaborator \<Rightarrow> pystr \<Rightarrow> pystr \<Rightarrow> pystr \<Rightarrow> pystr \<Rightarrow> int \<Rightarrow> pyval \<Rightarrow> pystr list
     \<Rightarrow> pystr option \<Rightarrow> pystr list \<Rightarrow> pystr run" where
  "plan_trip_body generate_itinerary origin destination start_date end_date adults budget activities
     accommodation_type dietary_restrictions =
     rbind (call ''generate_itinerary'' generate_itinerary
              [PDict [(py ''origin'', PStr origin),
                      (py ''destination'', PStr destination),
                      (py ''start_date'', PStr start_date),
                      (py ''end_date'', PStr end_date),
                      (py ''adults'', PInt adults),
                      (py ''budget'', budget),
                      (py ''activities'', str_list activities),
                      (py ''accommodation_type'', opt_str accommodation_type),
                      (py ''dietary_restrictions'', str_list dietary_restrictions),
                      (py ''avoid_bad_weather'', PBool True),
                      (py ''language'', PStr (py ''en''))]] [])
       (\<lambda>result. pure (trip_format origin destination start_date end_date adults result))"

definition plan_trip ::
  "collaborator \<Rightarrow> pystr \<Rightarrow> pystr \<Rightarrow> pystr \<Rightarrow> pystr \<Rightarrow> int \<Rightarrow> pyval \<Rightarrow> pystr list
     \<Rightarrow> pystr option \<Rightarrow> pystr list \<Rightarrow> pystr run" where
  "plan_trip generate_itinerary origin destination start_date end_date adults budget activities
     accommodation_type dietary_restrictions =
     try_except (py ''Trip planning failed: '')
       (plan_trip_body generate_itinerary origin destination start_date end_date adults budget
          activities accommodation_type dietary_restrictions)"

subsection \<open>\<^verbatim>\<open>search_hotel_options\<close>\<close>

definition hotel_entry :: "nat \<times> pyval \<Rightarrow> pystr outcome" where
  "hotel_entry p = (case p of (i, hotel) \<Rightarrow>
     obind (py_get hotel (py ''name'') (PStr (py ''Unknown Hotel''))) (\<lambda>name.
     obind (py_get hotel (py ''price_per_night'') (PStr (py ''N/A''))) (\<lambda>price.
     obind (py_get hotel (py ''rating'') (PStr (py ''N/A''))) (\<lambda>rating.
     obind (py_get hotel (py ''address'') (PStr (py ''Address not available''))) (\<lambda>address.
     obind (py_get hotel (py ''amenities'') (PList [])) (\<lambda>amenities.
     obind (if py_truthy amenities then
              obind (py_slice_to amenities 3) (\<lambda>sl.
              obind (py_join (py '', '') sl) (\<lambda>joined.
              Return (py ''   '' @ [0x11F, 0x178, 0xAF] @ py '' '' @ joined @ [10])))
            else Return []) (\<lambda>amenities_line.
     Return (py ''**'' @ digits i @ py ''. '' @ py_str name @ py ''**'' @ [10]
             @ py ''   '' @ [0x11F, 0x178, 0x2019, 0xB0] @ py '' $'' @ py_str price
             @ py ''/night | '' @ [0xE2, 0xAD] @ py '' '' @ py_str rating
             @ py '' | '' @ [0x11F, 0x178, 0x201C] @ py '' '' @ py_str address @ [10]
             @ amenities_line
             @ [10]))))))))"

definition hotels_format :: "pystr \<Rightarrow> pystr \<Rightarrow> pystr \<Rightarrow> int \<Rightarrow> pyval \<Rightarrow> pystr outcome" where
  "hotels_format destination check_in check_out adults hotels =
     (if \<not> py_truthy hotels then
        Return ([0xE2, 0x152] @ py '' No hotels found for '' @ destination @ py '' on '' @ check_in
                @ py '' to '' @ check_out)
      else
        obind (py_slice_to hotels 8) (\<lambda>sl.
        obind (py_iter sl) (\<lambda>items.
        for_each (add_to hotel_entry)
          ([0x11F, 0x178, 0xA8] @ py '' **Hotel Options in '' @ destination @ py ''**'' @ [10]
           @ [0x11F, 0x178, 0x201C, 0x2026] @ py '' '' @ check_in @ py '' to '' @ check_out
           @ py '' | '' @ [0x11F, 0x178, 0x2018, 0xA5] @ py '' '' @ int_str adults
           @ py '' adult(s)'' @ [10, 10])
          (enumerate 1 items))))"

text \<open>\<open>min_rating\<close> is declared \<^verbatim>\<open>float | None\<close>; it is only passed on.\<close>

definition search_hotel_options_body ::
  "collaborator \<Rightarrow> pystr \<Rightarrow> pystr \<Rightarrow> pystr \<Rightarrow> int \<Rightarrow> pyval \<Rightarrow> pystr option \<Rightarrow> pystr run" where
  "search_hotel_options_body search_hotels destination check_in check_out adults min_rating
     accommodation_type =
     rbind (call ''search_hotels'' search_hotels []
              [(''destination'', PStr destination),
               (''check_in'', PStr check_in),
               (''check_out'', PStr check_out),
               (''adults'', PInt adults),
               (''min_rating'', min_rating),
               (''accommodation_type'', opt_str accommodation_type)])
       (\<lambda>hotels. pure (hotels_format destination check_in check_out adults hotels))"

definition search_hotel_options ::
  "collaborator \<Rightarrow> pystr \<Rightarrow> pystr \<Rightarrow> pystr \<Rightarrow> int \<Rightarrow> pyval \<Rightarrow> pystr option \<Rightarrow> pystr run" where
  "search_hotel_options search_hotels destination check_in check_out adults min_rating
     accommodation_type =
     try_except (py ''Hotel search failed: '')
       (search_hotel_options_body search_hotels destination check_in check_out adults min_rating
          accommodation_type)"

subsection \<open>\<^verbatim>\<open>search_flight_options\<close>\<close>

definition flight_entry :: "nat \<times> pyval \<Rightarrow> pystr outcome" where
  "flight_entry p = (case p of (i, flight) \<Rightarrow>
     obind (py_get flight (py ''airline'') (PStr (py ''Unknown''))) (\<lambda>airline.
     obind (py_get flight (py ''price'') (PStr (py ''N/A''))) (\<lambda>price.
     obind (py_get flight (py ''departure_time'') (PStr (py ''TBD''))) (\<lambda>departure_time.
     obind (py_get flight (py ''arrival_time'') (PStr (py ''TBD''))) (\<lambda>arrival_time.
     obind (py_get flight (py ''duration'') (PStr (py ''N/A''))) (\<lambda>duration.
     obind (py_get flight (py ''stops'') (PInt 0)) (\<lambda>stops.
     Return (py ''**'' @ digits i @ py ''. '' @ py_str airline @ py ''**'' @ [10]
             @ py ''   '' @ [0x11F, 0x178, 0x2019, 0xB0] @ py '' $'' @ py_str price
             @ py '' | '' @ [0x11F, 0x178, 0x2022] @ py '' '' @ py_str departure_time
             @ py '' '' @ [0xE2, 0x2020, 0x2019] @ py '' '' @ py_str arrival_time
             @ py '' ('' @ py_str duration @ py '')'' @ [10]
             @ py ''   '' @ [0xE2, 0x153, 0x2C6, 0xEF, 0xB8] @ py '' '' @ py_str stops
             @ py '' stop(s)'' @ [10, 10]))))))))"

definition trip_type :: "pystr option \<Rightarrow> pystr" where
  "trip_type return_date = (if py_truthy (opt_str return_date) then py ''Round Trip'' else py ''One Way'')"

definition flights_format ::
  "pystr \<Rightarrow> pystr \<Rightarrow> pystr \<Rightarrow> pystr option \<Rightarrow> int \<Rightarrow> pystr \<Rightarrow> pyval \<Rightarrow> pystr outcome" where
  "flights_format origin destination departure_date return_date adults cabin_class flights =
     (if \<not> py_truthy flights then
        Return ([0xE2, 0x152] @ py '' No flights found from '' @ origin @ py '' to '' @ destination
                @ py '' on '' @ departure_date)
      else
        obind (py_slice_to flights 6) (\<lambda>sl.
        obind (py_iter sl) (\<lambda>items.
        for_each (add_to flight_entry)
          ([0xE2, 0x153, 0x2C6, 0xEF, 0xB8] @ py '' **Flight Options: '' @ origin @ py '' ''
           @ [0xE2, 0x2020, 0x2019] @ py '' '' @ destination @ py ''**'' @ [10]
           @ [0x11F, 0x178, 0x201C, 0x2026] @ py '' '' @ departure_date
           @ py '' | '' @ [0x11F, 0x178, 0x2018, 0xA5] @ py '' '' @ int_str adults
           @ py '' adult(s) | '' @ [0x11F, 0x178, 0xAB] @ py '' '' @ str_title cabin_class
           @ py '' | '' @ trip_type return_date @ [10, 10])
          (enumerate 1 items))))"

definition search_flight_options_body ::
  "collaborator \<Rightarrow> pystr \<Rightarrow> pystr \<Rightarrow> pystr \<Rightarrow> pystr option \<Rightarrow> int \<Rightarrow> pystr \<Rightarrow> pystr run" where
  "search_flight_options_body search_flights origin destination departure_date return_date adults
     cabin_class =
     rbind (call ''search_flights'' search_flights []
              [(''origin'', PStr origin),
               (''destination'', PStr destination),
               (''departure_date'', PStr departure_date),
               (''adults'', PInt adults),
               (''cabin_class'', PStr cabin_class)])
       (\<lambda>flights. pure (flights_format origin destination departure_date return_date adults
                            cabin_class flights))"

definition search_flight_options ::
  "collaborator \<Rightarrow> pystr \<Rightarrow> pystr \<Rightarrow> pystr \<Rightarrow> pystr option \<Rightarrow> int \<Rightarrow> pystr \<Rightarrow> pystr run" where
  "search_flight_options search_flights origin destination departure_date return_date adults
     cabin_class =
     try_except (py ''Flight search failed: '')
       (search_flight_options_body search_flights origin destination departure_date return_date
          adults cabin_class)"

subsection \<open>\<^verbatim>\<open>discover_places\<close>\<close>

definition places_query :: "pystr \<Rightarrow> pystr option \<Rightarrow> pystr" where
  "places_query destination activity_type =
     (case activity_type of
        Some a \<Rightarrow> (if a \<noteq> [] then a @ py '' in '' @ destination
                   else py ''things to do in '' @ destination)
      | None \<Rightarrow> py ''things to do in '' @ destination)"

definition no_places :: "pystr \<Rightarrow> pystr" where
  "no_places query = [0xE2, 0x152] @ py '' No places found for '' @ query"

definition place_entry :: "nat \<times> pyval \<Rightarrow> pystr outcome" where
  "place_entry p = (case p of (i, place) \<Rightarrow>
     obind (py_get place (py ''name'') (PStr (py ''Unknown Place''))) (\<lambda>name.
     obind (py_get place (py ''rating'') (PStr (py ''N/A''))) (\<lambda>rating.
     obind (py_get place (py ''address'') (PStr (py ''Address not available''))) (\<lambda>address.
     obind (py_get place (py ''description'') (PStr [])) (\<lambda>description.
     obind (if py_truthy description then
              obind (py_slice_to description 100) (\<lambda>sl.
              obind (py_len description) (\<lambda>n.
              Return (py ''   '' @ [0x11F, 0x178, 0x201C] @ py '' '' @ py_str sl
                      @ (if n > 100 then py ''...'' else []) @ [10])))
            else Return []) (\<lambda>description_line.
     Return (py ''**'' @ digits i @ py ''. '' @ py_str name @ py ''**'' @ [10]
             @ py ''   '' @ [0xE2, 0xAD] @ py '' '' @ py_str rating
             @ py '' | '' @ [0x11F, 0x178, 0x201C] @ py '' '' @ py_str address @ [10]
             @ description_line
             @ [10])))))))"

definition places_format :: "pystr \<Rightarrow> pystr option \<Rightarrow> int \<Rightarrow> pyval \<Rightarrow> pystr outcome" where
  "places_format destination activity_type limit places =
     (if \<not> py_truthy places then Return (no_places (places_query destination activity_type))
      else
        obind (py_slice_to places limit) (\<lambda>sl.
        obind (py_iter sl) (\<lambda>items.
        for_each (add_to place_entry)
          ([0x11F, 0x178, 0xAF] @ py '' **Places to Visit in '' @ destination @ py ''**'' @ [10]
           @ (case activity_type of
                Some a \<Rightarrow> (if a \<noteq> [] then
                              [0x11F, 0x178, 0x201D] @ py '' Category: '' @ str_title a @ [10]
                            else [])
              | None \<Rightarrow> [])
           @ [10])
          (enumerate 1 items))))"

definition discover_places_body :: "collaborator \<Rightarrow> pystr \<Rightarrow> pystr option \<Rightarrow> int \<Rightarrow> pystr run" where
  "discover_places_body search_places destination activity_type limit =
     rbind (call ''search_places'' search_places
              [PStr (places_query destination activity_type)] [])
       (\<lambda>places. pure (places_format destination activity_type limit places))"

definition discover_places :: "collaborator \<Rightarrow> pystr \<Rightarrow> pystr option \<Rightarrow> int \<Rightarrow> pystr run" where
  "discover_places search_places destination activity_type limit =
     try_except (py ''Places search failed: '')
       (discover_places_body search_places destination activity_type limit)"

subsection \<open>\<^verbatim>\<open>find_restaurants\<close>\<close>

definition restaurant_entry :: "nat \<times> pyval \<Rightarrow> pystr outcome" where
  "restaurant_entry p = (case p of (i, restaurant) \<Rightarrow>
     obind (py_get restaurant (py ''name'') (PStr (py ''Unknown Restaurant''))) (\<lambda>name.
     obind (py_get restaurant (py ''rating'') (PStr (py ''N/A''))) (\<lambda>rating.
     obind (py_get restaurant (py ''price_level'') (PStr (py ''N/A''))) (\<lambda>price_level.
     obind (py_get restaurant (py ''cuisine'') (PStr (py ''Various''))) (\<lambda>cuisine.
     obind (py_get restaurant (py ''address'') (PStr (py ''Address not available''))) (\<lambda>address.
     Return (py ''**'' @ digits i @ py ''. '' @ py_str name @ py ''**'' @ [10]
             @ py ''   '' @ [0xE2, 0xAD] @ py '' '' @ py_str rating
             @ py '' | '' @ [0x11F, 0x178, 0x2019, 0xB0] @ py '' '' @ py_str price_level
             @ py '' | '' @ [0x11F, 0x178, 0xBD, 0xEF, 0xB8] @ py '' '' @ py_str cuisine @ [10]
             @ py ''   '' @ [0x11F, 0x178, 0x201C] @ py '' '' @ py_str address @ [10, 10])))))))"

definition restaurants_format ::
  "pystr \<Rightarrow> pystr list \<Rightarrow> pystr list \<Rightarrow> pystr option \<Rightarrow> pyval \<Rightarrow> pystr outcome" where
  "restaurants_format destination cuisine_types dietary_restrictions price_range restaurants =
     (if \<not> py_truthy restaurants then
        Return ([0xE2, 0x152] @ py '' No restaurants found in '' @ destination
                @ py '' matching your criteria'')
      else
        obind (py_slice_to restaurants 10) (\<lambda>sl.
        obind (py_iter sl) (\<lambda>items.
        for_each (add_to restaurant_entry)
          ([0x11F, 0x178, 0xBD, 0xEF, 0xB8] @ py '' **Restaurant Recommendations in '' @ destination
           @ py ''**'' @ [10]
           @ (if cuisine_types \<noteq> [] then
                [0x11F, 0x178, 0x153] @ py '' Cuisine: '' @ join_strs (py '', '') cuisine_types @ [10]
              else [])
           @ (if dietary_restrictions \<noteq> [] then
                [0x11F, 0x178, 0xA5, 0x2014] @ py '' Dietary: ''
                @ join_strs (py '', '') dietary_restrictions @ [10]
              else [])
           @ (case price_range of
                Some r \<Rightarrow> (if r \<noteq> [] then
                              [0x11F, 0x178, 0x2019, 0xB0] @ py '' Price Range: '' @ r @ [10]
                            else [])
              | None \<Rightarrow> [])
           @ [10])
          (enumerate 1 items))))"

definition find_restaurants_body ::
  "collaborator \<Rightarrow> pystr \<Rightarrow> pystr list \<Rightarrow> pystr list \<Rightarrow> pystr option \<Rightarrow> pystr run" where
  "find_restaurants_body search_restaurants destination cuisine_types dietary_restrictions price_range =
     rbind (call ''search_restaurants'' search_restaurants []
              [(''city'', PStr destination),
               (''cuisine_types'', str_list cuisine_types),
               (''price_range'', opt_str price_range),
               (''dietary_restrictions'', str_list dietary_restrictions)])
       (\<lambda>restaurants. pure (restaurants_format destination cuisine_types dietary_restrictions
                                price_range restaurants))"

definition find_restaurants ::
  "collaborator \<Rightarrow> pystr \<Rightarrow> pystr list \<Rightarrow> pystr list \<Rightarrow> pystr option \<Rightarrow> pystr run" where
  "find_restaurants search_restaurants destination cuisine_types dietary_restrictions price_range =
     try_except (py ''Restaurant search failed: '')
       (find_restaurants_body search_restaurants destination cuisine_types dietary_restrictions
          price_range)"

subsection \<open>\<^verbatim>\<open>check_travel_requirements\<close>\<close>

definition visa_section :: "pyval \<Rightarrow> pystr outcome" where
  "visa_section visa_info =
     (if py_truthy visa_info then
        obind (py_get visa_info (py ''required'') PNone) (\<lambda>required.
        obind (if py_truthy required then
                 obind (py_get visa_info (py ''type'') (PStr (py ''Tourist visa''))) (\<lambda>type.
                 obind (py_get visa_info (py ''processing_time'') (PStr (py ''Check embassy''))) (\<lambda>processing_time.
                 obind (py_get visa_info (py ''fee'') (PStr (py ''Contact embassy''))) (\<lambda>fee.
                 Return (py ''   '' @ [0xE2, 0x153, 0x2026] @ py '' Visa Required: '' @ py_str type @ [10]
                         @ py ''   '' @ [0xE2, 0xB1, 0xEF, 0xB8] @ py '' Processing Time: ''
                         @ py_str processing_time @ [10]
                         @ py ''   '' @ [0x11F, 0x178, 0x2019, 0xB0] @ py '' Fee: '' @ py_str fee @ [10]))))
               else
                 Return (py ''   '' @ [0xE2, 0x153, 0x2026] @ py '' No visa required for tourist visits''
                         @ [10])) (\<lambda>required_lines.
        obind (py_get visa_info (py ''duration'') PNone) (\<lambda>duration.
        Return ([0x11F, 0x178, 0x203A, 0x201A] @ py '' **Visa Requirements:**'' @ [10]
                @ required_lines
                @ (if py_truthy duration then
                     py ''   '' @ [0x11F, 0x178, 0x201C, 0x2026] @ py '' Max Stay: '' @ py_str duration @ [10]
                   else [])
                @ [10]))))
      else Return [])"

definition advisory_line :: "pyval \<Rightarrow> pystr" where
  "advisory_line advisory = py ''   '' @ [0xE2, 0x20AC, 0xA2] @ py '' '' @ py_str advisory @ [10]"

definition safety_section :: "pyval \<Rightarrow> pystr outcome" where
  "safety_section safety_info =
     (if py_truthy safety_info then
        obind (py_get safety_info (py ''level'') (PStr (py ''Standard precautions''))) (\<lambda>level.
        obind (py_get safety_info (py ''advisories'') PNone) (\<lambda>advisories.
        obind (if py_truthy advisories then
                 obind (py_slice_to advisories 3) (\<lambda>sl.
                 obind (py_iter sl) (\<lambda>items.
                 Return (concat (map advisory_line items))))
               else Return []) (\<lambda>advisory_lines.
        obind (py_get safety_info (py ''last_updated'') (PStr (py ''N/A''))) (\<lambda>last_updated.
        Return ([0xE2, 0x161, 0xA0, 0xEF, 0xB8] @ py '' **Safety Advisory:**'' @ [10]
                @ py ''   '' @ [0x11F, 0x178, 0x161, 0xA8] @ py '' Level: '' @ py_str level @ [10]
                @ advisory_lines
                @ py ''   '' @ [0x11F, 0x178, 0x201C, 0x2026] @ py '' Last Updated: ''
                @ py_str last_updated @ [10, 10])))))
      else Return [])"

definition requirements_header :: "pystr \<Rightarrow> pystr \<Rightarrow> pystr" where
  "requirements_header origin_country destination_country =
     [0x11F, 0x178, 0x201C, 0x2039] @ py '' **Travel Requirements: '' @ origin_country @ py '' ''
     @ [0xE2, 0x2020, 0x2019] @ py '' '' @ destination_country @ py ''**'' @ [10, 10]"

definition requirements_note :: pystr where
  "requirements_note =
     [0xE2, 0x201E, 0xB9, 0xEF, 0xB8]
     @ py '' **Note**: Always verify current requirements with official embassy sources before travel.''"

definition requirements_format :: "pystr \<Rightarrow> pystr \<Rightarrow> pyval \<Rightarrow> pyval \<Rightarrow> pystr outcome" where
  "requirements_format origin_country destination_country visa_info safety_info =
     obind (visa_section visa_info) (\<lambda>visa.
     obind (safety_section safety_info) (\<lambda>safety.
     Return (requirements_header origin_country destination_country @ visa @ safety
             @ requirements_note)))"

definition check_travel_requirements_body ::
  "collaborator \<Rightarrow> collaborator \<Rightarrow> pystr \<Rightarrow> pystr \<Rightarrow> pystr run" where
  "check_travel_requirements_body check_visa_requirements get_safety_advisories origin_country
     destination_country =
     rbind (call ''check_visa_requirements'' check_visa_requirements
              [PStr origin_country, PStr destination_country] [])
       (\<lambda>visa_info.
          rbind (call ''get_safety_advisories'' get_safety_advisories
                   [PStr destination_country] [])
            (\<lambda>safety_info.
               pure (requirements_format origin_country destination_country visa_info
                       safety_info)))"

definition check_travel_requirements ::
  "collaborator \<Rightarrow> collaborator \<Rightarrow> pystr \<Rightarrow> pystr \<Rightarrow> pystr run" where
  "check_travel_requirements check_visa_requirements get_safety_advisories origin_country
     destination_country =
     try_except (py ''Travel requirements check failed: '')
       (check_travel_requirements_body check_visa_requirements get_safety_advisories
          origin_country destination_country)"

section \<open>\<^verbatim>\<open>mcp_http_server_minimal.py\<close>\<close>

definition health_check :: "pystr run" where
  "health_check =
     pure (Return ([0x2705] @ py '' MCP Travel Assistant is running! Available tools: weather, places, restaurants, travel requirements.''))"

subsection \<open>\<^verbatim>\<open>get_weather\<close>\<close>

text \<open>\<^verbatim>\<open>v > n\<close> and \<^verbatim>\<open>v < n\<close> against an integer literal: defined on \<^verbatim>\<open>int\<close> and \<^verbatim>\<open>bool\<close>.\<close>

fun py_num :: "pyval \<Rightarrow> int option" where
  "py_num (PInt i) = Some i"
| "py_num (PBool b) = Some (if b then 1 else 0)"
| "py_num v = None"

definition not_supported :: "pystr \<Rightarrow> pyval \<Rightarrow> pyexc" where
  "not_supported operator v =
     TypeError ([39] @ operator @ [39] @ py '' not supported between instances of '' @ [39]
                @ type_name v @ [39] @ py '' and '' @ [39] @ py ''int'' @ [39])"

definition py_gt :: "pyval \<Rightarrow> int \<Rightarrow> bool outcome" where
  "py_gt v n = (case py_num v of Some i \<Rightarrow> Return (i > n) | None \<Rightarrow> Raise (not_supported (py ''>'') v))"

definition py_lt :: "pyval \<Rightarrow> int \<Rightarrow> bool outcome" where
  "py_lt v n = (case py_num v of Some i \<Rightarrow> Return (i < n) | None \<Rightarrow> Raise (not_supported (py ''<'') v))"

definition current_conditions :: "pyval \<Rightarrow> pystr outcome" where
  "current_conditions current =
     (if py_truthy current then
        obind (py_get current (py ''temperature'') (PStr (py ''N/A''))) (\<lambda>temp.
        obind (py_get current (py ''condition'') (PStr (py ''N/A''))) (\<lambda>condition.
        obind (py_get current (py ''humidity'') (PStr (py ''N/A''))) (\<lambda>humidity.
        obind (py_get current (py ''wind_speed'') (PStr (py ''N/A''))) (\<lambda>wind.
        Return (py ''**Current Conditions:**'' @ [10]
                @ [0x1F321, 0xFE0F] @ py '' '' @ py_str temp @ [0xB0] @ py ''C | '' @ py_str condition @ [10]
                @ [0x1F4A7] @ py '' Humidity: '' @ py_str humidity @ py ''% | '' @ [0x1F4A8]
                @ py '' Wind: '' @ py_str wind @ py '' km/h'' @ [10, 10])))))
      else Return [])"

definition daily_line :: "pyval \<Rightarrow> pystr outcome" where
  "daily_line day =
     obind (py_get day (py ''date'') (PStr [])) (\<lambda>date.
     obind (py_get day (py ''high_temp'') (PStr (py ''N/A''))) (\<lambda>high.
     obind (py_get day (py ''low_temp'') (PStr (py ''N/A''))) (\<lambda>low.
     obind (py_get day (py ''condition'') (PStr (py ''N/A''))) (\<lambda>condition.
     obind (py_get day (py ''rain_chance'') (PInt 0)) (\<lambda>rain_chance.
     obind (py_gt rain_chance 30) (\<lambda>rainy.
     Return ([0x1F4C5] @ py '' '' @ py_str date @ py '': '' @ py_str high @ py ''/'' @ py_str low
             @ [0xB0] @ py ''C | '' @ py_str condition
             @ (if rainy then py '' | '' @ [0x2614] @ py '' '' @ py_str rain_chance @ py ''% rain''
                else [])
             @ [10])))))))"

definition daily_forecast :: "pyval \<Rightarrow> pystr outcome" where
  "daily_forecast daily =
     (if py_truthy daily then
        obind (py_slice_to daily 7) (\<lambda>sl.
        obind (py_iter sl) (\<lambda>days.
        for_each (add_to daily_line) (py ''**7-Day Forecast:**'' @ [10]) days))
      else Return [])"

definition temperature_tip :: "pyval \<Rightarrow> pystr outcome" where
  "temperature_tip current =
     obind (py_get current (py ''temperature'') (PInt 0)) (\<lambda>t.
     obind (py_lt t 10) (\<lambda>cold.
     if cold then Return ([0x2022] @ py '' Pack warm clothing and layers'' @ [10])
     else
       obind (py_get current (py ''temperature'') (PInt 0)) (\<lambda>t'.
       obind (py_gt t' 30) (\<lambda>hot.
       if hot then Return ([0x2022] @ py '' Stay hydrated and wear sun protection'' @ [10])
       else Return []))))"

text \<open>\<^verbatim>\<open>any(day.get("rain_chance", 0) > 50 for day in ...)\<close> stops at the first true item.\<close>

fun any_rain :: "pyval list \<Rightarrow> bool outcome" where
  "any_rain [] = Return False"
| "any_rain (day # days) =
     obind (py_get day (py ''rain_chance'') (PInt 0)) (\<lambda>rain_chance.
     obind (py_gt rain_chance 50) (\<lambda>rainy.
     if rainy then Return True else any_rain days))"

definition rain_tip :: "pyval \<Rightarrow> pystr outcome" where
  "rain_tip daily =
     obind (py_slice_to daily 3) (\<lambda>sl.
     obind (py_iter sl) (\<lambda>days.
     obind (any_rain days) (\<lambda>rainy.
     Return (if rainy then [0x2022] @ py '' Bring rain gear or umbrella'' @ [10] else []))))"

definition weather_format_minimal :: "pystr \<Rightarrow> pyval \<Rightarrow> pystr outcome" where
  "weather_format_minimal location forecast =
     (if \<not> py_truthy forecast then
        Return ([0x274C] @ py '' Unable to get weather forecast for '' @ location)
      else
        obind (py_get forecast (py ''current'') (PDict [])) (\<lambda>current.
        obind (current_conditions current) (\<lambda>conditions.
        obind (py_get forecast (py ''daily'') (PList [])) (\<lambda>daily.
        obind (daily_forecast daily) (\<lambda>forecast_lines.
        obind (temperature_tip current) (\<lambda>tip1.
        obind (rain_tip daily) (\<lambda>tip2.
        Return ([0x1F324, 0xFE0F] @ py '' **Weather Forecast for '' @ location @ py ''**'' @ [10, 10]
                @ conditions @ forecast_lines
                @ [10, 0x1F392] @ py '' **Travel Tips:**'' @ [10]
                @ tip1 @ tip2))))))))"

definition get_weather_minimal_body :: "collaborator \<Rightarrow> pystr \<Rightarrow> pystr run" where
  "get_weather_minimal_body get_forecast location =
     rbind (call ''get_forecast'' get_forecast [PStr location] [])
       (\<lambda>forecast. pure (weather_format_minimal location forecast))"

definition get_weather_minimal :: "collaborator \<Rightarrow> pystr \<Rightarrow> pystr run" where
  "get_weather_minimal get_forecast location =
     try_except (py ''Weather forecast failed: '') (get_weather_minimal_body get_forecast location)"

subsection \<open>\<^verbatim>\<open>discover_places\<close>\<close>

text \<open>\<^verbatim>\<open>description[:150] + "..." if len(description) > 150 else description\<close>.\<close>

definition desc_short :: "pyval \<Rightarrow> pyval outcome" where
  "desc_short description =
     obind (py_len description) (\<lambda>n.
     if n > 150 then
       obind (py_slice_to description 150) (\<lambda>sl.
       case sl of
         PStr s \<Rightarrow> Return (PStr (s @ py ''...''))
       | v \<Rightarrow> Raise (TypeError (py ''can only concatenate list (not '' @ [34] @ py ''str'' @ [34]
                                  @ py '') to list'')))
     else Return description)"

definition place_entry_minimal :: "nat \<times> pyval \<Rightarrow> pystr outcome" where
  "place_entry_minimal p = (case p of (i, place) \<Rightarrow>
     obind (py_get place (py ''name'') (PStr (py ''Unknown Place''))) (\<lambda>name.
     obind (py_get place (py ''rating'') (PStr (py ''N/A''))) (\<lambda>rating.
     obind (py_get place (py ''address'') (PStr (py ''Address not available''))) (\<lambda>address.
     obind (py_get place (py ''description'') (PStr [])) (\<lambda>description.
     obind (if py_truthy description then
              obind (desc_short description) (\<lambda>short.
              Return (py ''   '' @ [0x1F4DD] @ py '' '' @ py_str short @ [10]))
            else Return []) (\<lambda>description_line.
     obind (py_get place (py ''types'') (PList [])) (\<lambda>place_type.
     obind (if py_truthy place_type then
              obind (py_slice_to place_type 2) (\<lambda>sl.
              obind (py_join (py '', '') sl) (\<lambda>joined.
              Return (py ''   '' @ [0x1F3F7, 0xFE0F] @ py '' '' @ joined @ [10])))
            else Return []) (\<lambda>types_line.
     Return (py ''**'' @ digits i @ py ''. '' @ py_str name @ py ''**'' @ [10]
             @ py ''   '' @ [0x2B50] @ py '' Rating: '' @ py_str rating
             @ py '' | '' @ [0x1F4CD] @ py '' '' @ py_str address @ [10]
             @ description_line @ types_line
             @ [10])))))))))"

definition no_places_minimal :: "pystr \<Rightarrow> pystr" where
  "no_places_minimal destination = [0x274C] @ py '' No places found in '' @ destination"

definition places_format_minimal :: "pystr \<Rightarrow> pystr option \<Rightarrow> pyval \<Rightarrow> pystr outcome" where
  "places_format_minimal destination category places =
     (if \<not> py_truthy places then Return (no_places_minimal destination)
      else
        obind (py_slice_to places 8) (\<lambda>sl.
        obind (py_iter sl) (\<lambda>items.
        for_each (add_to place_entry_minimal)
          ([0x1F30D] @ py '' **Places to Discover in '' @ destination @ py ''**'' @ [10]
           @ (case category of
                Some c \<Rightarrow> (if c \<noteq> [] then [0x1F4C2] @ py '' Category: '' @ str_title c @ [10, 10]
                            else [])
              | None \<Rightarrow> []))
          (enumerate 1 items))))"

text \<open>\<^verbatim>\<open>category or "tourist_attraction"\<close>.\<close>

definition category_or_default :: "pystr option \<Rightarrow> pystr" where
  "category_or_default category =
     (case category of
        Some c \<Rightarrow> (if c \<noteq> [] then c else py ''tourist_attraction'')
      | None \<Rightarrow> py ''tourist_attraction'')"

definition discover_places_minimal_body :: "collaborator \<Rightarrow> pystr \<Rightarrow> pystr option \<Rightarrow> pystr run" where
  "discover_places_minimal_body search_places destination category =
     rbind (call ''search_places'' search_places []
              [(''location'', PStr destination),
               (''category'', PStr (category_or_default category))])
       (\<lambda>places. pure (places_format_minimal destination category places))"

definition discover_places_minimal :: "collaborator \<Rightarrow> pystr \<Rightarrow> pystr option \<Rightarrow> pystr run" where
  "discover_places_minimal search_places destination category =
     try_except (py ''Places search failed: '')
       (discover_places_minimal_body search_places destination category)"

subsection \<open>\<^verbatim>\<open>find_restaurants\<close>\<close>

definition restaurant_entry_minimal :: "nat \<times> pyval \<Rightarrow> pystr outcome" where
  "restaurant_entry_minimal p = (case p of (i, restaurant) \<Rightarrow>
     obind (py_get restaurant (py ''name'') (PStr (py ''Unknown Restaurant''))) (\<lambda>name.
     obind (py_get restaurant (py ''rating'') (PStr (py ''N/A''))) (\<lambda>rating.
     obind (py_get restaurant (py ''cuisine'') (PStr [])) (\<lambda>cuisine.
     obind (py_get restaurant (py ''price_level'') (PStr [])) (\<lambda>price.
     obind (py_get restaurant (py ''address'') (PStr [])) (\<lambda>address.
     obind (py_get restaurant (py ''features'') (PList [])) (\<lambda>features.
     obind (if py_truthy features then
              obind (py_slice_to features 3) (\<lambda>sl.
              obind (py_join (py '', '') sl) (\<lambda>joined.
              Return (py ''   '' @ [0x2728] @ py '' '' @ joined @ [10])))
            else Return []) (\<lambda>features_line.
     Return (py ''**'' @ digits i @ py ''. '' @ py_str name @ py ''**'' @ [10]
             @ py ''   '' @ [0x2B50] @ py '' '' @ py_str rating
             @ (if py_truthy cuisine then py '' | '' @ [0x1F374] @ py '' '' @ py_str cuisine else [])
             @ (if py_truthy price then py '' | '' @ [0x1F4B0] @ py '' '' @ py_str price else [])
             @ [10]
             @ (if py_truthy address then py ''   '' @ [0x1F4CD] @ py '' '' @ py_str address @ [10]
                else [])
             @ features_line
             @ [10])))))))))"

definition restaurants_format_minimal ::
  "pystr \<Rightarrow> pystr option \<Rightarrow> pystr option \<Rightarrow> pyval \<Rightarrow> pystr outcome" where
  "restaurants_format_minimal location cuisine_type price_range restaurants =
     (if \<not> py_truthy restaurants then
        Return ([0x274C] @ py '' No restaurants found in '' @ location)
      else
        obind (py_slice_to restaurants 8) (\<lambda>sl.
        obind (py_iter sl) (\<lambda>items.
        for_each (add_to restaurant_entry_minimal)
          ([0x1F37D, 0xFE0F] @ py '' **Restaurant Recommendations in '' @ location @ py ''**'' @ [10]
           @ (case cuisine_type of
                Some c \<Rightarrow> (if c \<noteq> [] then [0x1F355] @ py '' Cuisine: '' @ str_title c @ [10] else [])
              | None \<Rightarrow> [])
           @ (case price_range of
                Some r \<Rightarrow> (if r \<noteq> [] then [0x1F4B0] @ py '' Price Range: '' @ str_title r @ [10]
                            else [])
              | None \<Rightarrow> [])
           @ [10])
          (enumerate 1 items))))"

definition find_restaurants_minimal_body ::
  "collaborator \<Rightarrow> pystr \<Rightarrow> pystr option \<Rightarrow> pystr option \<Rightarrow> pystr run" where
  "find_restaurants_minimal_body search_restaurants location cuisine_type price_range =
     rbind (call ''search_restaurants'' search_restaurants []
              [(''location'', PStr location),
               (''cuisine'', opt_str cuisine_type),
               (''price_range'', opt_str price_range)])
       (\<lambda>restaurants. pure (restaurants_format_minimal location cuisine_type price_range
                                restaurants))"

definition find_restaurants_minimal ::
  "collaborator \<Rightarrow> pystr \<Rightarrow> pystr option \<Rightarrow> pystr option \<Rightarrow> pystr run" where
  "find_restaurants_minimal search_restaurants location cuisine_type price_range =
     try_except (py ''Restaurant search failed: '')
       (find_restaurants_minimal_body search_restaurants location cuisine_type price_range)"

subsection \<open>\<^verbatim>\<open>check_travel_requirements\<close>\<close>

definition visa_section_minimal :: "pystr \<Rightarrow> pyval \<Rightarrow> pystr outcome" where
  "visa_section_minimal origin_country visa_info =
     (if py_truthy visa_info then
        obind (py_get visa_info (py ''visa_required'') (PStr (py ''Unknown''))) (\<lambda>visa_required.
        obind (py_get visa_info (py ''max_stay'') (PStr [])) (\<lambda>duration.
        obind (py_get visa_info (py ''requirements'') (PList [])) (\<lambda>requirements.
        obind (if py_truthy requirements then
                 obind (py_join (py '', '') requirements) (\<lambda>joined.
                 Return ([0x1F4C4] @ py '' Requirements: '' @ joined @ [10]))
               else Return []) (\<lambda>requirements_line.
        Return (py ''**'' @ [0x1F4CB] @ py '' Visa Requirements:**'' @ [10]
                @ (if visa_required = PStr (py ''no'') then
                     [0x2705] @ py '' No visa required for '' @ origin_country
                     @ py '' passport holders'' @ [10]
                   else if visa_required = PStr (py ''yes'') then
                     [0x1F194] @ py '' Visa required for '' @ origin_country
                     @ py '' passport holders'' @ [10]
                   else [0x2139, 0xFE0F] @ py '' Visa status: '' @ py_str visa_required @ [10])
                @ (if py_truthy duration then
                     [0x23F1, 0xFE0F] @ py '' Maximum stay: '' @ py_str duration @ [10]
                   else [])
                @ requirements_line)))))
      else Return [])"

definition safety_level_line :: "pyval \<Rightarrow> pystr outcome" where
  "safety_level_line advisory_level =
     (if py_truthy advisory_level then
        obind (py_lower advisory_level) (\<lambda>low.
        Return ((if str_in (py ''low'') low then [0x1F7E2]
                 else if str_in (py ''medium'') low then [0x1F7E1]
                 else if str_in (py ''high'') low then [0x1F534]
                 else [0x1F4CA])
                @ py '' Safety Level: '' @ py_str advisory_level @ [10]))
      else Return [])"

definition vaccines_line :: "pyval \<Rightarrow> pystr outcome" where
  "vaccines_line health =
     (if py_truthy health then
        obind (py_get health (py ''recommended_vaccines'') (PList [])) (\<lambda>vaccines.
        if py_truthy vaccines then
          obind (py_join (py '', '') vaccines) (\<lambda>joined.
          Return ([0x1F489] @ py '' Recommended vaccines: '' @ joined @ [10]))
        else Return [])
      else Return [])"

definition safety_section_minimal :: "pyval \<Rightarrow> pystr outcome" where
  "safety_section_minimal safety_info =
     (if py_truthy safety_info then
        obind (py_get safety_info (py ''advisory_level'') (PStr [])) (\<lambda>advisory_level.
        obind (py_get safety_info (py ''summary'') (PStr [])) (\<lambda>summary.
        obind (safety_level_line advisory_level) (\<lambda>level_line.
        obind (py_get safety_info (py ''health'') (PDict [])) (\<lambda>health.
        obind (vaccines_line health) (\<lambda>vaccines.
        Return (py ''**'' @ [0x26A0, 0xFE0F] @ py '' Safety Information:**'' @ [10]
                @ level_line
                @ (if py_truthy summary then [0x1F4F0] @ py '' '' @ py_str summary @ [10] else [])
                @ vaccines))))))
      else Return [])"

definition requirements_format_minimal :: "pystr \<Rightarrow> pystr \<Rightarrow> pyval \<Rightarrow> pyval \<Rightarrow> pystr outcome" where
  "requirements_format_minimal destination_country origin_country visa_info safety_info =
     obind (visa_section_minimal origin_country visa_info) (\<lambda>visa.
     obind (safety_section_minimal safety_info) (\<lambda>safety.
     Return ([0x1F6C2] @ py '' **Travel Requirements: '' @ origin_country @ py '' '' @ [0x2192]
             @ py '' '' @ destination_country @ py ''**'' @ [10, 10]
             @ visa @ [10] @ safety
             @ [10, 0x1F50D]
             @ py '' **Always verify current requirements with official embassy sources before travel.**'')))"

definition check_travel_requirements_minimal_body ::
  "collaborator \<Rightarrow> collaborator \<Rightarrow> pystr \<Rightarrow> pystr \<Rightarrow> pystr run" where
  "check_travel_requirements_minimal_body check_visa_requirements get_safety_advisories
     destination_country origin_country =
     rbind (call ''check_visa_requirements'' check_visa_requirements
              [PStr origin_country, PStr destination_country] [])
       (\<lambda>visa_info.
          rbind (call ''get_safety_advisories'' get_safety_advisories
                   [PStr destination_country] [])
            (\<lambda>safety_info.
               pure (requirements_format_minimal destination_country origin_country visa_info
                       safety_info)))"

definition check_travel_requirements_minimal ::
  "collaborator \<Rightarrow> collaborator \<Rightarrow> pystr \<Rightarrow> pystr \<Rightarrow> pystr run" where
  "check_travel_requirements_minimal check_visa_requirements get_safety_advisories
     destination_country origin_country =
     try_except (py ''Travel requirements check failed: '')
       (check_travel_requirements_minimal_body check_visa_requirements get_safety_advisories
          destination_country origin_country)"

section \<open>\<^verbatim>\<open>mcp_server.py\<close>\<close>

text \<open>
  The handlers of the stdio server take the argument mapping itself (\<^verbatim>\<open>**kwargs\<close>), read
  it with \<^verbatim>\<open>kwargs["name"]\<close> and \<^verbatim>\<open>kwargs.get("name", default)\<close>, and have no
  \<^verbatim>\<open>try\<close> statement. Their result is \<^verbatim>\<open>[TextContent(type="text",
  text=json.dumps(payload))]\<close>, with \<^verbatim>\<open>json.dumps\<close> in its default configuration
  (\<^verbatim>\<open>ensure_ascii\<close>, separators \<^verbatim>\<open>", "\<close> and \<^verbatim>\<open>": "\<close>).
\<close>

type_synonym kwargs_dict = "(string \<times> pyval) list"

datatype text_content = TextContent pystr pystr

definition hex4 :: "nat \<Rightarrow> pystr" where
  "hex4 n = [hex_digit (n div 4096 mod 16), hex_digit (n div 256 mod 16),
             hex_digit (n div 16 mod 16), hex_digit (n mod 16)]"

definition json_char :: "nat \<Rightarrow> pystr" where
  "json_char c =
     (if c = 34 then [92, 34]
      else if c = 92 then [92, 92]
      else if c = 10 then [92, 110]
      else if c = 13 then [92, 114]
      else if c = 9 then [92, 116]
      else if c = 8 then [92, 98]
      else if c = 12 then [92, 102]
      else if 32 \<le> c \<and> c \<le> 126 then [c]
      else if c < 65536 then [92, 117] @ hex4 c
      else [92, 117] @ hex4 (55296 + (c - 65536) div 1024 mod 1024)
           @ [92, 117] @ hex4 (56320 + (c - 65536) mod 1024))"

definition json_string :: "pystr \<Rightarrow> pystr" where
  "json_string s = [34] @ concat (map json_char s) @ [34]"

fun json_dumps :: "pyval \<Rightarrow> pystr" where
  "json_dumps PNone = py ''null''"
| "json_dumps (PBool b) = (if b then py ''true'' else py ''false'')"
| "json_dumps (PInt i) = int_str i"
| "json_dumps (PStr s) = json_string s"
| "json_dumps (PList xs) = py ''['' @ join_strs (py '', '') (map json_dumps xs) @ py '']''"
| "json_dumps (PDict kvs) =
     py ''{'' @ join_strs (py '', '')
        (map (\<lambda>kv. json_string (fst kv) @ py '': '' @ json_dumps (snd kv)) kvs) @ py ''}''"

definition json_content :: "pyval \<Rightarrow> text_content list" where
  "json_content payload = [TextContent (py ''text'') (json_dumps payload)]"

definition KeyError :: "string \<Rightarrow> pyexc" where
  "KeyError key = PyException (py ''KeyError'') (repr_str (py key))"

text \<open>\<^verbatim>\<open>kwargs["name"]\<close>.\<close>

definition subscript :: "kwargs_dict \<Rightarrow> string \<Rightarrow> pyval outcome" where
  "subscript kws key = (case map_of kws key of None \<Rightarrow> Raise (KeyError key) | Some v \<Rightarrow> Return v)"

text \<open>\<^verbatim>\<open>kwargs.get("name", default)\<close>.\<close>

definition get_or :: "kwargs_dict \<Rightarrow> string \<Rightarrow> pyval \<Rightarrow> pyval" where
  "get_or kws key dflt = (case map_of kws key of None \<Rightarrow> dflt | Some v \<Rightarrow> v)"

definition tool_get_weather ::
  "collaborator \<Rightarrow> kwargs_dict \<Rightarrow> text_content list run" where
  "tool_get_weather get_forecast kws =
     rbind (pure (subscript kws ''location'')) (\<lambda>location.
     rbind (call ''get_forecast'' get_forecast [location] []) (\<lambda>forecast.
     pure (Return (json_content forecast))))"

definition tool_discover_places ::
  "collaborator \<Rightarrow> kwargs_dict \<Rightarrow> text_content list run" where
  "tool_discover_places svc_search_places kws =
     rbind (pure (subscript kws ''destination'')) (\<lambda>destination.
     rbind (call ''search_places'' svc_search_places []
              [(''location'', destination),
               (''category'', get_or kws ''category'' (PStr (py ''tourist_attraction'')))]) (\<lambda>places.
     pure (Return (json_content places))))"

definition tool_find_restaurants ::
  "collaborator \<Rightarrow> kwargs_dict \<Rightarrow> text_content list run" where
  "tool_find_restaurants svc_search_restaurants kws =
     rbind (pure (subscript kws ''location'')) (\<lambda>location.
     rbind (call ''search_restaurants'' svc_search_restaurants []
              [(''location'', location),
               (''cuisine'', get_or kws ''cuisine_type'' PNone),
               (''price_range'', get_or kws ''price_range'' PNone)]) (\<lambda>restaurants.
     pure (Return (json_content restaurants))))"

definition tool_check_travel_requirements ::
  "collaborator \<Rightarrow> collaborator \<Rightarrow> kwargs_dict \<Rightarrow> text_content list run" where
  "tool_check_travel_requirements check_visa_requirements get_safety_advisories kws =
     rbind (pure (subscript kws ''origin_country'')) (\<lambda>origin_country.
     rbind (pure (subscript kws ''destination_country'')) (\<lambda>destination_country.
     rbind (call ''check_visa_requirements'' check_visa_requirements
              [origin_country, destination_country] []) (\<lambda>visa_info.
     rbind (pure (subscript kws ''destination_country'')) (\<lambda>destination_country'.
     rbind (call ''get_safety_advisories'' get_safety_advisories [destination_country'] []) (\<lambda>safety_info.
     pure (Return (json_content
             (PDict [(py ''visa_requirements'', visa_info),
                     (py ''safety_advisories'', safety_info)]))))))))"

section \<open>Binding a call to a collaborator's parameters\<close>

text \<open>
  What Python does when an \<^verbatim>\<open>async def f(p1, ..., pn)\<close> is called: the positional arguments
  go to the first parameters; each keyword is looked up among the parameter names, in the
  order of the call, and the call fails at the first keyword that names no parameter or a
  parameter already given; then too many positional arguments fail; then the parameters
  without a value and without a default fail together. A parameter is its name and its
  default, if it has one. Nothing of this runs before the call itself.
\<close>

record signature =
  fname :: string
  params :: "(string \<times> pyval option) list"

definition quoted :: "string \<Rightarrow> pystr" where
  "quoted n = [39] @ py n @ [39]"

fun names_text :: "string list \<Rightarrow> pystr" where
  "names_text [] = []"
| "names_text [a] = quoted a"
| "names_text [a, b] = quoted a @ py '' and '' @ quoted b"
| "names_text ns =
     join_strs (py '', '') (map quoted (butlast ns)) @ py '', and '' @ quoted (last ns)"

definition unexpected_keyword :: "signature \<Rightarrow> string \<Rightarrow> pyexc" where
  "unexpected_keyword sig k =
     TypeError (py (fname sig) @ py ''() got an unexpected keyword argument '' @ quoted k)"

definition multiple_values :: "signature \<Rightarrow> string \<Rightarrow> pyexc" where
  "multiple_values sig k =
     TypeError (py (fname sig) @ py ''() got multiple values for argument '' @ quoted k)"

definition too_many_positional :: "signature \<Rightarrow> nat \<Rightarrow> pyexc" where
  "too_many_positional sig given =
     (let n = length (params sig);
          r = length (filter (\<lambda>p. snd p = None) (params sig))
      in TypeError (py (fname sig) @ py ''() takes ''
           @ (if r = n then digits n @ py '' positional argument'' @ (if n = 1 then [] else py ''s'')
              else py ''from '' @ digits r @ py '' to '' @ digits n @ py '' positional arguments'')
           @ py '' but '' @ digits given
           @ (if given = 1 then py '' was given'' else py '' were given'')))"

definition missing_arguments :: "signature \<Rightarrow> string list \<Rightarrow> pyexc" where
  "missing_arguments sig ns =
     TypeError (py (fname sig) @ py ''() missing '' @ digits (length ns)
       @ py '' required positional argument'' @ (if length ns = 1 then [] else py ''s'')
       @ py '': '' @ names_text ns)"

definition bind_call ::
  "signature \<Rightarrow> pyval list \<Rightarrow> (string \<times> pyval) list \<Rightarrow> pyexc + (string \<times> pyval) list" where
  "bind_call sig as kws =
     (let names = map fst (params sig);
          positional = take (length as) names
      in case find (\<lambda>kv. fst kv \<notin> set names \<or> fst kv \<in> set positional) kws of
           Some kv \<Rightarrow>
             Inl (if fst kv \<notin> set names then unexpected_keyword sig (fst kv)
                  else multiple_values sig (fst kv))
         | None \<Rightarrow>
             if length names < length as then Inl (too_many_positional sig (length as))
             else
               (let missing =
                      map fst (filter (\<lambda>p. snd p = None \<and> fst p \<notin> set positional
                                            \<and> map_of kws (fst p) = None) (params sig))
                in if missing \<noteq> [] then Inl (missing_arguments sig missing)
                   else Inr (zip names as @ kws
                             @ concat (map (\<lambda>p. case snd p of None \<Rightarrow> [] | Some d \<Rightarrow> [(fst p, d)])
                                         (params sig)))))"

text \<open>A collaborator that is a Python function: its parameters and what its body does.\<close>

definition py_function ::
  "signature \<Rightarrow> ((string \<times> pyval) list \<Rightarrow> pyval outcome) \<Rightarrow> collaborator" where
  "py_function sig body as kws =
     (case bind_call sig as kws of Inl e \<Rightarrow> Raise e | Inr env \<Rightarrow> body env)"

text \<open>
  Some parameter of \<open>sig\<close> has no default, is not among the first \<open>n\<close> parameters, which
  \<open>n\<close> positional arguments fill, and is none of the keyword names \<open>sources\<close> of the call.
\<close>

definition required_unmapped :: "signature \<Rightarrow> nat \<Rightarrow> string list \<Rightarrow> bool" where
  "required_unmapped sig n sources =
     (\<exists>p \<in> set (params sig).
        snd p = None \<and> fst p \<notin> set (take n (map fst (params sig))) \<and> fst p \<notin> set sources)"

text \<open>
  \<^verbatim>\<open>services/flights_api.py\<close> and \<^verbatim>\<open>services/hotels_api.py\<close> are not among the sources.
  \<^verbatim>\<open>PARAMETER_FIXES.py\<close> quotes their definitions as
  \<^verbatim>\<open>async def search_flights(origin, destination, date, adults=1, ...)\<close> and
  \<^verbatim>\<open>async def search_hotels(location, check_in, check_out, adults=1, ...)\<close>, and gives the
  calls that fit them, which pass \<^verbatim>\<open>cabin_class\<close>, and \<^verbatim>\<open>min_rating\<close> and
  \<^verbatim>\<open>accommodation_type\<close>, too. The defaults of these last parameters are not quoted; they
  are taken to be \<^verbatim>\<open>"economy"\<close> and \<^verbatim>\<open>None\<close>.
\<close>

definition search_flights_sig :: signature where
  "search_flights_sig =
     \<lparr>fname = ''search_flights'',
      params = [(''origin'', None), (''destination'', None), (''date'', None),
                (''adults'', Some (PInt 1)), (''cabin_class'', Some (PStr (py ''economy'')))]\<rparr>"

definition search_hotels_sig :: signature where
  "search_hotels_sig =
     \<lparr>fname = ''search_hotels'',
      params = [(''location'', None), (''check_in'', None), (''check_out'', None),
                (''adults'', Some (PInt 1)), (''min_rating'', Some PNone),
                (''accommodation_type'', Some PNone)]\<rparr>"

subsection \<open>The handlers as Python functions\<close>

text \<open>
  The handlers of \<^verbatim>\<open>mcp_http_server.py\<close> and \<^verbatim>\<open>mcp_http_server_minimal.py\<close> are
  \<^verbatim>\<open>async def\<close> functions with declared parameters; these are their names and defaults,
  from the \<^verbatim>\<open>def\<close> lines, in the order of the files. (The annotations of the parameters
  are not checked by Python when a function is called.)
\<close>

definition http_signatures :: "signature list" where
  "http_signatures =
     [\<lparr>fname = ''validate'', params = []\<rparr>,
      \<lparr>fname = ''plan_trip'',
       params = [(''origin'', None), (''destination'', None), (''start_date'', None),
                 (''end_date'', None), (''adults'', Some (PInt 1)), (''budget'', Some PNone),
                 (''activities'', Some (PList [])), (''accommodation_type'', Some PNone),
                 (''dietary_restrictions'', Some (PList []))]\<rparr>,
      \<lparr>fname = ''get_weather'', params = [(''location'', None), (''days'', Some (PInt 5))]\<rparr>,
      \<lparr>fname = ''search_hotel_options'',
       params = [(''destination'', None), (''check_in'', None), (''check_out'', None),
                 (''adults'', Some (PInt 1)), (''min_rating'', Some PNone),
                 (''accommodation_type'', Some PNone)]\<rparr>,
      \<lparr>fname = ''search_flight_options'',
       params = [(''origin'', None), (''destination'', None), (''departure_date'', None),
                 (''return_date'', Some PNone), (''adults'', Some (PInt 1)),
                 (''cabin_class'', Some (PStr (py ''economy'')))]\<rparr>,
      \<lparr>fname = ''discover_places'',
       params = [(''destination'', None), (''activity_type'', Some PNone),
                 (''limit'', Some (PInt 10))]\<rparr>,
      \<lparr>fname = ''find_restaurants'',
       params = [(''destination'', None), (''cuisine_types'', Some (PList [])),
                 (''dietary_restrictions'', Some (PList [])), (''price_range'', Some PNone)]\<rparr>,
      \<lparr>fname = ''check_travel_requirements'',
       params = [(''origin_country'', None), (''destination_country'', None)]\<rparr>]"

definition minimal_signatures :: "signature list" where
  "minimal_signatures =
     [\<lparr>fname = ''health_check'', params = []\<rparr>,
      \<lparr>fname = ''get_weather'', params = [(''location'', None)]\<rparr>,
      \<lparr>fname = ''discover_places'',
       params = [(''destination'', None), (''category'', Some PNone)]\<rparr>,
      \<lparr>fname = ''find_restaurants'',
       params = [(''location'', None), (''cuisine_type'', Some PNone),
                 (''price_range'', Some PNone)]\<rparr>,
      \<lparr>fname = ''check_travel_requirements'',
       params = [(''destination_country'', None), (''origin_country'', None)]\<rparr>]"

text \<open>
  Calling such a function with the keyword arguments \<open>kws\<close>: the arguments are bound to the
  parameters, and the body runs on the bound arguments if that succeeds. What FastMCP does
  with the arguments of a request before it calls the handler is library code and not
  part of the sources.
\<close>

definition call_handler ::
  "signature \<Rightarrow> ((string \<times> pyval) list \<Rightarrow> 'a run) \<Rightarrow> (string \<times> pyval) list \<Rightarrow> 'a run" where
  "call_handler sig body kws =
     (case bind_call sig [] kws of Inl e \<Rightarrow> ([], Raise e) | Inr env \<Rightarrow> body env)"

text \<open>The parameters without a default that the keyword arguments \<open>kws\<close> leave without a value.\<close>

definition missing_required :: "signature \<Rightarrow> (string \<times> pyval) list \<Rightarrow> string list" where
  "missing_required sig kws =
     map fst (filter (\<lambda>p. snd p = None \<and> map_of kws (fst p) = None) (params sig))"

text \<open>
  The callee of a call, the number of its positional arguments and the names of its keyword
  arguments: what the text of the call fixes, whatever the values are.
\<close>

definition call_shape :: "pcall \<Rightarrow> string \<times> nat \<times> string list" where
  "call_shape c = (callee c, length (args c), map fst (kwargs c))"

section \<open>The three servers\<close>

text \<open>
  The collaborators a server module imports, and \<^verbatim>\<open>MY_NUMBER\<close> from its environment.
\<close>

record services =
  generate_itinerary :: collaborator
  search_flights :: collaborator
  search_hotels :: collaborator
  get_forecast :: collaborator
  search_places :: collaborator
  search_restaurants :: collaborator
  check_visa_requirements :: collaborator
  get_safety_advisories :: collaborator
  MY_NUMBER :: pystr

text \<open>
  The tools \<^verbatim>\<open>mcp_http_server.py\<close> registers with \<^verbatim>\<open>@mcp.tool\<close>, in the order of the
  file, each with the arguments its signature declares.
\<close>

datatype http_tool =
    Validate
  | Plan_trip pystr pystr pystr pystr int pyval "pystr list" "pystr option" "pystr list"
  | Get_weather pystr int
  | Search_hotel_options pystr pystr pystr int pyval "pystr option"
  | Search_flight_options pystr pystr pystr "pystr option" int pystr
  | Discover_places pystr "pystr option" int
  | Find_restaurants pystr "pystr list" "pystr list" "pystr option"
  | Check_travel_requirements pystr pystr

fun http_server :: "services \<Rightarrow> http_tool \<Rightarrow> pystr run" where
  "http_server sv Validate = validate (MY_NUMBER sv)"
| "http_server sv (Plan_trip origin destination start_date end_date adults budget activities
                     accommodation_type dietary_restrictions) =
     plan_trip (generate_itinerary sv) origin destination start_date end_date adults budget
       activities accommodation_type dietary_restrictions"
| "http_server sv (Get_weather location days) = get_weather (get_forecast sv) location days"
| "http_server sv (Search_hotel_options destination check_in check_out adults min_rating
                     accommodation_type) =
     search_hotel_options (search_hotels sv) destination check_in check_out adults min_rating
       accommodation_type"
| "http_server sv (Search_flight_options origin destination departure_date return_date adults
                     cabin_class) =
     search_flight_options (search_flights sv) origin destination departure_date return_date
       adults cabin_class"
| "http_server sv (Discover_places destination activity_type limit) =
     discover_places (search_places sv) destination activity_type limit"
| "http_server sv (Find_restaurants destination cuisine_types dietary_restrictions price_range) =
     find_restaurants (search_restaurants sv) destination cuisine_types dietary_restrictions
       price_range"
| "http_server sv (Check_travel_requirements origin_country destination_country) =
     check_travel_requirements (check_visa_requirements sv) (get_safety_advisories sv)
       origin_country destination_country"

text \<open>
  The statements under \<^verbatim>\<open>try\<close> of the tool an invocation names, without the
  \<^verbatim>\<open>except\<close> clause around them; \<^verbatim>\<open>validate\<close> has no \<^verbatim>\<open>try\<close>.
\<close>

fun http_body :: "services \<Rightarrow> http_tool \<Rightarrow> pystr run" where
  "http_body sv Validate = validate (MY_NUMBER sv)"
| "http_body sv (Plan_trip origin destination start_date end_date adults budget activities
                     accommodation_type dietary_restrictions) =
     plan_trip_body (generate_itinerary sv) origin destination start_date end_date adults budget
       activities accommodation_type dietary_restrictions"
| "http_body sv (Get_weather location days) = get_weather_body (get_forecast sv) location days"
| "http_body sv (Search_hotel_options destination check_in check_out adults min_rating
                     accommodation_type) =
     search_hotel_options_body (search_hotels sv) destination check_in check_out adults min_rating
       accommodation_type"
| "http_body sv (Search_flight_options origin destination departure_date return_date adults
                     cabin_class) =
     search_flight_options_body (search_flights sv) origin destination departure_date return_date
       adults cabin_class"
| "http_body sv (Discover_places destination activity_type limit) =
     discover_places_body (search_places sv) destination activity_type limit"
| "http_body sv (Find_restaurants destination cuisine_types dietary_restrictions price_range) =
     find_restaurants_body (search_restaurants sv) destination cuisine_types dietary_restrictions
       price_range"
| "http_body sv (Check_travel_requirements origin_country destination_country) =
     check_travel_requirements_body (check_visa_requirements sv) (get_safety_advisories sv)
       origin_country destination_country"

fun http_name :: "http_tool \<Rightarrow> string" where
  "http_name Validate = ''validate''"
| "http_name (Plan_trip a b c d e f g h i) = ''plan_trip''"
| "http_name (Get_weather a b) = ''get_weather''"
| "http_name (Search_hotel_options a b c d e f) = ''search_hotel_options''"
| "http_name (Search_flight_options a b c d e f) = ''search_flight_options''"
| "http_name (Discover_places a b c) = ''discover_places''"
| "http_name (Find_restaurants a b c d) = ''find_restaurants''"
| "http_name (Check_travel_requirements a b) = ''check_travel_requirements''"

text \<open>The text before \<^verbatim>\<open>str(e)\<close> in the tool's \<^verbatim>\<open>except\<close> clause, if it has one.\<close>

fun http_label :: "http_tool \<Rightarrow> pystr option" where
  "http_label Validate = None"
| "http_label (Plan_trip a b c d e f g h i) = Some (py ''Trip planning failed: '')"
| "http_label (Get_weather a b) = Some (py ''Weather lookup failed: '')"
| "http_label (Search_hotel_options a b c d e f) = Some (py ''Hotel search failed: '')"
| "http_label (Search_flight_options a b c d e f) = Some (py ''Flight search failed: '')"
| "http_label (Discover_places a b c) = Some (py ''Places search failed: '')"
| "http_label (Find_restaurants a b c d) = Some (py ''Restaurant search failed: '')"
| "http_label (Check_travel_requirements a b) = Some (py ''Travel requirements check failed: '')"

text \<open>The tools of \<^verbatim>\<open>mcp_http_server_minimal.py\<close>.\<close>

datatype minimal_tool =
    Health_check
  | Get_weather_minimal pystr
  | Discover_places_minimal pystr "pystr option"
  | Find_restaurants_minimal pystr "pystr option" "pystr option"
  | Check_travel_requirements_minimal pystr pystr

fun minimal_server :: "services \<Rightarrow> minimal_tool \<Rightarrow> pystr run" where
  "minimal_server sv Health_check = health_check"
| "minimal_server sv (Get_weather_minimal location) = get_weather_minimal (get_forecast sv) location"
| "minimal_server sv (Discover_places_minimal destination category) =
     discover_places_minimal (search_places sv) destination category"
| "minimal_server sv (Find_restaurants_minimal location cuisine_type price_range) =
     find_restaurants_minimal (search_restaurants sv) location cuisine_type price_range"
| "minimal_server sv (Check_travel_requirements_minimal destination_country origin_country) =
     check_travel_requirements_minimal (check_visa_requirements sv) (get_safety_advisories sv)
       destination_country origin_country"

text \<open>
  The statements under \<^verbatim>\<open>try\<close> of a tool of the minimal server; \<^verbatim>\<open>health_check\<close> has
  no \<^verbatim>\<open>try\<close>.
\<close>

fun minimal_body :: "services \<Rightarrow> minimal_tool \<Rightarrow> pystr run" where
  "minimal_body sv Health_check = health_check"
| "minimal_body sv (Get_weather_minimal location) =
     get_weather_minimal_body (get_forecast sv) location"
| "minimal_body sv (Discover_places_minimal destination category) =
     discover_places_minimal_body (search_places sv) destination category"
| "minimal_body sv (Find_restaurants_minimal location cuisine_type price_range) =
     find_restaurants_minimal_body (search_restaurants sv) location cuisine_type price_range"
| "minimal_body sv (Check_travel_requirements_minimal destination_country origin_country) =
     check_travel_requirements_minimal_body (check_visa_requirements sv) (get_safety_advisories sv)
       destination_country origin_country"

fun minimal_name :: "minimal_tool \<Rightarrow> string" where
  "minimal_name Health_check = ''health_check''"
| "minimal_name (Get_weather_minimal a) = ''get_weather''"
| "minimal_name (Discover_places_minimal a b) = ''discover_places''"
| "minimal_name (Find_restaurants_minimal a b c) = ''find_restaurants''"
| "minimal_name (Check_travel_requirements_minimal a b) = ''check_travel_requirements''"

fun minimal_label :: "minimal_tool \<Rightarrow> pystr option" where
  "minimal_label Health_check = None"
| "minimal_label (Get_weather_minimal a) = Some (py ''Weather forecast failed: '')"
| "minimal_label (Discover_places_minimal a b) = Some (py ''Places search failed: '')"
| "minimal_label (Find_restaurants_minimal a b c) = Some (py ''Restaurant search failed: '')"
| "minimal_label (Check_travel_requirements_minimal a b) =
     Some (py ''Travel requirements check failed: '')"

text \<open>
  The tools of \<^verbatim>\<open>mcp_server.py\<close>, and the \<^verbatim>\<open>"required"\<close> list of the \<^verbatim>\<open>input_schema\<close>
  each is registered with.
\<close>

datatype stdio_tool =
    Tool_get_weather
  | Tool_discover_places
  | Tool_find_restaurants
  | Tool_check_travel_requirements

fun stdio_server :: "services \<Rightarrow> stdio_tool \<Rightarrow> kwargs_dict \<Rightarrow> text_content list run" where
  "stdio_server sv Tool_get_weather kws = tool_get_weather (get_forecast sv) kws"
| "stdio_server sv Tool_discover_places kws = tool_discover_places (search_places sv) kws"
| "stdio_server sv Tool_find_restaurants kws = tool_find_restaurants (search_restaurants sv) kws"
| "stdio_server sv Tool_check_travel_requirements kws =
     tool_check_travel_requirements (check_visa_requirements sv) (get_safety_advisories sv) kws"

fun stdio_required :: "stdio_tool \<Rightarrow> string list" where
  "stdio_required Tool_get_weather = [''location'']"
| "stdio_required Tool_discover_places = [''destination'']"
| "stdio_required Tool_find_restaurants = [''location'']"
| "stdio_required Tool_check_travel_requirements = [''destination_country'', ''origin_country'']"

subsection \<open>The calls an invocation is written to make\<close>

text \<open>
  The collaborator calls in the text of each handler, in the order of the text, with the
  arguments they are written with.
\<close>

fun http_planned :: "http_tool \<Rightarrow> pcall list" where
  "http_planned Validate = []"
| "http_planned (Plan_trip origin destination start_date end_date adults budget activities
                   accommodation_type dietary_restrictions) =
     [\<lparr>callee = ''generate_itinerary'',
       args = [PDict [(py ''origin'', PStr origin),
                      (py ''destination'', PStr destination),
                      (py ''start_date'', PStr start_date),
                      (py ''end_date'', PStr end_date),
                      (py ''adults'', PInt adults),
                      (py ''budget'', budget),
                      (py ''activities'', str_list activities),
                      (py ''accommodation_type'', opt_str accommodation_type),
                      (py ''dietary_restrictions'', str_list dietary_restrictions),
                      (py ''avoid_bad_weather'', PBool True),
                      (py ''language'', PStr (py ''en''))]],
       kwargs = []\<rparr>]"
| "http_planned (Get_weather location days) =
     [\<lparr>callee = ''get_forecast'', args = [PStr location], kwargs = []\<rparr>]"
| "http_planned (Search_hotel_options destination check_in check_out adults min_rating
                   accommodation_type) =
     [\<lparr>callee = ''search_hotels'', args = [],
       kwargs = [(''destination'', PStr destination),
                 (''check_in'', PStr check_in),
                 (''check_out'', PStr check_out),
                 (''adults'', PInt adults),
                 (''min_rating'', min_rating),
                 (''accommodation_type'', opt_str accommodation_type)]\<rparr>]"
| "http_planned (Search_flight_options origin destination departure_date return_date adults
                   cabin_class) =
     [\<lparr>callee = ''search_flights'', args = [],
       kwargs = [(''origin'', PStr origin),
                 (''destination'', PStr destination),
                 (''departure_date'', PStr departure_date),
                 (''adults'', PInt adults),
                 (''cabin_class'', PStr cabin_class)]\<rparr>]"
| "http_planned (Discover_places destination activity_type limit) =
     [\<lparr>callee = ''search_places'', args = [PStr (places_query destination activity_type)],
       kwargs = []\<rparr>]"
| "http_planned (Find_restaurants destination cuisine_types dietary_restrictions price_range) =
     [\<lparr>callee = ''search_restaurants'', args = [],
       kwargs = [(''city'', PStr destination),
                 (''cuisine_types'', str_list cuisine_types),
                 (''price_range'', opt_str price_range),
                 (''dietary_restrictions'', str_list dietary_restrictions)]\<rparr>]"
| "http_planned (Check_travel_requirements origin_country destination_country) =
     [\<lparr>callee = ''check_visa_requirements'',
       args = [PStr origin_country, PStr destination_country], kwargs = []\<rparr>,
      \<lparr>callee = ''get_safety_advisories'', args = [PStr destination_country], kwargs = []\<rparr>]"

fun minimal_planned :: "minimal_tool \<Rightarrow> pcall list" where
  "minimal_planned Health_check = []"
| "minimal_planned (Get_weather_minimal location) =
     [\<lparr>callee = ''get_forecast'', args = [PStr location], kwargs = []\<rparr>]"
| "minimal_planned (Discover_places_minimal destination category) =
     [\<lparr>callee = ''search_places'', args = [],
       kwargs = [(''location'', PStr destination),
                 (''category'', PStr (category_or_default category))]\<rparr>]"
| "minimal_planned (Find_restaurants_minimal location cuisine_type price_range) =
     [\<lparr>callee = ''search_restaurants'', args = [],
       kwargs = [(''location'', PStr location),
                 (''cuisine'', opt_str cuisine_type),
                 (''price_range'', opt_str price_range)]\<rparr>]"
| "minimal_planned (Check_travel_requirements_minimal destination_country origin_country) =
     [\<lparr>callee = ''check_visa_requirements'',
       args = [PStr origin_country, PStr destination_country], kwargs = []\<rparr>,
      \<lparr>callee = ''get_safety_advisories'', args = [PStr destination_country], kwargs = []\<rparr>]"

text \<open>
  For the stdio server the arguments of the calls are read from the argument mapping; the
  list is there when the \<^verbatim>\<open>kwargs["..."]\<close> it needs are.
\<close>

fun stdio_planned :: "stdio_tool \<Rightarrow> kwargs_dict \<Rightarrow> pcall list option" where
  "stdio_planned Tool_get_weather kws =
     (case map_of kws ''location'' of
        None \<Rightarrow> None
      | Some location \<Rightarrow> Some [\<lparr>callee = ''get_forecast'', args = [location], kwargs = []\<rparr>])"
| "stdio_planned Tool_discover_places kws =
     (case map_of kws ''destination'' of
        None \<Rightarrow> None
      | Some destination \<Rightarrow>
          Some [\<lparr>callee = ''search_places'', args = [],
                 kwargs = [(''location'', destination),
                           (''category'', get_or kws ''category'' (PStr (py ''tourist_attraction'')))]\<rparr>])"
| "stdio_planned Tool_find_restaurants kws =
     (case map_of kws ''location'' of
        None \<Rightarrow> None
      | Some location \<Rightarrow>
          Some [\<lparr>callee = ''search_restaurants'', args = [],
                 kwargs = [(''location'', location),
                           (''cuisine'', get_or kws ''cuisine_type'' PNone),
                           (''price_range'', get_or kws ''price_range'' PNone)]\<rparr>])"
| "stdio_planned Tool_check_travel_requirements kws =
     (case (map_of kws ''origin_country'', map_of kws ''destination_country'') of
        (Some origin_country, Some destination_country) \<Rightarrow>
          Some [\<lparr>callee = ''check_visa_requirements'',
                  args = [origin_country, destination_country], kwargs = []\<rparr>,
                \<lparr>callee = ''get_safety_advisories'', args = [destination_country], kwargs = []\<rparr>]
      | _ \<Rightarrow> None)"

text \<open>The collaborator a call names, and what the call does.\<close>

definition NameError :: "string \<Rightarrow> pyexc" where
  "NameError name =
     PyException (py ''NameError'') (py ''name '' @ quoted name @ py '' is not defined'')"

definition service :: "services \<Rightarrow> string \<Rightarrow> collaborator" where
  "service sv name =
     (if name = ''generate_itinerary'' then generate_itinerary sv
      else if name = ''search_flights'' then search_flights sv
      else if name = ''search_hotels'' then search_hotels sv
      else if name = ''get_forecast'' then get_forecast sv
      else if name = ''search_places'' then search_places sv
      else if name = ''search_restaurants'' then search_restaurants sv
      else if name = ''check_visa_requirements'' then check_visa_requirements sv
      else if name = ''get_safety_advisories'' then get_safety_advisories sv
      else (\<lambda>as kws. Raise (NameError name)))"

definition run_call :: "services \<Rightarrow> pcall \<Rightarrow> pyval outcome" where
  "run_call sv c = service sv (callee c) (args c) (kwargs c)"

text \<open>The calls of a list that are reached: all up to the first that raises, that one included.\<close>

fun until_raise :: "services \<Rightarrow> pcall list \<Rightarrow> pcall list" where
  "until_raise sv [] = []"
| "until_raise sv (c # cs) =
     c # (case run_call sv c of Return v \<Rightarrow> until_raise sv cs | Raise e \<Rightarrow> [])"

section \<open>Properties\<close>

subsection \<open>Sample collaborators\<close>

definition returning :: "pyval \<Rightarrow> collaborator" where
  "returning v as kws = Return v"

definition raising :: "pyexc \<Rightarrow> collaborator" where
  "raising e as kws = Raise e"

definition all_returning :: "pyval \<Rightarrow> services" where
  "all_returning v =
     \<lparr>generate_itinerary = returning v, search_flights = returning v, search_hotels = returning v,
      get_forecast = returning v, search_places = returning v, search_restaurants = returning v,
      check_visa_requirements = returning v, get_safety_advisories = returning v,
      MY_NUMBER = py ''910000000000''\<rparr>"

definition all_raising :: "pyexc \<Rightarrow> services" where
  "all_raising e =
     \<lparr>generate_itinerary = raising e, search_flights = raising e, search_hotels = raising e,
      get_forecast = raising e, search_places = raising e, search_restaurants = raising e,
      check_visa_requirements = raising e, get_safety_advisories = raising e,
      MY_NUMBER = py ''910000000000''\<rparr>"

definition boom :: pyexc where
  "boom = PyException (py ''RuntimeError'') (py ''boom'')"

definition cancelled :: pyexc where
  "cancelled = PyBaseException (py ''CancelledError'') []"

text \<open>A forecast whose only entry has \<^verbatim>\<open>None\<close> for its description.\<close>

definition undescribed :: pyval where
  "undescribed = PList [PDict [(py ''date'', PStr (py ''2025-06-01'')), (py ''description'', PNone)]]"

definition forecast5 :: "pyval list" where
  "forecast5 =
     [PDict [(py ''date'', PStr (py ''2025-06-01'')), (py ''temperature_high'', PInt 21),
             (py ''temperature_low'', PInt 12), (py ''description'', PStr (py ''Light rain''))],
      PDict [(py ''date'', PStr (py ''2025-06-02'')), (py ''temperature_high'', PInt 23),
             (py ''temperature_low'', PInt 14), (py ''description'', PStr (py ''Sunny''))],
      PDict [(py ''date'', PStr (py ''2025-06-03'')), (py ''temperature_high'', PInt 19),
             (py ''temperature_low'', PInt 11), (py ''description'', PStr (py ''Cloudy''))],
      PDict [(py ''date'', PStr (py ''2025-06-04'')), (py ''temperature_high'', PInt 5),
             (py ''temperature_low'', PInt (- 2)), (py ''description'', PStr (py ''Snow showers''))],
      PDict [(py ''date'', PStr (py ''2025-06-05''))]]"

text \<open>
  A forecast entry the loop of \<^verbatim>\<open>get_weather\<close> formats without an exception: a dict whose
  \<^verbatim>\<open>"description"\<close>, if it has one, is a string.
\<close>

fun is_str :: "pyval \<Rightarrow> bool" where
  "is_str (PStr s) = True"
| "is_str v = False"

fun day_ok :: "pyval \<Rightarrow> bool" where
  "day_ok (PDict kvs) = is_str (dict_get kvs (py ''description'') (PStr (py ''No description'')))"
| "day_ok v = False"

text \<open>
  An outcome in which no exception derived from \<^verbatim>\<open>Exception\<close> is left as it was raised:
  a failure is an \<^verbatim>\<open>McpError\<close> with the code \<^verbatim>\<open>INTERNAL_ERROR\<close> and a message that starts
  with \<open>label\<close>, or an exception that is not an \<^verbatim>\<open>Exception\<close>.
\<close>

fun mapped_failure :: "pystr \<Rightarrow> 'a outcome \<Rightarrow> bool" where
  "mapped_failure label (Return x) = True"
| "mapped_failure label (Raise (McpError code msg)) =
     (code = INTERNAL_ERROR \<and> starts_with msg label)"
| "mapped_failure label (Raise (PyBaseException cls msg)) = True"
| "mapped_failure label (Raise (PyException cls msg)) = False"

text \<open>
  The collaborators as \<^verbatim>\<open>PARAMETER_FIXES.py\<close> describes them: \<^verbatim>\<open>search_flights\<close> and
  \<^verbatim>\<open>search_hotels\<close> are Python functions with the quoted parameters that find nothing.
\<close>

definition documented_services :: services where
  "documented_services =
     (all_returning (PList []))
       \<lparr>search_flights := py_function search_flights_sig (\<lambda>env. Return (PList [])),
        search_hotels := py_function search_hotels_sig (\<lambda>env. Return (PList []))\<rparr>"

text \<open>
  A \<^verbatim>\<open>search_restaurants\<close> that takes the keywords \<^verbatim>\<open>mcp_http_server.py\<close> passes to it,
  \<^verbatim>\<open>city\<close> the only one without a default, and finds nothing.
\<close>

definition city_restaurants_sig :: signature where
  "city_restaurants_sig =
     \<lparr>fname = ''search_restaurants'',
      params = [(''city'', None), (''cuisine_types'', Some PNone), (''price_range'', Some PNone),
                (''dietary_restrictions'', Some PNone)]\<rparr>"

definition city_services :: services where
  "city_services =
     (all_returning (PList []))
       \<lparr>search_restaurants := py_function city_restaurants_sig (\<lambda>env. Return (PList []))\<rparr>"

text \<open>Sample visa and safety records, with the keys \<^verbatim>\<open>mcp_http_server.py\<close> reads.\<close>

definition visa_record :: "(pystr \<times> pyval) list" where
  "visa_record =
     [(py ''required'', PBool True), (py ''type'', PStr (py ''eVisa'')),
      (py ''processing_time'', PStr (py ''3 business days'')), (py ''fee'', PStr (py ''USD 25'')),
      (py ''duration'', PStr (py ''90 days''))]"

definition safety_record :: "(pystr \<times> pyval) list" where
  "safety_record =
     [(py ''level'', PStr (py ''Level 1'')),
      (py ''advisories'', PList [PStr (py ''Carry your passport''), PStr (py ''Typhoon season''),
                                 PStr (py ''Earthquake drills''), PStr (py ''Crowded trains'')]),
      (py ''last_updated'', PStr (py ''2025-01-15''))]"

text \<open>
  Sample records with the keys \<^verbatim>\<open>mcp_http_server_minimal.py\<close> reads: a visa is required,
  and the advisory level is high.
\<close>

definition visa_record_minimal :: "(pystr \<times> pyval) list" where
  "visa_record_minimal =
     [(py ''visa_required'', PStr (py ''yes'')), (py ''max_stay'', PStr (py ''30 days''))]"

definition safety_record_minimal :: "(pystr \<times> pyval) list" where
  "safety_record_minimal =
     [(py ''advisory_level'', PStr (py ''High'')), (py ''summary'', PStr (py ''Do not travel''))]"

definition travel_services_minimal :: services where
  "travel_services_minimal =
     (all_returning PNone)
       \<lparr>check_visa_requirements := returning (PDict visa_record_minimal),
        get_safety_advisories := returning (PDict safety_record_minimal)\<rparr>"

definition travel_services :: services where
  "travel_services =
     (all_returning PNone)
       \<lparr>check_visa_requirements := returning (PDict visa_record),
        get_safety_advisories := returning (PDict safety_record)\<rparr>"

text \<open>
  The value under \<^verbatim>\<open>"advisories"\<close> is false or a list, so that the loop over its first
  three items runs.
\<close>

definition advisories_of :: "(pystr \<times> pyval) list \<Rightarrow> pyval list option" where
  "advisories_of safety =
     (case dict_get safety (py ''advisories'') PNone of
        PList xs \<Rightarrow> Some (take 3 xs)
      | v \<Rightarrow> (if py_truthy v then None else Some []))"

text \<open>The detail \<^verbatim>\<open>get_weather\<close> writes for the first three days of \<open>forecast5\<close>.\<close>

definition three_days :: "pystr list" where
  "three_days =
     [py ''**2025-06-01**: 21'' @ [0xC2, 0xB0] @ py ''/12'' @ [0xC2, 0xB0] @ py '' - Light rain'' @ [10]
      @ py ''  '' @ [0x11F, 0x178, 0x152, 0xA7, 0xEF, 0xB8] @ py '' *Recommend indoor activities*'' @ [10, 10],
      py ''**2025-06-02**: 23'' @ [0xC2, 0xB0] @ py ''/14'' @ [0xC2, 0xB0] @ py '' - Sunny'' @ [10]
      @ py ''  '' @ [0xE2, 0x2DC, 0x20AC, 0xEF, 0xB8] @ py '' *Perfect for outdoor activities*'' @ [10, 10],
      py ''**2025-06-03**: 19'' @ [0xC2, 0xB0] @ py ''/11'' @ [0xC2, 0xB0] @ py '' - Cloudy'' @ [10, 10]]"

text \<open>The detail it writes for the fourth and the fifth day of \<open>forecast5\<close>.\<close>

definition last_days :: "pystr list" where
  "last_days =
     [py ''**2025-06-04**: 5'' @ [0xC2, 0xB0] @ py ''/-2'' @ [0xC2, 0xB0] @ py '' - Snow showers'' @ [10]
      @ py ''  '' @ [0xE2, 0x201E, 0xEF, 0xB8] @ py '' *Pack warm clothes, check transport*'' @ [10, 10],
      py ''**2025-06-05**: N/A'' @ [0xC2, 0xB0] @ py ''/N/A'' @ [0xC2, 0xB0] @ py '' - No description''
      @ [10, 10]]"

text \<open>A sample result of \<^verbatim>\<open>search_flights\<close>.\<close>

definition one_flight :: pyval where
  "one_flight =
     PList [PDict [(py ''airline'', PStr (py ''Delta'')), (py ''price'', PInt 199),
                   (py ''departure_time'', PStr (py ''08:00'')),
                   (py ''arrival_time'', PStr (py ''11:15'')),
                   (py ''duration'', PStr (py ''6h 15m''))]]"

subsection \<open>Auxiliary facts\<close>

lemma fst_try_except [simp]: "fst (try_except label r) = fst r"
  by (simp add: try_except_def)

lemma snd_try_except [simp]: "snd (try_except label r) = reraise label (snd r)"
  by (simp add: try_except_def)

lemmas run_defs = rbind_def call_def pure_def

lemmas http_defs =
  validate_def plan_trip_def get_weather_def search_hotel_options_def search_flight_options_def
  discover_places_def find_restaurants_def check_travel_requirements_def
  plan_trip_body_def get_weather_body_def search_hotel_options_body_def
  search_flight_options_body_def discover_places_body_def find_restaurants_body_def
  check_travel_requirements_body_def

lemmas minimal_defs =
  health_check_def get_weather_minimal_def discover_places_minimal_def
  find_restaurants_minimal_def check_travel_requirements_minimal_def
  get_weather_minimal_body_def discover_places_minimal_body_def
  find_restaurants_minimal_body_def check_travel_requirements_minimal_body_def

lemmas stdio_defs =
  tool_get_weather_def tool_discover_places_def tool_find_restaurants_def
  tool_check_travel_requirements_def subscript_def

lemma starts_with_append [simp]: "starts_with (a @ b) a"
  by (induction a) simp_all

lemma mapped_failure_reraise [simp]: "mapped_failure label (reraise label r)"
proof (cases r)
  case (Return x)
  then show ?thesis by simp
next
  case (Raise e)
  then show ?thesis by (cases e) (simp_all add: internal_error_def)
qed

lemma http_calls: "fst (http_server sv t) = until_raise sv (http_planned t)"
  by (cases t)
     (simp_all add: http_defs run_defs run_call_def service_def split: outcome.splits)

lemma minimal_calls: "fst (minimal_server sv t) = until_raise sv (minimal_planned t)"
  by (cases t)
     (simp_all add: minimal_defs run_defs run_call_def service_def split: outcome.splits)

lemma stdio_calls:
  "stdio_planned t kws = Some cs \<Longrightarrow> fst (stdio_server sv t kws) = until_raise sv cs"
  by (cases t)
     (auto simp: stdio_defs run_defs run_call_def service_def split: outcome.splits option.splits)

lemma stdio_planned_required:
  "(\<forall>p \<in> set (stdio_required t). map_of kws p \<noteq> None) \<Longrightarrow>
     \<exists>cs. stdio_planned t kws = Some cs \<and> 1 \<le> length cs \<and> length cs \<le> 2"
  by (cases t) auto

lemma bind_call_unmapped:
  assumes "required_unmapped sig (length as) (map fst kws)"
  shows "\<exists>msg. bind_call sig as kws = Inl (TypeError msg)"
proof -
  let ?names = "map fst (params sig)"
  let ?positional = "take (length as) ?names"
  let ?missing = "filter (\<lambda>p. snd p = None \<and> fst p \<notin> set ?positional
                              \<and> map_of kws (fst p) = None) (params sig)"
  show ?thesis
  proof (cases "find (\<lambda>kv. fst kv \<notin> set ?names \<or> fst kv \<in> set ?positional) kws")
    case (Some kv)
    then have "bind_call sig as kws =
        Inl (if fst kv \<notin> set ?names then unexpected_keyword sig (fst kv)
             else multiple_values sig (fst kv))"
      by (simp add: bind_call_def)
    then show ?thesis unfolding unexpected_keyword_def multiple_values_def
      by (cases "fst kv \<notin> set ?names") auto
  next
    case None
    show ?thesis
    proof (cases "length ?names < length as")
      case True
      obtain msg where "too_many_positional sig (length as) = TypeError msg"
        unfolding too_many_positional_def Let_def by blast
      with None True have "bind_call sig as kws = Inl (TypeError msg)"
        by (simp add: bind_call_def)
      then show ?thesis by blast
    next
      case False
      from assms obtain p where p: "p \<in> set (params sig)" "snd p = None"
          "fst p \<notin> set ?positional" "fst p \<notin> set (map fst kws)"
        by (auto simp: required_unmapped_def)
      then have "map_of kws (fst p) = None"
        by (simp add: map_of_eq_None_iff)
      with p have "?missing \<noteq> []"
        by (auto simp: filter_empty_conv)
      with None False have "bind_call sig as kws = Inl (missing_arguments sig (map fst ?missing))"
        by (simp add: bind_call_def)
      then show ?thesis unfolding missing_arguments_def by blast
    qed
  qed
qed

lemma py_function_unmapped:
  assumes "required_unmapped sig (length as) (map fst kws)"
  shows "\<exists>e. bind_call sig as kws = Inl e \<and> is_Exception e \<and> py_function sig body as kws = Raise e"
  using bind_call_unmapped [OF assms]
  by (auto simp: py_function_def TypeError_def)

subsection \<open>The calls of an invocation\<close>

text \<open>
  Claim C7. An invocation makes the collaborator calls its handler is written with, in
  order and each once, up to the first call that raises: one call for a tool with one
  collaborator, whatever that call does, and the visa call followed by the safety call for
  \<^verbatim>\<open>check_travel_requirements\<close>. No call is made twice. For the stdio server this holds
  when the argument mapping has the required parameters. (\<^verbatim>\<open>validate\<close> and
  \<^verbatim>\<open>health_check\<close> have no collaborator and call none.)
\<close>

theorem calls_are_the_planned_ones:
  "fst (http_server sv t) = until_raise sv (http_planned t)
   \<and> fst (minimal_server sv t') = until_raise sv (minimal_planned t')
   \<and> ((\<forall>p \<in> set (stdio_required t''). map_of kws p \<noteq> None) \<longrightarrow>
        (\<exists>cs. stdio_planned t'' kws = Some cs \<and> 1 \<le> length cs \<and> length cs \<le> 2
              \<and> fst (stdio_server sv t'' kws) = until_raise sv cs))
   \<and> length (http_planned t) \<le> 2 \<and> length (minimal_planned t') \<le> 2
   \<and> (length (http_planned t) = 1 \<longrightarrow> fst (http_server sv t) = http_planned t)
   \<and> (length (minimal_planned t') = 1 \<longrightarrow> fst (minimal_server sv t') = minimal_planned t')
   \<and> distinct (fst (http_server sv t)) \<and> distinct (fst (minimal_server sv t'))"
proof -
  have 1: "length (http_planned t) \<le> 2" by (cases t) simp_all
  have 2: "length (minimal_planned t') \<le> 2" by (cases t') simp_all
  have 3: "length (http_planned t) = 1 \<longrightarrow> fst (http_server sv t) = http_planned t"
    unfolding http_calls by (cases t) (simp_all split: outcome.splits)
  have 4: "length (minimal_planned t') = 1 \<longrightarrow> fst (minimal_server sv t') = minimal_planned t'"
    unfolding minimal_calls by (cases t') (simp_all split: outcome.splits)
  have 5: "distinct (fst (http_server sv t))"
    unfolding http_calls by (cases t) (simp_all split: outcome.splits)
  have 6: "distinct (fst (minimal_server sv t'))"
    unfolding minimal_calls by (cases t') (simp_all split: outcome.splits)
  have 7: "(\<forall>p \<in> set (stdio_required t''). map_of kws p \<noteq> None) \<longrightarrow>
        (\<exists>cs. stdio_planned t'' kws = Some cs \<and> 1 \<le> length cs \<and> length cs \<le> 2
              \<and> fst (stdio_server sv t'' kws) = until_raise sv cs)"
    using stdio_planned_required [of t'' kws] stdio_calls [of t'' kws _ sv] by blast
  from 1 2 3 4 5 6 7 http_calls [of sv t] minimal_calls [of sv t'] show ?thesis by blast
qed

theorem calls_are_the_planned_ones_witness:
  "fst (http_server travel_services (Check_travel_requirements (py ''United States'') (py ''Japan''))) =
     [\<lparr>callee = ''check_visa_requirements'',
       args = [PStr (py ''United States''), PStr (py ''Japan'')], kwargs = []\<rparr>,
      \<lparr>callee = ''get_safety_advisories'', args = [PStr (py ''Japan'')], kwargs = []\<rparr>]
   \<and> fst (minimal_server (all_raising boom)
            (Check_travel_requirements_minimal (py ''Japan'') (py ''United States''))) =
     [\<lparr>callee = ''check_visa_requirements'',
       args = [PStr (py ''United States''), PStr (py ''Japan'')], kwargs = []\<rparr>]
   \<and> fst (http_server (all_raising boom) (Get_weather (py ''London'') 3)) =
     [\<lparr>callee = ''get_forecast'', args = [PStr (py ''London'')], kwargs = []\<rparr>]
   \<and> fst (stdio_server travel_services Tool_check_travel_requirements
            [(''destination_country'', PStr (py ''Japan'')),
             (''origin_country'', PStr (py ''United States''))]) =
     [\<lparr>callee = ''check_visa_requirements'',
       args = [PStr (py ''United States''), PStr (py ''Japan'')], kwargs = []\<rparr>,
      \<lparr>callee = ''get_safety_advisories'', args = [PStr (py ''Japan'')], kwargs = []\<rparr>]"
proof -
  let ?kws = "[(''destination_country'', PStr (py ''Japan'')),
               (''origin_country'', PStr (py ''United States''))]"
  have req: "\<forall>p \<in> set (stdio_required Tool_check_travel_requirements). map_of ?kws p \<noteq> None"
    by simp
  have one: "length (http_planned (Get_weather (py ''London'') 3)) = 1"
    by simp
  from calls_are_the_planned_ones
         [of travel_services "Check_travel_requirements (py ''United States'') (py ''Japan'')"
             "Check_travel_requirements_minimal (py ''Japan'') (py ''United States'')"
             Tool_check_travel_requirements ?kws]
       calls_are_the_planned_ones
         [of "all_raising boom" "Get_weather (py ''London'') 3"
             "Check_travel_requirements_minimal (py ''Japan'') (py ''United States'')"
             Tool_check_travel_requirements ?kws]
       req one
  show ?thesis
    by (simp add: run_call_def service_def travel_services_def all_returning_def
          all_raising_def returning_def raising_def)
qed

lemma http_failures:
  "http_label t = Some l \<Longrightarrow> mapped_failure l (snd (http_server sv t))"
  by (cases t) (auto simp: http_defs)

lemma minimal_failures:
  "minimal_label t = Some l \<Longrightarrow> mapped_failure l (snd (minimal_server sv t))"
  by (cases t) (auto simp: minimal_defs)

lemma http_raise:
  assumes "c \<in> set (fst (http_server sv t))" and "run_call sv c = Raise e"
    and "is_Exception e" and "http_label t = Some l"
  shows "snd (http_server sv t) = internal_error l e"
  using assms
  by (cases t)
     (auto simp: http_defs run_defs run_call_def service_def split: outcome.splits)

lemma minimal_raise:
  assumes "c \<in> set (fst (minimal_server sv t))" and "run_call sv c = Raise e"
    and "is_Exception e" and "minimal_label t = Some l"
  shows "snd (minimal_server sv t) = internal_error l e"
  using assms
  by (cases t)
     (auto simp: minimal_defs run_defs run_call_def service_def split: outcome.splits)

lemma http_try:
  "http_label t = Some l \<Longrightarrow> http_server sv t = try_except l (http_body sv t)"
  by (cases t)
     (auto simp: plan_trip_def get_weather_def search_hotel_options_def
        search_flight_options_def discover_places_def find_restaurants_def
        check_travel_requirements_def)

lemma minimal_try:
  "minimal_label t = Some l \<Longrightarrow> minimal_server sv t = try_except l (minimal_body sv t)"
  by (cases t)
     (auto simp: get_weather_minimal_def discover_places_minimal_def
        find_restaurants_minimal_def check_travel_requirements_minimal_def)

lemma stdio_trace_raise:
  assumes "c \<in> set (fst (stdio_server sv t kws))" and "run_call sv c = Raise e"
  shows "snd (stdio_server sv t kws) = Raise e"
  using assms
  by (cases t)
     (auto simp: stdio_defs run_defs run_call_def service_def get_or_def
           split: option.splits outcome.splits)

subsection \<open>Failures of the collaborators and of the formatting\<close>

text \<open>
  Claim C3, as the code has it. Every tool of the two HTTP servers but \<^verbatim>\<open>validate\<close> and
  \<^verbatim>\<open>health_check\<close> has its whole body, the collaborator calls and the formatting of their
  results, under one \<^verbatim>\<open>try\<close> statement. When that body raises an exception \<open>e\<close> derived
  from \<^verbatim>\<open>Exception\<close>, in a collaborator call or in a formatting step, the tool raises
  \<^verbatim>\<open>McpError\<close> with the code \<^verbatim>\<open>INTERNAL_ERROR\<close> and the message that is the tool's own
  label (\<^verbatim>\<open>Weather lookup failed: \<close> for \<^verbatim>\<open>get_weather\<close>) followed by \<^verbatim>\<open>str(e)\<close>; when the
  body raises an exception that is not an \<^verbatim>\<open>Exception\<close>, the tool raises that exception
  unchanged; when the body returns, the tool returns the same value. So no exception
  derived from \<^verbatim>\<open>Exception\<close> leaves such a tool as it was raised. \<^verbatim>\<open>validate\<close> and
  \<^verbatim>\<open>health_check\<close> call no collaborator and return. The tools of \<^verbatim>\<open>mcp_server.py\<close> have
  no \<^verbatim>\<open>try\<close> statement: an exception a collaborator call raises leaves them unchanged.
\<close>

theorem failures_are_mapped:
  "(http_label t = Some l \<and> snd (http_body sv t) = Raise e \<and> is_Exception e \<longrightarrow>
      snd (http_server sv t) = Raise (McpError INTERNAL_ERROR (l @ exc_str e)))
   \<and> (http_label t = Some l \<and> snd (http_body sv t) = Raise b \<and> \<not> is_Exception b \<longrightarrow>
        snd (http_server sv t) = Raise b)
   \<and> (snd (http_body sv t) = Return x \<longrightarrow> snd (http_server sv t) = Return x)
   \<and> (minimal_label t' = Some l' \<and> snd (minimal_body sv t') = Raise e \<and> is_Exception e \<longrightarrow>
        snd (minimal_server sv t') = Raise (McpError INTERNAL_ERROR (l' @ exc_str e)))
   \<and> (minimal_label t' = Some l' \<and> snd (minimal_body sv t') = Raise b \<and> \<not> is_Exception b \<longrightarrow>
        snd (minimal_server sv t') = Raise b)
   \<and> (snd (minimal_body sv t') = Return x \<longrightarrow> snd (minimal_server sv t') = Return x)
   \<and> (http_label t = None \<longrightarrow> http_server sv t = ([], Return (MY_NUMBER sv)))
   \<and> (minimal_label t' = None \<longrightarrow> (\<exists>x. minimal_server sv t' = ([], Return x)))
   \<and> (http_label t = Some l \<longrightarrow> mapped_failure l (snd (http_server sv t)))
   \<and> (minimal_label t' = Some l' \<longrightarrow> mapped_failure l' (snd (minimal_server sv t')))
   \<and> (c \<in> set (fst (http_server sv t)) \<and> run_call sv c = Raise e \<and> is_Exception e
        \<and> http_label t = Some l \<longrightarrow>
        snd (http_server sv t) = Raise (McpError INTERNAL_ERROR (l @ exc_str e)))
   \<and> (c' \<in> set (fst (minimal_server sv t')) \<and> run_call sv c' = Raise e \<and> is_Exception e
        \<and> minimal_label t' = Some l' \<longrightarrow>
        snd (minimal_server sv t') = Raise (McpError INTERNAL_ERROR (l' @ exc_str e)))
   \<and> (c'' \<in> set (fst (stdio_server sv u kws)) \<and> run_call sv c'' = Raise e \<longrightarrow>
        snd (stdio_server sv u kws) = Raise e)"
proof -
  have h: "http_label t = Some l \<Longrightarrow> snd (http_server sv t) = reraise l (snd (http_body sv t))"
    using http_try [of t l sv] by simp
  have m: "minimal_label t' = Some l' \<Longrightarrow>
             snd (minimal_server sv t') = reraise l' (snd (minimal_body sv t'))"
    using minimal_try [of t' l' sv] by simp
  have h0: "http_label t = None \<Longrightarrow> http_server sv t = http_body sv t"
    by (cases t) simp_all
  have m0: "minimal_label t' = None \<Longrightarrow> minimal_server sv t' = minimal_body sv t'"
    by (cases t') simp_all
  have 1: "http_label t = Some l \<and> snd (http_body sv t) = Raise e \<and> is_Exception e \<longrightarrow>
      snd (http_server sv t) = Raise (McpError INTERNAL_ERROR (l @ exc_str e))"
    using h by (simp add: internal_error_def)
  have 2: "http_label t = Some l \<and> snd (http_body sv t) = Raise b \<and> \<not> is_Exception b \<longrightarrow>
        snd (http_server sv t) = Raise b"
    using h by simp
  have 3: "snd (http_body sv t) = Return x \<longrightarrow> snd (http_server sv t) = Return x"
  proof (cases "http_label t")
    case None
    then show ?thesis using h0 by simp
  next
    case (Some a)
    then show ?thesis using http_try [of t a sv] by simp
  qed
  have 4: "minimal_label t' = Some l' \<and> snd (minimal_body sv t') = Raise e \<and> is_Exception e \<longrightarrow>
        snd (minimal_server sv t') = Raise (McpError INTERNAL_ERROR (l' @ exc_str e))"
    using m by (simp add: internal_error_def)
  have 5: "minimal_label t' = Some l' \<and> snd (minimal_body sv t') = Raise b \<and> \<not> is_Exception b \<longrightarrow>
        snd (minimal_server sv t') = Raise b"
    using m by simp
  have 6: "snd (minimal_body sv t') = Return x \<longrightarrow> snd (minimal_server sv t') = Return x"
  proof (cases "minimal_label t'")
    case None
    then show ?thesis using m0 by simp
  next
    case (Some a)
    then show ?thesis using minimal_try [of t' a sv] by simp
  qed
  have 7: "http_label t = None \<longrightarrow> http_server sv t = ([], Return (MY_NUMBER sv))"
    by (cases t) (simp_all add: validate_def pure_def)
  have 8: "minimal_label t' = None \<longrightarrow> (\<exists>x. minimal_server sv t' = ([], Return x))"
    by (cases t') (simp_all add: health_check_def pure_def)
  have 9: "http_label t = Some l \<longrightarrow> mapped_failure l (snd (http_server sv t))"
    using http_failures [of t l sv] by simp
  have 10: "minimal_label t' = Some l' \<longrightarrow> mapped_failure l' (snd (minimal_server sv t'))"
    using minimal_failures [of t' l' sv] by simp
  have 11: "c \<in> set (fst (http_server sv t)) \<and> run_call sv c = Raise e \<and> is_Exception e
        \<and> http_label t = Some l \<longrightarrow>
        snd (http_server sv t) = Raise (McpError INTERNAL_ERROR (l @ exc_str e))"
    using http_raise [of c sv t e l] by (simp add: internal_error_def)
  have 12: "c' \<in> set (fst (minimal_server sv t')) \<and> run_call sv c' = Raise e \<and> is_Exception e
        \<and> minimal_label t' = Some l' \<longrightarrow>
        snd (minimal_server sv t') = Raise (McpError INTERNAL_ERROR (l' @ exc_str e))"
    using minimal_raise [of c' sv t' e l'] by (simp add: internal_error_def)
  have 13: "c'' \<in> set (fst (stdio_server sv u kws)) \<and> run_call sv c'' = Raise e \<longrightarrow>
        snd (stdio_server sv u kws) = Raise e"
    using stdio_trace_raise [of c'' sv u kws e] by simp
  from 1 2 3 4 5 6 7 8 9 10 11 12 13 show ?thesis by blast
qed

theorem failures_are_mapped_witness:
  "snd (http_server (all_raising boom) (Get_weather (py ''London'') 3)) =
     Raise (McpError INTERNAL_ERROR (py ''Weather lookup failed: boom''))
   \<and> snd (http_server (all_returning undescribed) (Get_weather (py ''London'') 3)) =
     Raise (McpError INTERNAL_ERROR
       (py ''Weather lookup failed: '' @ [39] @ py ''NoneType'' @ [39]
        @ py '' object has no attribute '' @ [39] @ py ''lower'' @ [39]))
   \<and> snd (http_server (all_raising cancelled) (Get_weather (py ''London'') 3)) = Raise cancelled
   \<and> snd (http_server (all_returning (PList [])) (Get_weather (py ''London'') 3)) =
     Return (weather_unable (py ''London''))
   \<and> snd (minimal_server (all_raising boom) (Discover_places_minimal (py ''Paris'') None)) =
     Raise (McpError INTERNAL_ERROR (py ''Places search failed: boom''))
   \<and> snd (minimal_server (all_raising cancelled) (Discover_places_minimal (py ''Paris'') None)) =
     Raise cancelled
   \<and> http_server (all_raising boom) Validate = ([], Return (py ''910000000000''))
   \<and> snd (stdio_server (all_raising boom) Tool_get_weather [(''location'', PStr (py ''London''))]) =
     Raise boom"
proof -
  let ?t = "Get_weather (py ''London'') 3"
  let ?l = "py ''Weather lookup failed: ''"
  let ?t' = "Discover_places_minimal (py ''Paris'') None"
  let ?l' = "py ''Places search failed: ''"
  let ?c = "\<lparr>callee = ''get_forecast'', args = [PStr (py ''London'')], kwargs = []\<rparr>"
  let ?kws = "[(''location'', PStr (py ''London''))]"
  let ?a = "PyException (py ''AttributeError'')
              ([39] @ py ''NoneType'' @ [39] @ py '' object has no attribute '' @ [39]
               @ py ''lower'' @ [39])"
  have l: "http_label ?t = Some ?l" "minimal_label ?t' = Some ?l'" "http_label Validate = None"
    by simp_all
  have b1: "snd (http_body (all_raising boom) ?t) = Raise boom"
    by (simp add: get_weather_body_def run_defs all_raising_def raising_def)
  have b2: "snd (http_body (all_returning undescribed) ?t) = Raise ?a"
    by (simp add: get_weather_body_def run_defs all_returning_def returning_def undescribed_def
          weather_format_def slice_to_def add_to_def weather_day_def
          dict_get_def AttributeError_def)
  have b3: "snd (http_body (all_raising cancelled) ?t) = Raise cancelled"
    by (simp add: get_weather_body_def run_defs all_raising_def raising_def)
  have b4: "snd (http_body (all_returning (PList [])) ?t) = Return (weather_unable (py ''London''))"
    by (simp add: get_weather_body_def run_defs all_returning_def returning_def weather_format_def)
  have b5: "snd (minimal_body (all_raising boom) ?t') = Raise boom"
    by (simp add: discover_places_minimal_body_def run_defs all_raising_def raising_def)
  have b6: "snd (minimal_body (all_raising cancelled) ?t') = Raise cancelled"
    by (simp add: discover_places_minimal_body_def run_defs all_raising_def raising_def)
  have e: "is_Exception boom" "exc_str boom = py ''boom''" "is_Exception ?a"
    "\<not> is_Exception cancelled" "MY_NUMBER (all_raising boom) = py ''910000000000''"
    by (simp_all add: boom_def cancelled_def all_raising_def)
  have s1: "?c \<in> set (fst (stdio_server (all_raising boom) Tool_get_weather ?kws))"
    by (simp add: stdio_defs run_defs all_raising_def raising_def)
  have s2: "run_call (all_raising boom) ?c = Raise boom"
    by (simp add: run_call_def service_def all_raising_def raising_def)
  from failures_are_mapped
         [where t = ?t and l = ?l and sv = "all_raising boom" and e = boom and t' = ?t'
            and l' = ?l' and c'' = ?c and u = Tool_get_weather and kws = ?kws]
       l b1 b5 e s1 s2
  have 1: "snd (http_server (all_raising boom) ?t) =
             Raise (McpError INTERNAL_ERROR (py ''Weather lookup failed: boom''))"
    and 5: "snd (minimal_server (all_raising boom) ?t') =
             Raise (McpError INTERNAL_ERROR (py ''Places search failed: boom''))"
    and 8: "snd (stdio_server (all_raising boom) Tool_get_weather ?kws) = Raise boom"
    by simp_all
  from failures_are_mapped
         [where t = ?t and l = ?l and sv = "all_returning undescribed" and e = ?a] l b2 e
  have 2: "snd (http_server (all_returning undescribed) ?t) =
     Raise (McpError INTERNAL_ERROR
       (py ''Weather lookup failed: '' @ [39] @ py ''NoneType'' @ [39]
        @ py '' object has no attribute '' @ [39] @ py ''lower'' @ [39]))"
    by simp
  from failures_are_mapped
         [where t = ?t and l = ?l and sv = "all_raising cancelled" and b = cancelled and t' = ?t'
            and l' = ?l'] l b3 b6 e
  have 3: "snd (http_server (all_raising cancelled) ?t) = Raise cancelled"
    and 6: "snd (minimal_server (all_raising cancelled) ?t') = Raise cancelled"
    by simp_all
  from failures_are_mapped
         [where t = ?t and sv = "all_returning (PList [])"
            and x = "weather_unable (py ''London'')"] b4
  have 4: "snd (http_server (all_returning (PList [])) ?t) = Return (weather_unable (py ''London''))"
    by simp
  from failures_are_mapped [where t = Validate and sv = "all_raising boom"] l e
  have 7: "http_server (all_raising boom) Validate = ([], Return (py ''910000000000''))"
    by simp
  from 1 2 3 4 5 6 7 8 show ?thesis by blast
qed

text \<open>
  The label is not the tool's name; an exception that is not an \<^verbatim>\<open>Exception\<close> is passed on;
  and the handlers of the stdio server have no \<^verbatim>\<open>try\<close> statement.
\<close>

theorem tool_name_counterexample:
  "snd (http_server (all_raising boom) (Get_weather (py ''London'') 3)) =
     Raise (McpError INTERNAL_ERROR (py ''Weather lookup failed: boom''))
   \<and> \<not> str_in (py (http_name (Get_weather (py ''London'') 3))) (py ''Weather lookup failed: boom'')
   \<and> snd (http_server (all_raising cancelled) (Get_weather (py ''London'') 3)) = Raise cancelled
   \<and> snd (stdio_server (all_raising boom) Tool_get_weather [(''location'', PStr (py ''London''))]) =
     Raise boom"
  by (simp add: http_defs stdio_defs run_defs all_raising_def raising_def boom_def cancelled_def
        internal_error_def)

subsection \<open>A required parameter that is missing\<close>

lemma stdio_own_failure:
  assumes "snd (stdio_server sv t kws) = Raise e"
  shows "(\<exists>q \<in> set (stdio_required t).
            map_of kws q = None \<and> e = KeyError q \<and> fst (stdio_server sv t kws) = [])
         \<or> (\<exists>c \<in> set (fst (stdio_server sv t kws)). run_call sv c = Raise e)"
  using assms
  by (cases t)
     (auto simp: stdio_defs run_defs run_call_def service_def
           split: option.splits outcome.splits)

lemma call_handler_missing:
  assumes "p \<in> set (params sig)" and "snd p = None" and "map_of kws (fst p) = None"
  shows "\<exists>msg. call_handler sig body kws = ([], Raise (TypeError msg))"
proof -
  from assms have "required_unmapped sig (length ([] :: pyval list)) (map fst kws)"
    by (auto simp: required_unmapped_def map_of_eq_None_iff)
  from bind_call_unmapped [OF this] show ?thesis
    by (auto simp: call_handler_def)
qed

lemma call_handler_names:
  assumes "set (map fst kws) \<subseteq> set (map fst (params sig))"
    and "missing_required sig kws \<noteq> []"
  shows "call_handler sig body kws = ([], Raise (missing_arguments sig (missing_required sig kws)))"
proof -
  from assms(1) have "find (\<lambda>kv. fst kv \<notin> set (map fst (params sig)) \<or> fst kv \<in> set []) kws = None"
    by (force simp: find_None_iff)
  with assms(2) show ?thesis
    by (simp add: call_handler_def bind_call_def missing_required_def)
qed

lemma http_never_invalid_params:
  "snd (http_server sv t) \<noteq> Raise (McpError INVALID_PARAMS msg)"
proof (cases "http_label t")
  case None
  then show ?thesis by (cases t) (simp_all add: validate_def pure_def)
next
  case (Some l)
  from http_failures [OF this, of sv] show ?thesis
    by (auto simp: INVALID_PARAMS_def INTERNAL_ERROR_def)
qed

lemma minimal_never_invalid_params:
  "snd (minimal_server sv t) \<noteq> Raise (McpError INVALID_PARAMS msg)"
proof (cases "minimal_label t")
  case None
  then show ?thesis by (cases t) (simp_all add: health_check_def pure_def)
next
  case (Some l)
  from minimal_failures [OF this, of sv] show ?thesis
    by (auto simp: INVALID_PARAMS_def INTERNAL_ERROR_def)
qed

text \<open>
  Claim C2, as the code has it. The handlers of \<^verbatim>\<open>mcp_server.py\<close> read their required
  parameters with \<^verbatim>\<open>kwargs["..."]\<close> before the first collaborator call. For every tool of
  that server and every argument mapping that lacks a parameter its schema declares
  required, the handler raises \<^verbatim>\<open>KeyError\<close> naming the first missing parameter it reads
  (\<^verbatim>\<open>origin_country\<close> before \<^verbatim>\<open>destination_country\<close>) and calls no collaborator. That is
  the only exception these handlers raise themselves: any other comes from a collaborator
  call they made. They do not look at the values: when the required parameters are there,
  whatever their values, the first call is made with them. A handler of the two HTTP
  servers is a Python function: called with keyword arguments that lack a parameter without
  a default, the call raises \<^verbatim>\<open>TypeError\<close> before the body runs, with no collaborator call,
  and the message names the missing parameters when every keyword is a parameter. No tool
  of the HTTP servers raises \<^verbatim>\<open>McpError\<close> with the code \<^verbatim>\<open>INVALID_PARAMS\<close>.
\<close>

theorem missing_required_is_key_error:
  "(p \<in> set (stdio_required t) \<and> map_of kws p = None \<longrightarrow>
     (\<exists>q \<in> set (stdio_required t).
        map_of kws q = None \<and> stdio_server sv t kws = ([], Raise (KeyError q))))
   \<and> (map_of kws ''location'' = None \<longrightarrow>
        stdio_server sv Tool_get_weather kws = ([], Raise (KeyError ''location'')))
   \<and> (map_of kws ''destination'' = None \<longrightarrow>
        stdio_server sv Tool_discover_places kws = ([], Raise (KeyError ''destination'')))
   \<and> (map_of kws ''location'' = None \<longrightarrow>
        stdio_server sv Tool_find_restaurants kws = ([], Raise (KeyError ''location'')))
   \<and> (map_of kws ''origin_country'' = None \<longrightarrow>
        stdio_server sv Tool_check_travel_requirements kws =
          ([], Raise (KeyError ''origin_country'')))
   \<and> (map_of kws ''origin_country'' = Some v \<and> map_of kws ''destination_country'' = None \<longrightarrow>
        stdio_server sv Tool_check_travel_requirements kws =
          ([], Raise (KeyError ''destination_country'')))
   \<and> (snd (stdio_server sv t kws) = Raise e \<longrightarrow>
        (\<exists>q \<in> set (stdio_required t).
           map_of kws q = None \<and> e = KeyError q \<and> fst (stdio_server sv t kws) = [])
        \<or> (\<exists>c \<in> set (fst (stdio_server sv t kws)). run_call sv c = Raise e))
   \<and> KeyError q' \<noteq> McpError INVALID_PARAMS msg
   \<and> (map_of kws ''location'' = Some v \<longrightarrow>
        hd (fst (stdio_server sv Tool_get_weather kws)) =
          \<lparr>callee = ''get_forecast'', args = [v], kwargs = []\<rparr>)
   \<and> (map_of kws ''destination'' = Some v \<longrightarrow>
        hd (fst (stdio_server sv Tool_discover_places kws)) =
          \<lparr>callee = ''search_places'', args = [],
           kwargs = [(''location'', v),
                     (''category'', get_or kws ''category'' (PStr (py ''tourist_attraction'')))]\<rparr>)
   \<and> (map_of kws ''location'' = Some v \<longrightarrow>
        hd (fst (stdio_server sv Tool_find_restaurants kws)) =
          \<lparr>callee = ''search_restaurants'', args = [],
           kwargs = [(''location'', v), (''cuisine'', get_or kws ''cuisine_type'' PNone),
                     (''price_range'', get_or kws ''price_range'' PNone)]\<rparr>)
   \<and> (map_of kws ''origin_country'' = Some v \<and> map_of kws ''destination_country'' = Some w \<longrightarrow>
        hd (fst (stdio_server sv Tool_check_travel_requirements kws)) =
          \<lparr>callee = ''check_visa_requirements'', args = [v, w], kwargs = []\<rparr>)
   \<and> (sig \<in> set (http_signatures @ minimal_signatures) \<and> a \<in> set (params sig) \<and> snd a = None
        \<and> map_of hkws (fst a) = None \<longrightarrow>
        (\<exists>text. call_handler sig body hkws = ([], Raise (TypeError text))))
   \<and> (sig \<in> set (http_signatures @ minimal_signatures)
        \<and> set (map fst hkws) \<subseteq> set (map fst (params sig))
        \<and> missing_required sig hkws \<noteq> [] \<longrightarrow>
        call_handler sig body hkws =
          ([], Raise (missing_arguments sig (missing_required sig hkws))))
   \<and> snd (http_server sv ht) \<noteq> Raise (McpError INVALID_PARAMS msg)
   \<and> snd (minimal_server sv mt) \<noteq> Raise (McpError INVALID_PARAMS msg)"
proof -
  have 1: "p \<in> set (stdio_required t) \<and> map_of kws p = None \<longrightarrow>
     (\<exists>q \<in> set (stdio_required t).
        map_of kws q = None \<and> stdio_server sv t kws = ([], Raise (KeyError q)))"
    by (cases t) (auto simp: stdio_defs run_defs split: option.splits)
  have 2: "map_of kws ''location'' = None \<longrightarrow>
        stdio_server sv Tool_get_weather kws = ([], Raise (KeyError ''location''))"
    by (simp add: stdio_defs run_defs)
  have 3: "map_of kws ''destination'' = None \<longrightarrow>
        stdio_server sv Tool_discover_places kws = ([], Raise (KeyError ''destination''))"
    by (simp add: stdio_defs run_defs)
  have 4: "map_of kws ''location'' = None \<longrightarrow>
        stdio_server sv Tool_find_restaurants kws = ([], Raise (KeyError ''location''))"
    by (simp add: stdio_defs run_defs)
  have 5: "map_of kws ''origin_country'' = None \<longrightarrow>
        stdio_server sv Tool_check_travel_requirements kws =
          ([], Raise (KeyError ''origin_country''))"
    by (simp add: stdio_defs run_defs)
  have 6: "map_of kws ''origin_country'' = Some v \<and> map_of kws ''destination_country'' = None \<longrightarrow>
        stdio_server sv Tool_check_travel_requirements kws =
          ([], Raise (KeyError ''destination_country''))"
    by (simp add: stdio_defs run_defs)
  have 7: "snd (stdio_server sv t kws) = Raise e \<longrightarrow>
        (\<exists>q \<in> set (stdio_required t).
           map_of kws q = None \<and> e = KeyError q \<and> fst (stdio_server sv t kws) = [])
        \<or> (\<exists>c \<in> set (fst (stdio_server sv t kws)). run_call sv c = Raise e)"
    using stdio_own_failure [of sv t kws e] by blast
  have 8: "KeyError q' \<noteq> McpError INVALID_PARAMS msg"
    by (simp add: KeyError_def)
  have 9: "map_of kws ''location'' = Some v \<longrightarrow>
        hd (fst (stdio_server sv Tool_get_weather kws)) =
          \<lparr>callee = ''get_forecast'', args = [v], kwargs = []\<rparr>"
    by (simp add: stdio_defs run_defs split: outcome.splits)
  have 10: "map_of kws ''destination'' = Some v \<longrightarrow>
        hd (fst (stdio_server sv Tool_discover_places kws)) =
          \<lparr>callee = ''search_places'', args = [],
           kwargs = [(''location'', v),
                     (''category'', get_or kws ''category'' (PStr (py ''tourist_attraction'')))]\<rparr>"
    by (simp add: stdio_defs run_defs split: outcome.splits)
  have 11: "map_of kws ''location'' = Some v \<longrightarrow>
        hd (fst (stdio_server sv Tool_find_restaurants kws)) =
          \<lparr>callee = ''search_restaurants'', args = [],
           kwargs = [(''location'', v), (''cuisine'', get_or kws ''cuisine_type'' PNone),
                     (''price_range'', get_or kws ''price_range'' PNone)]\<rparr>"
    by (simp add: stdio_defs run_defs split: outcome.splits)
  have 12: "map_of kws ''origin_country'' = Some v \<and> map_of kws ''destination_country'' = Some w \<longrightarrow>
        hd (fst (stdio_server sv Tool_check_travel_requirements kws)) =
          \<lparr>callee = ''check_visa_requirements'', args = [v, w], kwargs = []\<rparr>"
    by (simp add: stdio_defs run_defs split: outcome.splits)
  have 13: "sig \<in> set (http_signatures @ minimal_signatures) \<and> a \<in> set (params sig) \<and> snd a = None
        \<and> map_of hkws (fst a) = None \<longrightarrow>
        (\<exists>text. call_handler sig body hkws = ([], Raise (TypeError text)))"
    using call_handler_missing [of a sig hkws body] by blast
  have 14: "sig \<in> set (http_signatures @ minimal_signatures)
        \<and> set (map fst hkws) \<subseteq> set (map fst (params sig))
        \<and> missing_required sig hkws \<noteq> [] \<longrightarrow>
        call_handler sig body hkws =
          ([], Raise (missing_arguments sig (missing_required sig hkws)))"
    using call_handler_names [of hkws sig body] by blast
  have 15: "snd (http_server sv ht) \<noteq> Raise (McpError INVALID_PARAMS msg)"
    by (rule http_never_invalid_params)
  have 16: "snd (minimal_server sv mt) \<noteq> Raise (McpError INVALID_PARAMS msg)"
    by (rule minimal_never_invalid_params)
  from 1 2 3 4 5 6 7 8 9 10 11 12 13 14 15 16 show ?thesis by blast
qed

theorem missing_required_is_key_error_witness:
  "stdio_server travel_services Tool_check_travel_requirements
     [(''origin_country'', PStr (py ''United States''))] =
   ([], Raise (KeyError ''destination_country''))
   \<and> stdio_server travel_services Tool_check_travel_requirements
       [(''destination_country'', PStr (py ''Japan''))] =
     ([], Raise (KeyError ''origin_country''))
   \<and> hd (fst (stdio_server travel_services Tool_check_travel_requirements
                [(''origin_country'', PInt 1), (''destination_country'', PList [])])) =
     \<lparr>callee = ''check_visa_requirements'', args = [PInt 1, PList []], kwargs = []\<rparr>
   \<and> (\<forall>body :: (string \<times> pyval) list \<Rightarrow> pystr run.
        call_handler \<lparr>fname = ''plan_trip'',
            params = [(''origin'', None), (''destination'', None), (''start_date'', None),
                      (''end_date'', None), (''adults'', Some (PInt 1)), (''budget'', Some PNone),
                      (''activities'', Some (PList [])), (''accommodation_type'', Some PNone),
                      (''dietary_restrictions'', Some (PList []))]\<rparr> body
          [(''destination'', PStr (py ''Paris'')), (''start_date'', PStr (py ''2025-07-01''))] =
        ([], Raise (TypeError (py ''plan_trip() missing 2 required positional arguments: ''
                               @ [39] @ py ''origin'' @ [39] @ py '' and '' @ [39]
                               @ py ''end_date'' @ [39]))))"
proof -
  let ?kws = "[(''origin_country'', PStr (py ''United States''))]"
  let ?kws2 = "[(''destination_country'', PStr (py ''Japan''))]"
  let ?kws3 = "[(''origin_country'', PInt 1), (''destination_country'', PList [])]"
  let ?sig = "\<lparr>fname = ''plan_trip'',
            params = [(''origin'', None), (''destination'', None), (''start_date'', None),
                      (''end_date'', None), (''adults'', Some (PInt 1)), (''budget'', Some PNone),
                      (''activities'', Some (PList [])), (''accommodation_type'', Some PNone),
                      (''dietary_restrictions'', Some (PList []))]\<rparr>"
  let ?hkws = "[(''destination'', PStr (py ''Paris'')), (''start_date'', PStr (py ''2025-07-01''))]"
  have 1: "map_of ?kws ''origin_country'' = Some (PStr (py ''United States''))"
    "map_of ?kws ''destination_country'' = None" by simp_all
  from missing_required_is_key_error
         [where kws = ?kws and v = "PStr (py ''United States'')" and sv = travel_services] 1
  have a: "stdio_server travel_services Tool_check_travel_requirements ?kws =
             ([], Raise (KeyError ''destination_country''))"
    by blast
  have 2: "map_of ?kws2 ''origin_country'' = None" by simp
  from missing_required_is_key_error [where kws = ?kws2 and sv = travel_services] 2
  have b: "stdio_server travel_services Tool_check_travel_requirements ?kws2 =
             ([], Raise (KeyError ''origin_country''))"
    by blast
  have 3: "map_of ?kws3 ''origin_country'' = Some (PInt 1)"
    "map_of ?kws3 ''destination_country'' = Some (PList [])" by simp_all
  from missing_required_is_key_error
         [where kws = ?kws3 and v = "PInt 1" and w = "PList []" and sv = travel_services] 3
  have c: "hd (fst (stdio_server travel_services Tool_check_travel_requirements ?kws3)) =
     \<lparr>callee = ''check_visa_requirements'', args = [PInt 1, PList []], kwargs = []\<rparr>"
    by blast
  have 4: "?sig \<in> set (http_signatures @ minimal_signatures)"
    by (simp add: http_signatures_def)
  have 5: "set (map fst ?hkws) \<subseteq> set (map fst (params ?sig))" by simp
  have 6: "missing_required ?sig ?hkws = [''origin'', ''end_date'']"
    by (simp add: missing_required_def)
  have 7: "missing_arguments ?sig [''origin'', ''end_date''] =
             TypeError (py ''plan_trip() missing 2 required positional arguments: ''
                        @ [39] @ py ''origin'' @ [39] @ py '' and '' @ [39]
                        @ py ''end_date'' @ [39])"
    by (simp add: missing_arguments_def quoted_def digits.simps)
  have d: "call_handler ?sig body ?hkws =
        ([], Raise (TypeError (py ''plan_trip() missing 2 required positional arguments: ''
                               @ [39] @ py ''origin'' @ [39] @ py '' and '' @ [39]
                               @ py ''end_date'' @ [39])))"
    for body :: "(string \<times> pyval) list \<Rightarrow> pystr run"
    using missing_required_is_key_error [where sig = ?sig and hkws = ?hkws and body = body]
      4 5 6 7
    by simp
  from a b c d show ?thesis by blast
qed

text \<open>
  The error is a \<^verbatim>\<open>KeyError\<close>, or for a handler of the HTTP servers a \<^verbatim>\<open>TypeError\<close>, not
  an \<^verbatim>\<open>McpError\<close> with the code \<^verbatim>\<open>INVALID_PARAMS\<close>; and a value of the wrong type (\<^verbatim>\<open>5\<close>
  for the string \<^verbatim>\<open>location\<close>) is passed to the collaborator.
\<close>

theorem invalid_params_counterexample:
  "stdio_server (all_returning (PList forecast5)) Tool_get_weather [] =
     ([], Raise (PyException (py ''KeyError'') ([39] @ py ''location'' @ [39])))
   \<and> PyException (py ''KeyError'') ([39] @ py ''location'' @ [39])
       \<noteq> McpError INVALID_PARAMS ([39] @ py ''location'' @ [39])
   \<and> stdio_server (all_returning (PList forecast5)) Tool_get_weather [(''location'', PInt 5)] =
     ([\<lparr>callee = ''get_forecast'', args = [PInt 5], kwargs = []\<rparr>],
      Return (json_content (PList forecast5)))
   \<and> (\<forall>body :: (string \<times> pyval) list \<Rightarrow> pystr run.
        call_handler \<lparr>fname = ''get_weather'',
                      params = [(''location'', None), (''days'', Some (PInt 5))]\<rparr> body [] =
        ([], Raise (PyException (py ''TypeError'')
               (py ''get_weather() missing 1 required positional argument: ''
                @ [39] @ py ''location'' @ [39]))))"
  by (simp add: stdio_defs run_defs all_returning_def returning_def KeyError_def repr_str_def
        repr_quote_def repr_char_def call_handler_def bind_call_def missing_arguments_def
        TypeError_def quoted_def digits.simps)

lemma no_places_found:
  "str_in (py ''No places found'') (no_places q)"
  "str_in (py ''No places found'') (no_places_minimal d)"
  by (simp_all add: no_places_def no_places_minimal_def)

subsection \<open>\<^verbatim>\<open>discover_places\<close> without results\<close>

text \<open>
  Claim C4, as the code has it. When the places collaborator returns an empty list,
  \<^verbatim>\<open>discover_places\<close> returns. In \<^verbatim>\<open>mcp_http_server.py\<close> what it returns is the text
  \<^verbatim>\<open>No places found for <query>\<close>, in \<^verbatim>\<open>mcp_http_server_minimal.py\<close> the text
  \<^verbatim>\<open>No places found in <destination>\<close>. In \<^verbatim>\<open>mcp_server.py\<close> it returns one text content
  with the JSON text of whatever the collaborator returned, which is \<^verbatim>\<open>[]\<close> for the empty
  list: nothing is added that says there are no results.
\<close>

theorem discover_places_no_results:
  "(search_places sv [PStr (places_query destination activity_type)] [] = Return (PList []) \<longrightarrow>
      snd (http_server sv (Discover_places destination activity_type limit)) =
        Return (no_places (places_query destination activity_type)))
   \<and> (search_places sv []
          [(''location'', PStr destination), (''category'', PStr (category_or_default category))] =
        Return (PList []) \<longrightarrow>
      snd (minimal_server sv (Discover_places_minimal destination category)) =
        Return (no_places_minimal destination))
   \<and> (map_of kws ''destination'' = Some d
        \<and> search_places sv []
             [(''location'', d),
              (''category'', get_or kws ''category'' (PStr (py ''tourist_attraction'')))] =
           Return v \<longrightarrow>
      snd (stdio_server sv Tool_discover_places kws) =
        Return [TextContent (py ''text'') (json_dumps v)])
   \<and> json_dumps (PList []) = py ''[]''
   \<and> no_places (places_query destination activity_type) =
       [0xE2, 0x152] @ py '' No places found for '' @ places_query destination activity_type
   \<and> no_places_minimal destination = [0x274C] @ py '' No places found in '' @ destination
   \<and> str_in (py ''No places found'') (no_places (places_query destination activity_type))
   \<and> str_in (py ''No places found'') (no_places_minimal destination)"
proof -
  have 1: "search_places sv [PStr (places_query destination activity_type)] [] =
             Return (PList []) \<longrightarrow>
           snd (http_server sv (Discover_places destination activity_type limit)) =
             Return (no_places (places_query destination activity_type))"
    by (simp add: http_defs run_defs places_format_def)
  have 2: "search_places sv []
             [(''location'', PStr destination), (''category'', PStr (category_or_default category))] =
             Return (PList []) \<longrightarrow>
           snd (minimal_server sv (Discover_places_minimal destination category)) =
             Return (no_places_minimal destination)"
    by (simp add: minimal_defs run_defs places_format_minimal_def)
  have 3: "map_of kws ''destination'' = Some d
        \<and> search_places sv []
             [(''location'', d),
              (''category'', get_or kws ''category'' (PStr (py ''tourist_attraction'')))] =
           Return v \<longrightarrow>
      snd (stdio_server sv Tool_discover_places kws) =
        Return [TextContent (py ''text'') (json_dumps v)]"
    by (simp add: stdio_defs run_defs json_content_def)
  have 4: "json_dumps (PList []) = py ''[]''" by simp
  have 5: "no_places (places_query destination activity_type) =
       [0xE2, 0x152] @ py '' No places found for '' @ places_query destination activity_type"
    by (simp add: no_places_def)
  have 6: "no_places_minimal destination = [0x274C] @ py '' No places found in '' @ destination"
    by (simp add: no_places_minimal_def)
  from 1 2 3 4 5 6 no_places_found show ?thesis by blast
qed

theorem discover_places_no_results_witness:
  "snd (http_server (all_returning (PList [])) (Discover_places (py ''Paris'') (Some (py ''museums'')) 10)) =
     Return ([0xE2, 0x152] @ py '' No places found for museums in Paris'')
   \<and> snd (minimal_server (all_returning (PList [])) (Discover_places_minimal (py ''Paris'') None)) =
     Return ([0x274C] @ py '' No places found in Paris'')
   \<and> snd (stdio_server (all_returning (PList [])) Tool_discover_places
            [(''destination'', PStr (py ''Paris''))]) =
     Return [TextContent (py ''text'') (py ''[]'')]"
proof -
  let ?sv = "all_returning (PList [])"
  let ?kws = "[(''destination'', PStr (py ''Paris''))]"
  have r: "\<And>as kws. search_places ?sv as kws = Return (PList [])"
    by (simp add: all_returning_def returning_def)
  have p: "map_of ?kws ''destination'' = Some (PStr (py ''Paris''))" by simp
  from discover_places_no_results
         [where destination = "py ''Paris''" and activity_type = "Some (py ''museums'')"
            and limit = 10 and sv = ?sv and category = None and kws = ?kws
            and d = "PStr (py ''Paris'')" and v = "PList []"] r p
  show ?thesis
    by (simp add: places_query_def)
qed

text \<open>
  The payload of \<^verbatim>\<open>discover_places\<close> in \<^verbatim>\<open>mcp_server.py\<close> for an empty result is the two
  characters \<^verbatim>\<open>[]\<close>, without the words the two HTTP servers use.
\<close>

theorem no_results_indicator_counterexample:
  "stdio_server (all_returning (PList [])) Tool_discover_places
     [(''destination'', PStr (py ''Tokyo''))] =
     ([\<lparr>callee = ''search_places'', args = [],
        kwargs = [(''location'', PStr (py ''Tokyo'')),
                  (''category'', PStr (py ''tourist_attraction''))]\<rparr>],
      Return [TextContent (py ''text'') (py ''[]'')])
   \<and> \<not> str_in (py ''No places found'') (py ''[]'')"
  by (simp add: stdio_defs run_defs all_returning_def returning_def json_content_def get_or_def)

subsection \<open>Loops and substrings\<close>

lemma for_each_add_to:
  "map part xs = map Return blocks \<Longrightarrow> for_each (add_to part) s xs = Return (s @ concat blocks)"
proof (induction xs arbitrary: s blocks)
  case Nil
  then show ?case by simp
next
  case (Cons x xs)
  then obtain b bs where "blocks = b # bs" "part x = Return b" "map part xs = map Return bs"
    by (cases blocks) auto
  with Cons.IH [of bs "s @ b"] show ?case by (simp add: add_to_def)
qed

lemma for_each_add_to_prefix:
  "for_each (add_to part) s xs = Return r \<Longrightarrow> \<exists>rest. r = s @ rest"
proof (induction xs arbitrary: s)
  case Nil
  then show ?case by simp
next
  case (Cons x xs)
  show ?case
  proof (cases "part x")
    case (Return b)
    then have "add_to part s x = Return (s @ b)" by (simp add: add_to_def)
    with Cons.prems have "for_each (add_to part) (s @ b) xs = Return r"
      by simp
    from Cons.IH [OF this] show ?thesis by auto
  next
    case (Raise e)
    then have "add_to part s x = Raise e" by (simp add: add_to_def)
    with Cons.prems show ?thesis by simp
  qed
qed

lemma str_in_Nil [simp]: "str_in [] y"
  by (cases y) simp_all

lemma starts_with_appendL: "starts_with x a \<Longrightarrow> starts_with (x @ y) a"
  by (induction x a rule: starts_with.induct) simp_all

lemma str_in_here: "str_in a (a @ y)"
  by (cases "a @ y") (use starts_with_append [of a y] in auto)

lemma str_in_refl: "str_in a a"
  using str_in_here [of a "[]"] by simp

lemma str_in_Cons: "str_in a t \<Longrightarrow> str_in a (h # t)"
  by simp

lemma str_in_appendR: "str_in a y \<Longrightarrow> str_in a (x @ y)"
  by (induction x) simp_all

lemma str_in_appendL: "str_in a x \<Longrightarrow> str_in a (x @ y)"
proof (induction x)
  case Nil
  then show ?case by simp
next
  case (Cons h t)
  then show ?case using starts_with_appendL [of "h # t" a y] by auto
qed

lemmas str_in_intros = str_in_here str_in_refl str_in_appendR str_in_Cons

subsection \<open>\<^verbatim>\<open>get_weather\<close>\<close>

lemma day_ok_weather_day: "day_ok d \<Longrightarrow> \<exists>t. weather_day d = Return t"
proof (cases d)
  case (PDict kvs)
  assume "day_ok d"
  with PDict obtain s where "dict_get kvs (py ''description'') (PStr (py ''No description'')) = PStr s"
    by (cases "dict_get kvs (py ''description'') (PStr (py ''No description''))") auto
  with PDict show ?thesis by (simp add: weather_day_def)
qed auto

lemma all_ok_blocks:
  "\<forall>d \<in> set xs. day_ok d \<Longrightarrow> \<exists>blocks. map weather_day xs = map Return blocks"
proof (induction xs)
  case Nil
  then show ?case by simp
next
  case (Cons x xs)
  then obtain bs where bs: "map weather_day xs = map Return bs" by auto
  from Cons.prems obtain t where "weather_day x = Return t" using day_ok_weather_day by auto
  with bs have "map weather_day (x # xs) = map Return (t # bs)" by simp
  then show ?case by blast
qed

lemma get_weather_list:
  assumes "f [PStr location] [] = Return (PList forecast)"
    and "map weather_day (slice_to forecast days) = map Return blocks"
  shows "snd (get_weather f location days) =
           Return (if forecast = [] then weather_unable location
                   else weather_header location @ concat blocks)"
  using assms for_each_add_to [OF assms(2), of "weather_header location"]
  by (simp add: get_weather_def get_weather_body_def run_defs weather_format_def)



text \<open>
  Claim C10, as the code has it. \<^verbatim>\<open>get_weather\<close> does not check \<open>days\<close> against the range
  1 to 7 its description gives; \<open>days\<close> is used only to slice the forecast. When the
  collaborator returns a list that is not empty, \<open>days = 0\<close> gives the header
  \<^verbatim>\<open>**Weather Forecast for <location>**\<close> alone, with no day of detail, and any \<open>days\<close>
  above the length of the list gives the header and the detail of every entry, one block
  each, in order (each entry a dict with a string for description; the block of an entry
  has its date, its two temperatures, its description and the tip for that description).
  When the list is empty the result is the text \<^verbatim>\<open>Unable to get weather forecast for
  <location>\<close>, whatever \<open>days\<close> is, without the header.
\<close>

theorem get_weather_days_unchecked:
  assumes "get_forecast sv [PStr location] [] = Return (PList forecast)"
  shows "snd (http_server sv (Get_weather location 0)) =
           Return (if forecast = [] then weather_unable location else weather_header location)
         \<and> (int (length forecast) < days \<and> (\<forall>day \<in> set forecast. day_ok day) \<longrightarrow>
              (\<exists>blocks. length blocks = length forecast
                 \<and> map weather_day forecast = map Return blocks
                 \<and> snd (http_server sv (Get_weather location days)) =
                     Return (if forecast = [] then weather_unable location
                             else weather_header location @ concat blocks)))
         \<and> (forecast = [] \<longrightarrow>
              snd (http_server sv (Get_weather location days)) = Return (weather_unable location))
         \<and> weather_header location =
             [0x11F, 0x178, 0x152, 0xA4, 0xEF, 0xB8] @ py '' **Weather Forecast for '' @ location
             @ py ''**'' @ [10, 10]
         \<and> weather_unable location =
             [0xE2, 0x152] @ py '' Unable to get weather forecast for '' @ location
         \<and> (dict_get kvs (py ''description'') (PStr (py ''No description'')) = PStr description \<longrightarrow>
              weather_day (PDict kvs) =
                Return (py ''**'' @ py_str (dict_get kvs (py ''date'') (PStr (py ''Unknown'')))
                        @ py ''**: ''
                        @ py_str (dict_get kvs (py ''temperature_high'') (PStr (py ''N/A'')))
                        @ [0xC2, 0xB0] @ py ''/''
                        @ py_str (dict_get kvs (py ''temperature_low'') (PStr (py ''N/A'')))
                        @ [0xC2, 0xB0] @ py '' - '' @ description @ [10]
                        @ weather_tip (str_lower description)
                        @ [10]))"
proof -
  have zero: "map weather_day (slice_to forecast 0) = map Return []"
    by (simp add: slice_to_def)
  from get_weather_list [of "get_forecast sv" location forecast 0 "[]"] assms zero
  have 1: "snd (http_server sv (Get_weather location 0)) =
             Return (if forecast = [] then weather_unable location else weather_header location)"
    by simp
  have 2: "\<exists>blocks. length blocks = length forecast
             \<and> map weather_day forecast = map Return blocks
             \<and> snd (http_server sv (Get_weather location days)) =
                 Return (if forecast = [] then weather_unable location
                         else weather_header location @ concat blocks)"
    if long: "int (length forecast) < days" and ok: "\<forall>day \<in> set forecast. day_ok day"
  proof -
    from ok obtain blocks where b: "map weather_day forecast = map Return blocks"
      using all_ok_blocks by blast
    then have len: "length blocks = length forecast" by (metis length_map)
    from long have "slice_to forecast days = forecast" by (simp add: slice_to_def)
    with get_weather_list [of "get_forecast sv" location forecast days blocks] assms b
    have "snd (http_server sv (Get_weather location days)) =
            Return (if forecast = [] then weather_unable location
                    else weather_header location @ concat blocks)"
      by simp
    with b len show ?thesis by blast
  qed
  have 3: "snd (http_server sv (Get_weather location days)) = Return (weather_unable location)"
    if "forecast = []"
    using assms that
    by (simp add: get_weather_def get_weather_body_def run_defs weather_format_def)
  have 4: "weather_header location =
             [0x11F, 0x178, 0x152, 0xA4, 0xEF, 0xB8] @ py '' **Weather Forecast for '' @ location
             @ py ''**'' @ [10, 10]"
    by (simp add: weather_header_def)
  have 5: "weather_unable location =
             [0xE2, 0x152] @ py '' Unable to get weather forecast for '' @ location"
    by (simp add: weather_unable_def)
  have 6: "weather_day (PDict kvs) =
                Return (py ''**'' @ py_str (dict_get kvs (py ''date'') (PStr (py ''Unknown'')))
                        @ py ''**: ''
                        @ py_str (dict_get kvs (py ''temperature_high'') (PStr (py ''N/A'')))
                        @ [0xC2, 0xB0] @ py ''/''
                        @ py_str (dict_get kvs (py ''temperature_low'') (PStr (py ''N/A'')))
                        @ [0xC2, 0xB0] @ py '' - '' @ description @ [10]
                        @ weather_tip (str_lower description)
                        @ [10])"
    if "dict_get kvs (py ''description'') (PStr (py ''No description'')) = PStr description"
    using that by (simp add: weather_day_def)
  from 1 2 3 4 5 6 show ?thesis by blast
qed

theorem get_weather_days_unchecked_witness:
  "snd (http_server (all_returning (PList forecast5)) (Get_weather (py ''London'') 0)) =
     Return ([0x11F, 0x178, 0x152, 0xA4, 0xEF, 0xB8] @ py '' **Weather Forecast for London**''
             @ [10, 10])
   \<and> snd (http_server (all_returning (PList forecast5)) (Get_weather (py ''London'') 9)) =
     Return ([0x11F, 0x178, 0x152, 0xA4, 0xEF, 0xB8] @ py '' **Weather Forecast for London**''
             @ [10, 10] @ concat (three_days @ last_days))
   \<and> length (three_days @ last_days) = 5"
proof -
  let ?sv = "all_returning (PList forecast5)"
  have 1: "get_forecast ?sv [PStr (py ''London'')] [] = Return (PList forecast5)"
    by (simp add: all_returning_def returning_def)
  have 2: "forecast5 \<noteq> []" by (simp add: forecast5_def)
  have 3: "int (length forecast5) < 9" by (simp add: forecast5_def)
  have 4: "\<forall>day \<in> set forecast5. day_ok day" by (simp add: forecast5_def dict_get_def)
  have 5: "map weather_day forecast5 = map Return (three_days @ last_days)"
    unfolding three_days_def last_days_def by code_simp
  note t = get_weather_days_unchecked [of ?sv "py ''London''" forecast5 9, OF 1]
  from t have z0: "snd (http_server ?sv (Get_weather (py ''London'') 0)) =
      Return (if forecast5 = [] then weather_unable (py ''London'')
              else weather_header (py ''London''))"
    by blast
  from t have h: "weather_header (py ''London'') =
      [0x11F, 0x178, 0x152, 0xA4, 0xEF, 0xB8] @ py '' **Weather Forecast for '' @ py ''London''
      @ py ''**'' @ [10, 10]"
    by blast
  from t 3 4 obtain blocks where
    b: "map weather_day forecast5 = map Return blocks"
    and r0: "snd (http_server ?sv (Get_weather (py ''London'') 9)) =
              Return (if forecast5 = [] then weather_unable (py ''London'')
                      else weather_header (py ''London'') @ concat blocks)"
    by blast
  from z0 2 have z: "snd (http_server ?sv (Get_weather (py ''London'') 0)) =
      Return (weather_header (py ''London''))"
    by simp
  from r0 2 have r: "snd (http_server ?sv (Get_weather (py ''London'') 9)) =
      Return (weather_header (py ''London'') @ concat blocks)"
    by simp
  from b 5 have "map Return blocks = map Return (three_days @ last_days)"
    by simp
  moreover have "inj (Return :: pystr \<Rightarrow> pystr outcome)"
    by (simp add: inj_on_def)
  ultimately have "blocks = three_days @ last_days"
    by (simp only: inj_map_eq_map)
  with z h r show ?thesis by (simp add: three_days_def last_days_def)
qed

text \<open>
  With an empty forecast \<open>days = 0\<close> does not give the header; and an entry whose
  description is not a string makes the formatting fail for a \<open>days\<close> above the length.
\<close>

theorem forecast_header_counterexample:
  "http_server (all_returning (PList [])) (Get_weather (py ''London'') 0) =
     ([\<lparr>callee = ''get_forecast'', args = [PStr (py ''London'')], kwargs = []\<rparr>],
      Return ([0xE2, 0x152] @ py '' Unable to get weather forecast for London''))
   \<and> \<not> str_in (py ''Weather Forecast for'')
         ([0xE2, 0x152] @ py '' Unable to get weather forecast for London'')
   \<and> snd (http_server (all_returning undescribed) (Get_weather (py ''London'') 9)) =
     Raise (McpError INTERNAL_ERROR
       (py ''Weather lookup failed: '' @ [39] @ py ''NoneType'' @ [39]
        @ py '' object has no attribute '' @ [39] @ py ''lower'' @ [39]))"
  by (simp add: http_defs run_defs all_returning_def returning_def undescribed_def
        weather_format_def weather_unable_def weather_header_def slice_to_def add_to_def
        weather_day_def dict_get_def AttributeError_def internal_error_def try_except_def)

subsection \<open>\<^verbatim>\<open>search_flight_options\<close> and the return date\<close>

text \<open>
  Claim C9. \<^verbatim>\<open>search_flight_options\<close> never passes \<^verbatim>\<open>return_date\<close> on: its one call gives
  \<^verbatim>\<open>search_flights\<close> the keywords \<^verbatim>\<open>origin\<close>, \<^verbatim>\<open>destination\<close>, \<^verbatim>\<open>departure_date\<close>, \<^verbatim>\<open>adults\<close>
  and \<^verbatim>\<open>cabin_class\<close> and nothing else. The return date enters the result only through the
  label, \<^verbatim>\<open>Round Trip\<close> for a string that is not empty and \<^verbatim>\<open>One Way\<close> otherwise: two
  invocations whose labels agree are equal, and a list of flights is written under that
  label.
\<close>

theorem return_date_not_forwarded:
  "fst (http_server sv (Search_flight_options origin destination departure_date return_date
          adults cabin_class)) =
     [\<lparr>callee = ''search_flights'', args = [],
       kwargs = [(''origin'', PStr origin), (''destination'', PStr destination),
                 (''departure_date'', PStr departure_date), (''adults'', PInt adults),
                 (''cabin_class'', PStr cabin_class)]\<rparr>]
   \<and> (trip_type return_date = trip_type return_date' \<longrightarrow>
        http_server sv (Search_flight_options origin destination departure_date return_date
          adults cabin_class) =
        http_server sv (Search_flight_options origin destination departure_date return_date'
          adults cabin_class))
   \<and> trip_type return_date =
       (if return_date = None \<or> return_date = Some [] then py ''One Way'' else py ''Round Trip'')
   \<and> (search_flights sv []
          [(''origin'', PStr origin), (''destination'', PStr destination),
           (''departure_date'', PStr departure_date), (''adults'', PInt adults),
           (''cabin_class'', PStr cabin_class)] = Return (PList flights)
        \<and> flights \<noteq> []
        \<and> snd (http_server sv (Search_flight_options origin destination departure_date
                  return_date adults cabin_class)) = Return text \<longrightarrow>
        str_in (trip_type return_date) text)"
proof -
  let ?kws = "[(''origin'', PStr origin), (''destination'', PStr destination),
               (''departure_date'', PStr departure_date), (''adults'', PInt adults),
               (''cabin_class'', PStr cabin_class)]"
  have 1: "fst (http_server sv (Search_flight_options origin destination departure_date
             return_date adults cabin_class)) =
           [\<lparr>callee = ''search_flights'', args = [], kwargs = ?kws\<rparr>]"
    by (simp add: http_defs run_defs split: outcome.splits)
  have 2: "trip_type return_date = trip_type return_date' \<longrightarrow>
        http_server sv (Search_flight_options origin destination departure_date return_date
          adults cabin_class) =
        http_server sv (Search_flight_options origin destination departure_date return_date'
          adults cabin_class)"
  proof
    assume same: "trip_type return_date = trip_type return_date'"
    then have "flights_format origin destination departure_date return_date adults cabin_class fl =
               flights_format origin destination departure_date return_date' adults cabin_class fl"
      for fl
      by (simp add: flights_format_def)
    then show "http_server sv (Search_flight_options origin destination departure_date return_date
          adults cabin_class) =
        http_server sv (Search_flight_options origin destination departure_date return_date'
          adults cabin_class)"
      by (simp add: search_flight_options_def search_flight_options_body_def)
  qed
  have 3: "trip_type return_date =
       (if return_date = None \<or> return_date = Some [] then py ''One Way'' else py ''Round Trip'')"
    by (cases return_date) (simp_all add: trip_type_def)
  have 4: "str_in (trip_type return_date) text"
    if f: "search_flights sv [] ?kws = Return (PList flights)" and ne: "flights \<noteq> []"
      and r: "snd (http_server sv (Search_flight_options origin destination departure_date
                  return_date adults cabin_class)) = Return text"
  proof -
    let ?head = "[0xE2, 0x153, 0x2C6, 0xEF, 0xB8] @ py '' **Flight Options: '' @ origin @ py '' ''
           @ [0xE2, 0x2020, 0x2019] @ py '' '' @ destination @ py ''**'' @ [10]
           @ [0x11F, 0x178, 0x201C, 0x2026] @ py '' '' @ departure_date
           @ py '' | '' @ [0x11F, 0x178, 0x2018, 0xA5] @ py '' '' @ int_str adults
           @ py '' adult(s) | '' @ [0x11F, 0x178, 0xAB] @ py '' '' @ str_title cabin_class
           @ py '' | ''"
    from f ne r have "reraise (py ''Flight search failed: '')
        (for_each (add_to flight_entry) (?head @ trip_type return_date @ [10, 10])
           (enumerate 1 (slice_to flights 6))) = Return text"
      by (simp add: http_defs run_defs flights_format_def)
    then have "for_each (add_to flight_entry) (?head @ trip_type return_date @ [10, 10])
           (enumerate 1 (slice_to flights 6)) = Return text"
      by (cases "for_each (add_to flight_entry) (?head @ trip_type return_date @ [10, 10])
           (enumerate 1 (slice_to flights 6))") (simp_all add: internal_error_def split: if_splits)
    from for_each_add_to_prefix [OF this] obtain rest
      where "text = (?head @ trip_type return_date @ [10, 10]) @ rest" by blast
    then have "text = ?head @ trip_type return_date @ ([10, 10] @ rest)"
      by (simp only: append_assoc)
    moreover have "str_in (trip_type return_date)
                     (?head @ trip_type return_date @ ([10, 10] @ rest))"
      by (rule str_in_appendR [OF str_in_here])
    ultimately show ?thesis by (simp only:)
  qed
  from 1 2 3 4 show ?thesis by blast
qed

theorem return_date_not_forwarded_witness:
  "http_server (all_returning one_flight)
     (Search_flight_options (py ''NYC'') (py ''LAX'') (py ''2024-12-15'') (Some (py ''2024-12-22''))
        1 (py ''economy'')) =
   http_server (all_returning one_flight)
     (Search_flight_options (py ''NYC'') (py ''LAX'') (py ''2024-12-15'') (Some (py ''2025-01-05''))
        1 (py ''economy''))
   \<and> (\<exists>text. snd (http_server (all_returning one_flight)
                    (Search_flight_options (py ''NYC'') (py ''LAX'') (py ''2024-12-15'')
                       (Some (py ''2024-12-22'')) 1 (py ''economy''))) = Return text
              \<and> str_in (py ''Round Trip'') text)"
proof -
  let ?sv = "all_returning one_flight"
  let ?t = "Search_flight_options (py ''NYC'') (py ''LAX'') (py ''2024-12-15'')
              (Some (py ''2024-12-22'')) 1 (py ''economy'')"
  have 1: "trip_type (Some (py ''2024-12-22'')) = trip_type (Some (py ''2025-01-05''))"
    by (simp add: trip_type_def)
  have 2: "search_flights ?sv []
          [(''origin'', PStr (py ''NYC'')), (''destination'', PStr (py ''LAX'')),
           (''departure_date'', PStr (py ''2024-12-15'')), (''adults'', PInt 1),
           (''cabin_class'', PStr (py ''economy''))] =
          Return (PList [PDict [(py ''airline'', PStr (py ''Delta'')), (py ''price'', PInt 199),
                   (py ''departure_time'', PStr (py ''08:00'')),
                   (py ''arrival_time'', PStr (py ''11:15'')),
                   (py ''duration'', PStr (py ''6h 15m''))]])"
    by (simp add: all_returning_def returning_def one_flight_def)
  have 3: "\<exists>text. snd (http_server ?sv ?t) = Return text"
    by (simp add: http_defs run_defs flights_format_def flight_entry_def add_to_def dict_get_def
          slice_to_def all_returning_def returning_def one_flight_def)
  then obtain out where t: "snd (http_server ?sv ?t) = Return out" by blast
  have 4: "trip_type (Some (py ''2024-12-22'')) = py ''Round Trip''"
    by (simp add: trip_type_def)
  from return_date_not_forwarded
         [of ?sv "py ''NYC''" "py ''LAX''" "py ''2024-12-15''" "Some (py ''2024-12-22'')" 1
             "py ''economy''" "Some (py ''2025-01-05'')"
             "[PDict [(py ''airline'', PStr (py ''Delta'')), (py ''price'', PInt 199),
                   (py ''departure_time'', PStr (py ''08:00'')),
                   (py ''arrival_time'', PStr (py ''11:15'')),
                   (py ''duration'', PStr (py ''6h 15m''))]]" out]
       1 2 t 4
  show ?thesis by (auto simp only:)
qed

subsection \<open>\<^verbatim>\<open>check_travel_requirements\<close>\<close>

lemma str_in_concat_map:
  "a \<in> set items \<Longrightarrow> str_in (py_str a) (concat (map advisory_line items))"
proof (induction items)
  case Nil
  then show ?case by simp
next
  case (Cons x xs)
  show ?case
  proof (cases "a = x")
    case True
    have "str_in (py_str x) (advisory_line x)"
      unfolding advisory_line_def
      by (rule str_in_here | rule str_in_appendR)+
    then show ?thesis using True by (simp add: str_in_appendL)
  next
    case False
    with Cons show ?thesis by (simp add: str_in_appendR)
  qed
qed

lemma visa_section_dict:
  assumes "visa \<noteq> []"
  shows "\<exists>visa_text. visa_section (PDict visa) = Return visa_text
     \<and> visa_text =
          ([0x11F, 0x178, 0x203A, 0x201A] @ py '' **Visa Requirements:**'' @ [10]
           @ (if py_truthy (dict_get visa (py ''required'') PNone) then
                py ''   '' @ [0xE2, 0x153, 0x2026] @ py '' Visa Required: ''
                @ py_str (dict_get visa (py ''type'') (PStr (py ''Tourist visa''))) @ [10]
                @ py ''   '' @ [0xE2, 0xB1, 0xEF, 0xB8] @ py '' Processing Time: ''
                @ py_str (dict_get visa (py ''processing_time'') (PStr (py ''Check embassy'')))
                @ [10]
                @ py ''   '' @ [0x11F, 0x178, 0x2019, 0xB0] @ py '' Fee: ''
                @ py_str (dict_get visa (py ''fee'') (PStr (py ''Contact embassy''))) @ [10]
              else
                py ''   '' @ [0xE2, 0x153, 0x2026] @ py '' No visa required for tourist visits''
                @ [10])
           @ (if py_truthy (dict_get visa (py ''duration'') PNone) then
                py ''   '' @ [0x11F, 0x178, 0x201C, 0x2026] @ py '' Max Stay: ''
                @ py_str (dict_get visa (py ''duration'') PNone) @ [10]
              else [])
           @ [10])
     \<and> (py_truthy (dict_get visa (py ''required'') PNone) \<longrightarrow>
          str_in (py_str (dict_get visa (py ''type'') (PStr (py ''Tourist visa'')))) visa_text
          \<and> str_in (py_str (dict_get visa (py ''processing_time'') (PStr (py ''Check embassy'')))) visa_text
          \<and> str_in (py_str (dict_get visa (py ''fee'') (PStr (py ''Contact embassy'')))) visa_text)
     \<and> (\<not> py_truthy (dict_get visa (py ''required'') PNone) \<longrightarrow>
          str_in (py ''No visa required'') visa_text)
     \<and> (py_truthy (dict_get visa (py ''duration'') PNone) \<longrightarrow>
          str_in (py_str (dict_get visa (py ''duration'') PNone)) visa_text)"
proof -
  let ?title = "[0x11F, 0x178, 0x203A, 0x201A] @ py '' **Visa Requirements:**'' @ [10]"
  let ?type = "py_str (dict_get visa (py ''type'') (PStr (py ''Tourist visa'')))"
  let ?time = "py_str (dict_get visa (py ''processing_time'') (PStr (py ''Check embassy'')))"
  let ?fee = "py_str (dict_get visa (py ''fee'') (PStr (py ''Contact embassy'')))"
  let ?duration = "py_str (dict_get visa (py ''duration'') PNone)"
  let ?yes = "(py ''   '' @ [0xE2, 0x153, 0x2026] @ py '' Visa Required: '') @ ?type
                @ ([10] @ py ''   '' @ [0xE2, 0xB1, 0xEF, 0xB8] @ py '' Processing Time: '') @ ?time
                @ ([10] @ py ''   '' @ [0x11F, 0x178, 0x2019, 0xB0] @ py '' Fee: '') @ ?fee @ [10]"
  let ?no = "py ''   '' @ [0xE2, 0x153, 0x2026] @ py '' No visa required for tourist visits'' @ [10]"
  let ?stay = "(py ''   '' @ [0x11F, 0x178, 0x201C, 0x2026] @ py '' Max Stay: '') @ ?duration @ [10]"
  let ?req = "py_truthy (dict_get visa (py ''required'') PNone)"
  let ?dur = "py_truthy (dict_get visa (py ''duration'') PNone)"
  let ?text = "?title @ (if ?req then ?yes else ?no) @ (if ?dur then ?stay else []) @ [10]"
  from assms have 0: "visa_section (PDict visa) = Return ?text"
    by (simp add: visa_section_def)
  have 1: "str_in ?type ?text \<and> str_in ?time ?text \<and> str_in ?fee ?text" if ?req
    using that
    by (simp only: if_True append_assoc) (intro conjI; (rule str_in_here | rule str_in_appendR)+)
  have 2: "str_in (py ''No visa required'') ?text" if "\<not> ?req"
    using that by simp
  have 3: "str_in ?duration ?text" if ?dur
    using that
    by (cases ?req; simp only: if_True if_False append_assoc append_Nil)
       ((rule str_in_here | rule str_in_appendR)+)
  have 4: "?text =
          ([0x11F, 0x178, 0x203A, 0x201A] @ py '' **Visa Requirements:**'' @ [10]
           @ (if py_truthy (dict_get visa (py ''required'') PNone) then
                py ''   '' @ [0xE2, 0x153, 0x2026] @ py '' Visa Required: ''
                @ py_str (dict_get visa (py ''type'') (PStr (py ''Tourist visa''))) @ [10]
                @ py ''   '' @ [0xE2, 0xB1, 0xEF, 0xB8] @ py '' Processing Time: ''
                @ py_str (dict_get visa (py ''processing_time'') (PStr (py ''Check embassy'')))
                @ [10]
                @ py ''   '' @ [0x11F, 0x178, 0x2019, 0xB0] @ py '' Fee: ''
                @ py_str (dict_get visa (py ''fee'') (PStr (py ''Contact embassy''))) @ [10]
              else
                py ''   '' @ [0xE2, 0x153, 0x2026] @ py '' No visa required for tourist visits''
                @ [10])
           @ (if py_truthy (dict_get visa (py ''duration'') PNone) then
                py ''   '' @ [0x11F, 0x178, 0x201C, 0x2026] @ py '' Max Stay: ''
                @ py_str (dict_get visa (py ''duration'') PNone) @ [10]
              else [])
           @ [10])"
    by simp
  from 0 1 2 3 4 show ?thesis by blast
qed

lemma safety_section_dict:
  assumes "safety \<noteq> []" and "advisories_of safety = Some advisories"
  shows "\<exists>safety_text. safety_section (PDict safety) = Return safety_text
     \<and> safety_text =
          ([0xE2, 0x161, 0xA0, 0xEF, 0xB8] @ py '' **Safety Advisory:**'' @ [10]
           @ py ''   '' @ [0x11F, 0x178, 0x161, 0xA8] @ py '' Level: ''
           @ py_str (dict_get safety (py ''level'') (PStr (py ''Standard precautions''))) @ [10]
           @ concat (map advisory_line advisories)
           @ py ''   '' @ [0x11F, 0x178, 0x201C, 0x2026] @ py '' Last Updated: ''
           @ py_str (dict_get safety (py ''last_updated'') (PStr (py ''N/A''))) @ [10, 10])
     \<and> str_in (py_str (dict_get safety (py ''level'') (PStr (py ''Standard precautions'')))) safety_text
     \<and> (\<forall>a \<in> set advisories. str_in (py_str a) safety_text)
     \<and> str_in (py_str (dict_get safety (py ''last_updated'') (PStr (py ''N/A'')))) safety_text"
proof -
  let ?level = "py_str (dict_get safety (py ''level'') (PStr (py ''Standard precautions'')))"
  let ?updated = "py_str (dict_get safety (py ''last_updated'') (PStr (py ''N/A'')))"
  let ?lines = "concat (map advisory_line advisories)"
  let ?text = "([0xE2, 0x161, 0xA0, 0xEF, 0xB8] @ py '' **Safety Advisory:**'' @ [10]
                @ py ''   '' @ [0x11F, 0x178, 0x161, 0xA8] @ py '' Level: '') @ ?level
              @ [10] @ ?lines
              @ (py ''   '' @ [0x11F, 0x178, 0x201C, 0x2026] @ py '' Last Updated: '') @ ?updated
              @ [10, 10]"
  from assms have 0: "safety_section (PDict safety) = Return ?text"
    by (cases "dict_get safety (py ''advisories'') PNone")
       (auto simp: safety_section_def advisories_of_def slice_to_def split: if_splits)
  have 1: "str_in ?level ?text"
    by (simp only: append_assoc) ((rule str_in_here | rule str_in_appendR)+)
  have 2: "str_in ?updated ?text"
    by (simp only: append_assoc) ((rule str_in_here | rule str_in_appendR)+)
  have 3: "str_in (py_str a) ?text" if "a \<in> set advisories" for a
  proof -
    from that have "str_in (py_str a) ?lines" by (rule str_in_concat_map)
    then have "str_in (py_str a) (?lines
              @ (py ''   '' @ [0x11F, 0x178, 0x201C, 0x2026] @ py '' Last Updated: '') @ ?updated
              @ [10, 10])"
      by (rule str_in_appendL)
    then have "str_in (py_str a)
             ((([0xE2, 0x161, 0xA0, 0xEF, 0xB8] @ py '' **Safety Advisory:**'' @ [10]
                @ py ''   '' @ [0x11F, 0x178, 0x161, 0xA8] @ py '' Level: '') @ ?level @ [10])
              @ (?lines
                 @ (py ''   '' @ [0x11F, 0x178, 0x201C, 0x2026] @ py '' Last Updated: '') @ ?updated
                 @ [10, 10]))"
      by (rule str_in_appendR)
    then show ?thesis by (simp only: append_assoc)
  qed
  have 4: "?text =
          ([0xE2, 0x161, 0xA0, 0xEF, 0xB8] @ py '' **Safety Advisory:**'' @ [10]
           @ py ''   '' @ [0x11F, 0x178, 0x161, 0xA8] @ py '' Level: ''
           @ py_str (dict_get safety (py ''level'') (PStr (py ''Standard precautions''))) @ [10]
           @ concat (map advisory_line advisories)
           @ py ''   '' @ [0x11F, 0x178, 0x201C, 0x2026] @ py '' Last Updated: ''
           @ py_str (dict_get safety (py ''last_updated'') (PStr (py ''N/A''))) @ [10, 10])"
    by simp
  from 0 1 2 3 4 show ?thesis by blast
qed

text \<open>
  Claim C6, as the code has it. When the visa collaborator and the safety collaborator
  return records (dicts that are not empty, the value under \<^verbatim>\<open>"advisories"\<close> false or a
  list), \<^verbatim>\<open>check_travel_requirements\<close> returns, for any two country names. In
  \<^verbatim>\<open>mcp_http_server.py\<close> the text is the header, the visa part, the safety part and the
  note, and the two parts are made of seven keys of the records and nothing else of them:
  the visa part has the values under \<^verbatim>\<open>"type"\<close>, \<^verbatim>\<open>"processing_time"\<close> and \<^verbatim>\<open>"fee"\<close> when
  the value under \<^verbatim>\<open>"required"\<close> is true and the sentence
  \<^verbatim>\<open>No visa required for tourist visits\<close> when it is false or absent, and the value under
  \<^verbatim>\<open>"duration"\<close> when it is true; the safety part has the value under \<^verbatim>\<open>"level"\<close>, the
  first three items under \<^verbatim>\<open>"advisories"\<close> and the value under \<^verbatim>\<open>"last_updated"\<close>; a key
  that is absent is replaced by a fixed default. In \<^verbatim>\<open>mcp_server.py\<close> the result is the
  JSON text of the two records, whole, under \<^verbatim>\<open>"visa_requirements"\<close> and
  \<^verbatim>\<open>"safety_advisories"\<close>.
\<close>

theorem travel_requirements_fields:
  assumes "check_visa_requirements sv [PStr origin_country, PStr destination_country] [] =
             Return (PDict visa)"
    and "get_safety_advisories sv [PStr destination_country] [] = Return (PDict safety)"
    and "visa \<noteq> []" and "safety \<noteq> []"
    and "advisories_of safety = Some advisories"
  shows "(\<exists>visa_text safety_text.
            snd (http_server sv (Check_travel_requirements origin_country destination_country)) =
              Return (requirements_header origin_country destination_country
                      @ visa_text @ safety_text @ requirements_note)
          \<and> visa_text =
               ([0x11F, 0x178, 0x203A, 0x201A] @ py '' **Visa Requirements:**'' @ [10]
                @ (if py_truthy (dict_get visa (py ''required'') PNone) then
                     py ''   '' @ [0xE2, 0x153, 0x2026] @ py '' Visa Required: ''
                     @ py_str (dict_get visa (py ''type'') (PStr (py ''Tourist visa''))) @ [10]
                     @ py ''   '' @ [0xE2, 0xB1, 0xEF, 0xB8] @ py '' Processing Time: ''
                     @ py_str (dict_get visa (py ''processing_time'') (PStr (py ''Check embassy'')))
                     @ [10]
                     @ py ''   '' @ [0x11F, 0x178, 0x2019, 0xB0] @ py '' Fee: ''
                     @ py_str (dict_get visa (py ''fee'') (PStr (py ''Contact embassy''))) @ [10]
                   else
                     py ''   '' @ [0xE2, 0x153, 0x2026] @ py '' No visa required for tourist visits''
                     @ [10])
                @ (if py_truthy (dict_get visa (py ''duration'') PNone) then
                     py ''   '' @ [0x11F, 0x178, 0x201C, 0x2026] @ py '' Max Stay: ''
                     @ py_str (dict_get visa (py ''duration'') PNone) @ [10]
                   else [])
                @ [10])
          \<and> safety_text =
               ([0xE2, 0x161, 0xA0, 0xEF, 0xB8] @ py '' **Safety Advisory:**'' @ [10]
                @ py ''   '' @ [0x11F, 0x178, 0x161, 0xA8] @ py '' Level: ''
                @ py_str (dict_get safety (py ''level'') (PStr (py ''Standard precautions''))) @ [10]
                @ concat (map advisory_line advisories)
                @ py ''   '' @ [0x11F, 0x178, 0x201C, 0x2026] @ py '' Last Updated: ''
                @ py_str (dict_get safety (py ''last_updated'') (PStr (py ''N/A''))) @ [10, 10])
          \<and> (py_truthy (dict_get visa (py ''required'') PNone) \<longrightarrow>
               str_in (py_str (dict_get visa (py ''type'') (PStr (py ''Tourist visa'')))) visa_text
               \<and> str_in (py_str (dict_get visa (py ''processing_time'') (PStr (py ''Check embassy''))))
                    visa_text
               \<and> str_in (py_str (dict_get visa (py ''fee'') (PStr (py ''Contact embassy'')))) visa_text)
          \<and> (\<not> py_truthy (dict_get visa (py ''required'') PNone) \<longrightarrow>
               str_in (py ''No visa required'') visa_text)
          \<and> (py_truthy (dict_get visa (py ''duration'') PNone) \<longrightarrow>
               str_in (py_str (dict_get visa (py ''duration'') PNone)) visa_text)
          \<and> str_in (py_str (dict_get safety (py ''level'') (PStr (py ''Standard precautions''))))
               safety_text
          \<and> (\<forall>a \<in> set advisories. str_in (py_str a) safety_text)
          \<and> str_in (py_str (dict_get safety (py ''last_updated'') (PStr (py ''N/A'')))) safety_text)
       \<and> (map_of kws ''origin_country'' = Some (PStr origin_country)
            \<and> map_of kws ''destination_country'' = Some (PStr destination_country) \<longrightarrow>
          snd (stdio_server sv Tool_check_travel_requirements kws) =
            Return [TextContent (py ''text'')
                      (json_dumps (PDict [(py ''visa_requirements'', PDict visa),
                                          (py ''safety_advisories'', PDict safety)]))])"
proof -
  from visa_section_dict [OF assms(3)] obtain visa_text where
    v: "visa_section (PDict visa) = Return visa_text"
    and v0: "visa_text =
               ([0x11F, 0x178, 0x203A, 0x201A] @ py '' **Visa Requirements:**'' @ [10]
                @ (if py_truthy (dict_get visa (py ''required'') PNone) then
                     py ''   '' @ [0xE2, 0x153, 0x2026] @ py '' Visa Required: ''
                     @ py_str (dict_get visa (py ''type'') (PStr (py ''Tourist visa''))) @ [10]
                     @ py ''   '' @ [0xE2, 0xB1, 0xEF, 0xB8] @ py '' Processing Time: ''
                     @ py_str (dict_get visa (py ''processing_time'') (PStr (py ''Check embassy'')))
                     @ [10]
                     @ py ''   '' @ [0x11F, 0x178, 0x2019, 0xB0] @ py '' Fee: ''
                     @ py_str (dict_get visa (py ''fee'') (PStr (py ''Contact embassy''))) @ [10]
                   else
                     py ''   '' @ [0xE2, 0x153, 0x2026] @ py '' No visa required for tourist visits''
                     @ [10])
                @ (if py_truthy (dict_get visa (py ''duration'') PNone) then
                     py ''   '' @ [0x11F, 0x178, 0x201C, 0x2026] @ py '' Max Stay: ''
                     @ py_str (dict_get visa (py ''duration'') PNone) @ [10]
                   else [])
                @ [10])"
    and v1: "py_truthy (dict_get visa (py ''required'') PNone) \<longrightarrow>
               str_in (py_str (dict_get visa (py ''type'') (PStr (py ''Tourist visa'')))) visa_text
               \<and> str_in (py_str (dict_get visa (py ''processing_time'') (PStr (py ''Check embassy''))))
                    visa_text
               \<and> str_in (py_str (dict_get visa (py ''fee'') (PStr (py ''Contact embassy'')))) visa_text"
    and v2: "\<not> py_truthy (dict_get visa (py ''required'') PNone) \<longrightarrow>
               str_in (py ''No visa required'') visa_text"
    and v3: "py_truthy (dict_get visa (py ''duration'') PNone) \<longrightarrow>
               str_in (py_str (dict_get visa (py ''duration'') PNone)) visa_text"
    by blast
  from safety_section_dict [OF assms(4,5)] obtain safety_text where
    s: "safety_section (PDict safety) = Return safety_text"
    and s0: "safety_text =
               ([0xE2, 0x161, 0xA0, 0xEF, 0xB8] @ py '' **Safety Advisory:**'' @ [10]
                @ py ''   '' @ [0x11F, 0x178, 0x161, 0xA8] @ py '' Level: ''
                @ py_str (dict_get safety (py ''level'') (PStr (py ''Standard precautions''))) @ [10]
                @ concat (map advisory_line advisories)
                @ py ''   '' @ [0x11F, 0x178, 0x201C, 0x2026] @ py '' Last Updated: ''
                @ py_str (dict_get safety (py ''last_updated'') (PStr (py ''N/A''))) @ [10, 10])"
    and s1: "str_in (py_str (dict_get safety (py ''level'') (PStr (py ''Standard precautions''))))
               safety_text"
    and s2: "\<forall>a \<in> set advisories. str_in (py_str a) safety_text"
    and s3: "str_in (py_str (dict_get safety (py ''last_updated'') (PStr (py ''N/A'')))) safety_text"
    by blast
  from assms(1,2) v s
  have r: "snd (http_server sv (Check_travel_requirements origin_country destination_country)) =
              Return (requirements_header origin_country destination_country
                      @ visa_text @ safety_text @ requirements_note)"
    by (simp add: check_travel_requirements_def check_travel_requirements_body_def run_defs
        requirements_format_def)
  from assms(1,2)
  have j: "map_of kws ''origin_country'' = Some (PStr origin_country)
            \<and> map_of kws ''destination_country'' = Some (PStr destination_country) \<longrightarrow>
          snd (stdio_server sv Tool_check_travel_requirements kws) =
            Return [TextContent (py ''text'')
                      (json_dumps (PDict [(py ''visa_requirements'', PDict visa),
                                          (py ''safety_advisories'', PDict safety)]))]"
    by (simp add: stdio_defs run_defs json_content_def)
  from r v0 v1 v2 v3 s0 s1 s2 s3 j show ?thesis by blast
qed

theorem travel_requirements_fields_witness:
  "snd (http_server travel_services
          (Check_travel_requirements (py ''United States'') (py ''Japan''))) =
     Return ([0x11F, 0x178, 0x201C, 0x2039] @ py '' **Travel Requirements: United States ''
             @ [0xE2, 0x2020, 0x2019] @ py '' Japan**'' @ [10, 10]
             @ [0x11F, 0x178, 0x203A, 0x201A] @ py '' **Visa Requirements:**'' @ [10]
             @ py ''   '' @ [0xE2, 0x153, 0x2026] @ py '' Visa Required: eVisa'' @ [10]
             @ py ''   '' @ [0xE2, 0xB1, 0xEF, 0xB8] @ py '' Processing Time: 3 business days'' @ [10]
             @ py ''   '' @ [0x11F, 0x178, 0x2019, 0xB0] @ py '' Fee: USD 25'' @ [10]
             @ py ''   '' @ [0x11F, 0x178, 0x201C, 0x2026] @ py '' Max Stay: 90 days'' @ [10]
             @ [10]
             @ [0xE2, 0x161, 0xA0, 0xEF, 0xB8] @ py '' **Safety Advisory:**'' @ [10]
             @ py ''   '' @ [0x11F, 0x178, 0x161, 0xA8] @ py '' Level: Level 1'' @ [10]
             @ py ''   '' @ [0xE2, 0x20AC, 0xA2] @ py '' Carry your passport'' @ [10]
             @ py ''   '' @ [0xE2, 0x20AC, 0xA2] @ py '' Typhoon season'' @ [10]
             @ py ''   '' @ [0xE2, 0x20AC, 0xA2] @ py '' Earthquake drills'' @ [10]
             @ py ''   '' @ [0x11F, 0x178, 0x201C, 0x2026] @ py '' Last Updated: 2025-01-15''
             @ [10, 10]
             @ [0xE2, 0x201E, 0xB9, 0xEF, 0xB8]
             @ py '' **Note**: Always verify current requirements with official embassy sources before travel.'')
   \<and> snd (stdio_server travel_services Tool_check_travel_requirements
            [(''destination_country'', PStr (py ''Japan'')),
             (''origin_country'', PStr (py ''United States''))]) =
       Return [TextContent (py ''text'')
                 (json_dumps (PDict [(py ''visa_requirements'', PDict visa_record),
                                     (py ''safety_advisories'', PDict safety_record)]))]"
proof -
  let ?kws = "[(''destination_country'', PStr (py ''Japan'')),
               (''origin_country'', PStr (py ''United States''))]"
  have 1: "check_visa_requirements travel_services [PStr (py ''United States''), PStr (py ''Japan'')] []
             = Return (PDict visa_record)"
    by (simp add: travel_services_def returning_def)
  have 2: "get_safety_advisories travel_services [PStr (py ''Japan'')] [] = Return (PDict safety_record)"
    by (simp add: travel_services_def returning_def)
  have 3: "visa_record \<noteq> []" by (simp add: visa_record_def)
  have 4: "safety_record \<noteq> []" by (simp add: safety_record_def)
  have 5: "advisories_of safety_record =
             Some [PStr (py ''Carry your passport''), PStr (py ''Typhoon season''),
                   PStr (py ''Earthquake drills'')]"
    by (simp add: advisories_of_def safety_record_def dict_get_def)
  have 6: "py_truthy (dict_get visa_record (py ''required'') PNone)"
    "dict_get visa_record (py ''type'') (PStr (py ''Tourist visa'')) = PStr (py ''eVisa'')"
    "dict_get visa_record (py ''processing_time'') (PStr (py ''Check embassy'')) = PStr (py ''3 business days'')"
    "dict_get visa_record (py ''fee'') (PStr (py ''Contact embassy'')) = PStr (py ''USD 25'')"
    "dict_get visa_record (py ''duration'') PNone = PStr (py ''90 days'')"
    by (simp_all add: visa_record_def dict_get_def)
  have 7: "dict_get safety_record (py ''level'') (PStr (py ''Standard precautions'')) = PStr (py ''Level 1'')"
    "dict_get safety_record (py ''last_updated'') (PStr (py ''N/A'')) = PStr (py ''2025-01-15'')"
    by (simp_all add: safety_record_def dict_get_def)
  have 8: "map_of ?kws ''origin_country'' = Some (PStr (py ''United States''))"
    "map_of ?kws ''destination_country'' = Some (PStr (py ''Japan''))"
    by simp_all
  from travel_requirements_fields [of travel_services "py ''United States''" "py ''Japan''"
         visa_record safety_record
         "[PStr (py ''Carry your passport''), PStr (py ''Typhoon season''),
           PStr (py ''Earthquake drills'')]" ?kws, OF 1 2 3 4 5]
       6 7 8
  show ?thesis by (simp add: requirements_header_def requirements_note_def advisory_line_def)
qed

text \<open>
  Records with the keys \<^verbatim>\<open>mcp_http_server_minimal.py\<close> reads say that a visa is required,
  for a stay of 30 days, and that the advisory level is high. \<^verbatim>\<open>check_travel_requirements\<close>
  of \<^verbatim>\<open>mcp_http_server.py\<close> answers that no visa is required and that the level is
  \<^verbatim>\<open>Standard precautions\<close>, and shows none of the values of the records.
\<close>

theorem travel_fields_counterexample:
  "snd (http_server travel_services_minimal
          (Check_travel_requirements (py ''United States'') (py ''Japan''))) =
     Return ([0x11F, 0x178, 0x201C, 0x2039] @ py '' **Travel Requirements: United States ''
             @ [0xE2, 0x2020, 0x2019] @ py '' Japan**'' @ [10, 10]
             @ [0x11F, 0x178, 0x203A, 0x201A] @ py '' **Visa Requirements:**'' @ [10]
             @ py ''   '' @ [0xE2, 0x153, 0x2026] @ py '' No visa required for tourist visits'' @ [10]
             @ [10]
             @ [0xE2, 0x161, 0xA0, 0xEF, 0xB8] @ py '' **Safety Advisory:**'' @ [10]
             @ py ''   '' @ [0x11F, 0x178, 0x161, 0xA8] @ py '' Level: Standard precautions'' @ [10]
             @ py ''   '' @ [0x11F, 0x178, 0x201C, 0x2026] @ py '' Last Updated: N/A'' @ [10, 10]
             @ [0xE2, 0x201E, 0xB9, 0xEF, 0xB8]
             @ py '' **Note**: Always verify current requirements with official embassy sources before travel.'')
   \<and> dict_get visa_record_minimal (py ''visa_required'') PNone = PStr (py ''yes'')
   \<and> dict_get visa_record_minimal (py ''max_stay'') PNone = PStr (py ''30 days'')
   \<and> dict_get safety_record_minimal (py ''advisory_level'') PNone = PStr (py ''High'')
   \<and> dict_get safety_record_minimal (py ''summary'') PNone = PStr (py ''Do not travel'')"
  by (simp add: http_defs run_defs travel_services_minimal_def returning_def
        visa_record_minimal_def safety_record_minimal_def requirements_format_def
        visa_section_def safety_section_def requirements_header_def requirements_note_def
        dict_get_def)

subsection \<open>The names a call passes and the names a collaborator takes\<close>

lemma until_raise_take: "\<exists>n. until_raise sv cs = take n cs"
proof (induction cs)
  case Nil
  show ?case by simp
next
  case (Cons c cs)
  then obtain n where n: "until_raise sv cs = take n cs" by blast
  show ?case
  proof (cases "run_call sv c")
    case (Return v)
    with n have "until_raise sv (c # cs) = take (Suc n) (c # cs)" by simp
    then show ?thesis by blast
  next
    case (Raise e)
    then have "until_raise sv (c # cs) = take 1 (c # cs)" by simp
    then show ?thesis by blast
  qed
qed

lemma until_raise_shape:
  assumes "map call_shape cs = map call_shape cs2"
    and "i < length (until_raise sv cs)" and "i < length (until_raise sv2 cs2)"
  shows "call_shape (until_raise sv cs ! i) = call_shape (until_raise sv2 cs2 ! i)"
proof -
  obtain n where n: "until_raise sv cs = take n cs" using until_raise_take by blast
  obtain m where m: "until_raise sv2 cs2 = take m cs2" using until_raise_take by blast
  from assms(2) n have i: "i < length cs" "until_raise sv cs ! i = cs ! i" by simp_all
  from assms(3) m have j: "i < length cs2" "until_raise sv2 cs2 ! i = cs2 ! i" by simp_all
  from i(1) have "call_shape (cs ! i) = map call_shape cs ! i" by simp
  also from assms(1) have "\<dots> = map call_shape cs2 ! i" by simp
  also from j(1) have "\<dots> = call_shape (cs2 ! i)" by simp
  finally show ?thesis using i(2) j(2) by simp
qed

lemma http_planned_shape:
  "http_name t = http_name t2 \<Longrightarrow> map call_shape (http_planned t) = map call_shape (http_planned t2)"
  by (cases t; cases t2) (simp_all add: call_shape_def)

lemma minimal_planned_shape:
  "minimal_name t = minimal_name t2 \<Longrightarrow>
     map call_shape (minimal_planned t) = map call_shape (minimal_planned t2)"
  by (cases t; cases t2) (simp_all add: call_shape_def)

lemma stdio_planned_shape:
  "stdio_planned t kws = Some cs \<Longrightarrow> stdio_planned t kws2 = Some cs2 \<Longrightarrow>
     map call_shape cs = map call_shape cs2"
  by (cases t) (auto simp: call_shape_def split: option.splits)

lemma stdio_unplanned:
  "stdio_planned t kws = None \<Longrightarrow> fst (stdio_server sv t kws) = []"
  by (cases t) (auto simp: stdio_defs run_defs split: option.splits)

lemma stdio_shape:
  assumes "i < length (fst (stdio_server sv t kws))"
    and "i < length (fst (stdio_server sv2 t kws2))"
  shows "call_shape (fst (stdio_server sv t kws) ! i)
           = call_shape (fst (stdio_server sv2 t kws2) ! i)"
proof -
  from assms(1) obtain cs where cs: "stdio_planned t kws = Some cs"
    using stdio_unplanned [of t kws sv] by (cases "stdio_planned t kws") auto
  from assms(2) obtain cs2 where cs2: "stdio_planned t kws2 = Some cs2"
    using stdio_unplanned [of t kws2 sv2] by (cases "stdio_planned t kws2") auto
  from assms show ?thesis
    unfolding stdio_calls [OF cs] stdio_calls [OF cs2]
    by (rule until_raise_shape [OF stdio_planned_shape [OF cs cs2]])
qed

lemma first_call_made:
  "http_label t = Some l \<Longrightarrow> fst (http_server sv t) \<noteq> []"
  "minimal_label t' = Some l' \<Longrightarrow> fst (minimal_server sv t') \<noteq> []"
  "(\<forall>p \<in> set (stdio_required u). map_of kws p \<noteq> None) \<Longrightarrow> fst (stdio_server sv u kws) \<noteq> []"
proof -
  show "http_label t = Some l \<Longrightarrow> fst (http_server sv t) \<noteq> []"
    unfolding http_calls by (cases t) simp_all
  show "minimal_label t' = Some l' \<Longrightarrow> fst (minimal_server sv t') \<noteq> []"
    unfolding minimal_calls by (cases t') simp_all
  assume "\<forall>p \<in> set (stdio_required u). map_of kws p \<noteq> None"
  from stdio_planned_required [OF this] obtain cs where
    cs: "stdio_planned u kws = Some cs" "1 \<le> length cs" by blast
  then show "fst (stdio_server sv u kws) \<noteq> []"
    unfolding stdio_calls [OF cs(1)] by (cases cs) simp_all
qed

text \<open>
  Claim C1, as the code has it. The renaming of a tool's arguments to a collaborator's
  parameters is written in the handler's call (\<^verbatim>\<open>city=destination\<close> in
  \<^verbatim>\<open>find_restaurants\<close>, \<^verbatim>\<open>location=destination\<close> in \<^verbatim>\<open>discover_places\<close> of the minimal
  and of the stdio server): in any two invocations of a tool, whatever the arguments and
  the collaborators, the calls made at the same position have the same callee, the same
  number of positional arguments and the same keyword names. Every invocation of a tool
  that has a collaborator makes its first call (in \<^verbatim>\<open>mcp_server.py\<close>, when the required
  arguments are there). When the collaborator of a call that is made is a Python function
  with a parameter that has no default and that neither a positional argument nor a keyword
  of the call provides, binding the call fails with a \<^verbatim>\<open>TypeError\<close> \<open>e\<close>, and the tool raises
  \<^verbatim>\<open>McpError\<close> with the code \<^verbatim>\<open>INTERNAL_ERROR\<close>, its label and \<^verbatim>\<open>str(e)\<close> (in
  \<^verbatim>\<open>mcp_server.py\<close>, \<open>e\<close> itself): the mismatch is found when the tool is called.
\<close>

theorem renaming_found_at_call_time:
  "(http_name t = http_name t2 \<and> i < length (fst (http_server sv t))
      \<and> i < length (fst (http_server sv2 t2)) \<longrightarrow>
      call_shape (fst (http_server sv t) ! i) = call_shape (fst (http_server sv2 t2) ! i))
   \<and> (minimal_name t' = minimal_name t2' \<and> i' < length (fst (minimal_server sv t'))
        \<and> i' < length (fst (minimal_server sv2 t2')) \<longrightarrow>
        call_shape (fst (minimal_server sv t') ! i') = call_shape (fst (minimal_server sv2 t2') ! i'))
   \<and> (i'' < length (fst (stdio_server sv u kws)) \<and> i'' < length (fst (stdio_server sv2 u kws2)) \<longrightarrow>
        call_shape (fst (stdio_server sv u kws) ! i'')
          = call_shape (fst (stdio_server sv2 u kws2) ! i''))
   \<and> fst (http_server sv (Find_restaurants destination cuisine_types dietary_restrictions
                            price_range)) =
       [\<lparr>callee = ''search_restaurants'', args = [],
         kwargs = [(''city'', PStr destination),
                   (''cuisine_types'', str_list cuisine_types),
                   (''price_range'', opt_str price_range),
                   (''dietary_restrictions'', str_list dietary_restrictions)]\<rparr>]
   \<and> fst (minimal_server sv (Discover_places_minimal destination category)) =
       [\<lparr>callee = ''search_places'', args = [],
         kwargs = [(''location'', PStr destination),
                   (''category'', PStr (category_or_default category))]\<rparr>]
   \<and> (map_of kws ''destination'' = Some d \<longrightarrow>
        fst (stdio_server sv Tool_discover_places kws) =
          [\<lparr>callee = ''search_places'', args = [],
            kwargs = [(''location'', d),
                      (''category'', get_or kws ''category'' (PStr (py ''tourist_attraction'')))]\<rparr>])
   \<and> (http_label t = Some l \<longrightarrow> fst (http_server sv t) \<noteq> [])
   \<and> (minimal_label t' = Some l' \<longrightarrow> fst (minimal_server sv t') \<noteq> [])
   \<and> ((\<forall>p \<in> set (stdio_required u). map_of kws p \<noteq> None) \<longrightarrow> fst (stdio_server sv u kws) \<noteq> [])
   \<and> (c \<in> set (fst (http_server sv t)) \<and> service sv (callee c) = py_function sig body
        \<and> required_unmapped sig (length (args c)) (map fst (kwargs c))
        \<and> http_label t = Some l \<longrightarrow>
        (\<exists>e. bind_call sig (args c) (kwargs c) = Inl e
              \<and> snd (http_server sv t) = Raise (McpError INTERNAL_ERROR (l @ exc_str e))))
   \<and> (c' \<in> set (fst (minimal_server sv t')) \<and> service sv (callee c') = py_function sig body
        \<and> required_unmapped sig (length (args c')) (map fst (kwargs c'))
        \<and> minimal_label t' = Some l' \<longrightarrow>
        (\<exists>e. bind_call sig (args c') (kwargs c') = Inl e
              \<and> snd (minimal_server sv t') = Raise (McpError INTERNAL_ERROR (l' @ exc_str e))))
   \<and> (c'' \<in> set (fst (stdio_server sv u kws)) \<and> service sv (callee c'') = py_function sig body
        \<and> required_unmapped sig (length (args c'')) (map fst (kwargs c'')) \<longrightarrow>
        (\<exists>e. bind_call sig (args c'') (kwargs c'') = Inl e
              \<and> snd (stdio_server sv u kws) = Raise e))"
proof -
  have 1: "http_name t = http_name t2 \<and> i < length (fst (http_server sv t))
      \<and> i < length (fst (http_server sv2 t2)) \<longrightarrow>
      call_shape (fst (http_server sv t) ! i) = call_shape (fst (http_server sv2 t2) ! i)"
    unfolding http_calls using until_raise_shape [OF http_planned_shape [of t t2]] by blast
  have 2: "minimal_name t' = minimal_name t2' \<and> i' < length (fst (minimal_server sv t'))
        \<and> i' < length (fst (minimal_server sv2 t2')) \<longrightarrow>
        call_shape (fst (minimal_server sv t') ! i') = call_shape (fst (minimal_server sv2 t2') ! i')"
    unfolding minimal_calls using until_raise_shape [OF minimal_planned_shape [of t' t2']] by blast
  have 3: "i'' < length (fst (stdio_server sv u kws))
        \<and> i'' < length (fst (stdio_server sv2 u kws2)) \<longrightarrow>
        call_shape (fst (stdio_server sv u kws) ! i'')
          = call_shape (fst (stdio_server sv2 u kws2) ! i'')"
    using stdio_shape [of i'' sv u kws sv2 kws2] by blast
  have 4: "fst (http_server sv (Find_restaurants destination cuisine_types dietary_restrictions
                            price_range)) =
       [\<lparr>callee = ''search_restaurants'', args = [],
         kwargs = [(''city'', PStr destination),
                   (''cuisine_types'', str_list cuisine_types),
                   (''price_range'', opt_str price_range),
                   (''dietary_restrictions'', str_list dietary_restrictions)]\<rparr>]"
    by (simp add: find_restaurants_def find_restaurants_body_def run_defs split: outcome.splits)
  have 5: "fst (minimal_server sv (Discover_places_minimal destination category)) =
       [\<lparr>callee = ''search_places'', args = [],
         kwargs = [(''location'', PStr destination),
                   (''category'', PStr (category_or_default category))]\<rparr>]"
    by (simp add: discover_places_minimal_def discover_places_minimal_body_def run_defs
          split: outcome.splits)
  have 6: "map_of kws ''destination'' = Some d \<longrightarrow>
        fst (stdio_server sv Tool_discover_places kws) =
          [\<lparr>callee = ''search_places'', args = [],
            kwargs = [(''location'', d),
                      (''category'', get_or kws ''category'' (PStr (py ''tourist_attraction'')))]\<rparr>]"
    by (simp add: stdio_defs run_defs split: outcome.splits)
  have 7: "http_label t = Some l \<longrightarrow> fst (http_server sv t) \<noteq> []"
    using first_call_made(1) [of t l sv] by blast
  have 8: "minimal_label t' = Some l' \<longrightarrow> fst (minimal_server sv t') \<noteq> []"
    using first_call_made(2) [of t' l' sv] by blast
  have 9: "(\<forall>p \<in> set (stdio_required u). map_of kws p \<noteq> None) \<longrightarrow>
             fst (stdio_server sv u kws) \<noteq> []"
    using first_call_made(3) [of u kws sv] by blast
  have 10: "\<exists>e. bind_call sig (args c) (kwargs c) = Inl e
              \<and> snd (http_server sv t) = Raise (McpError INTERNAL_ERROR (l @ exc_str e))"
    if "c \<in> set (fst (http_server sv t))" "service sv (callee c) = py_function sig body"
      "required_unmapped sig (length (args c)) (map fst (kwargs c))" "http_label t = Some l"
  proof -
    from py_function_unmapped [OF that(3), of body] obtain e where
      e: "bind_call sig (args c) (kwargs c) = Inl e" "is_Exception e"
         "py_function sig body (args c) (kwargs c) = Raise e"
      by blast
    with that(2) have "run_call sv c = Raise e" by (simp add: run_call_def)
    from http_raise [OF that(1) this e(2) that(4)] e(1) show ?thesis
      by (auto simp: internal_error_def)
  qed
  have 11: "\<exists>e. bind_call sig (args c') (kwargs c') = Inl e
              \<and> snd (minimal_server sv t') = Raise (McpError INTERNAL_ERROR (l' @ exc_str e))"
    if "c' \<in> set (fst (minimal_server sv t'))" "service sv (callee c') = py_function sig body"
      "required_unmapped sig (length (args c')) (map fst (kwargs c'))"
      "minimal_label t' = Some l'"
  proof -
    from py_function_unmapped [OF that(3), of body] obtain e where
      e: "bind_call sig (args c') (kwargs c') = Inl e" "is_Exception e"
         "py_function sig body (args c') (kwargs c') = Raise e"
      by blast
    with that(2) have "run_call sv c' = Raise e" by (simp add: run_call_def)
    from minimal_raise [OF that(1) this e(2) that(4)] e(1) show ?thesis
      by (auto simp: internal_error_def)
  qed
  have 12: "\<exists>e. bind_call sig (args c'') (kwargs c'') = Inl e
              \<and> snd (stdio_server sv u kws) = Raise e"
    if "c'' \<in> set (fst (stdio_server sv u kws))"
      "service sv (callee c'') = py_function sig body"
      "required_unmapped sig (length (args c'')) (map fst (kwargs c''))"
  proof -
    from py_function_unmapped [OF that(3), of body] obtain e where
      e: "bind_call sig (args c'') (kwargs c'') = Inl e"
         "py_function sig body (args c'') (kwargs c'') = Raise e"
      by blast
    with that(2) have "run_call sv c'' = Raise e" by (simp add: run_call_def)
    from stdio_trace_raise [OF that(1) this] e(1) show ?thesis by blast
  qed
  from 1 2 3 4 5 6 7 8 9 10 11 12 show ?thesis by blast
qed

theorem renaming_found_at_call_time_witness:
  "snd (http_server documented_services
          (Search_hotel_options (py ''New York'') (py ''2024-12-15'') (py ''2024-12-18'') 1 PNone None)) =
     Raise (McpError INTERNAL_ERROR
        (py ''Hotel search failed: search_hotels() got an unexpected keyword argument ''
         @ [39] @ py ''destination'' @ [39]))
   \<and> snd (minimal_server city_services (Find_restaurants_minimal (py ''Rome'') None None)) =
     Raise (McpError INTERNAL_ERROR
        (py ''Restaurant search failed: search_restaurants() got an unexpected keyword argument ''
         @ [39] @ py ''location'' @ [39]))
   \<and> snd (stdio_server city_services Tool_find_restaurants [(''location'', PStr (py ''Rome''))]) =
     Raise (TypeError (py ''search_restaurants() got an unexpected keyword argument ''
                       @ [39] @ py ''location'' @ [39]))
   \<and> call_shape (fst (http_server documented_services
                        (Search_hotel_options (py ''New York'') (py ''2024-12-15'')
                           (py ''2024-12-18'') 1 PNone None)) ! 0) =
     call_shape (fst (http_server (all_raising boom)
                        (Search_hotel_options (py ''Oslo'') (py ''2025-01-02'')
                           (py ''2025-01-05'') 2 (PInt 4) (Some (py ''hostel'')))) ! 0)"
proof -
  let ?t = "Search_hotel_options (py ''New York'') (py ''2024-12-15'') (py ''2024-12-18'') 1 PNone None"
  let ?t2 = "Search_hotel_options (py ''Oslo'') (py ''2025-01-02'') (py ''2025-01-05'') 2 (PInt 4)
               (Some (py ''hostel''))"
  let ?kws = "[(''destination'', PStr (py ''New York'')), (''check_in'', PStr (py ''2024-12-15'')),
               (''check_out'', PStr (py ''2024-12-18'')), (''adults'', PInt 1),
               (''min_rating'', PNone), (''accommodation_type'', PNone)]"
  let ?c = "\<lparr>callee = ''search_hotels'', args = [], kwargs = ?kws\<rparr>"
  let ?body = "\<lambda>env :: (string \<times> pyval) list. Return (PList [])"
  let ?t' = "Find_restaurants_minimal (py ''Rome'') None None"
  let ?kws' = "[(''location'', PStr (py ''Rome'')), (''cuisine'', PNone), (''price_range'', PNone)]"
  let ?c' = "\<lparr>callee = ''search_restaurants'', args = [], kwargs = ?kws'\<rparr>"
  let ?in = "[(''location'', PStr (py ''Rome''))]"
  have 1: "?c \<in> set (fst (http_server documented_services ?t))"
    unfolding http_calls by simp
  have 2: "service documented_services (callee ?c) = py_function search_hotels_sig ?body"
    by (simp add: service_def documented_services_def)
  have 3: "required_unmapped search_hotels_sig (length (args ?c)) (map fst (kwargs ?c))"
    by (simp add: required_unmapped_def search_hotels_sig_def)
  have 4: "http_label ?t = Some (py ''Hotel search failed: '')" by simp
  have 5: "bind_call search_hotels_sig [] ?kws =
             Inl (TypeError (py ''search_hotels() got an unexpected keyword argument ''
                             @ [39] @ py ''destination'' @ [39]))"
    by (simp add: bind_call_def search_hotels_sig_def unexpected_keyword_def quoted_def)
  from renaming_found_at_call_time
         [where t = ?t and c = ?c and sv = documented_services and sig = search_hotels_sig
            and body = ?body and l = "py ''Hotel search failed: ''"]
       1 2 3 4 5
  have a: "snd (http_server documented_services ?t) =
     Raise (McpError INTERNAL_ERROR
        (py ''Hotel search failed: search_hotels() got an unexpected keyword argument ''
         @ [39] @ py ''destination'' @ [39]))"
    by (simp add: TypeError_def)
  have 6: "?c' \<in> set (fst (minimal_server city_services ?t'))"
    unfolding minimal_calls by simp
  have p: "stdio_planned Tool_find_restaurants ?in = Some [?c']"
    by (simp add: get_or_def)
  have 7: "?c' \<in> set (fst (stdio_server city_services Tool_find_restaurants ?in))"
    unfolding stdio_calls [OF p] by simp
  have 8: "service city_services (callee ?c') = py_function city_restaurants_sig ?body"
    by (simp add: service_def city_services_def)
  have 9: "required_unmapped city_restaurants_sig (length (args ?c')) (map fst (kwargs ?c'))"
    by (simp add: required_unmapped_def city_restaurants_sig_def)
  have 10: "minimal_label ?t' = Some (py ''Restaurant search failed: '')" by simp
  have 11: "bind_call city_restaurants_sig [] ?kws' =
             Inl (TypeError (py ''search_restaurants() got an unexpected keyword argument ''
                             @ [39] @ py ''location'' @ [39]))"
    by (simp add: bind_call_def city_restaurants_sig_def unexpected_keyword_def quoted_def)
  from renaming_found_at_call_time
         [where t' = ?t' and c' = ?c' and c'' = ?c' and u = Tool_find_restaurants and kws = ?in
            and sv = city_services and sig = city_restaurants_sig
            and body = ?body and l' = "py ''Restaurant search failed: ''"]
       6 7 8 9 10 11
  have b: "snd (minimal_server city_services ?t') =
     Raise (McpError INTERNAL_ERROR
        (py ''Restaurant search failed: search_restaurants() got an unexpected keyword argument ''
         @ [39] @ py ''location'' @ [39]))"
    and c: "snd (stdio_server city_services Tool_find_restaurants ?in) =
     Raise (TypeError (py ''search_restaurants() got an unexpected keyword argument ''
                       @ [39] @ py ''location'' @ [39]))"
    by (simp_all add: TypeError_def)
  have 12: "http_name ?t = http_name ?t2" by simp
  have 13: "0 < length (fst (http_server documented_services ?t))"
    "0 < length (fst (http_server (all_raising boom) ?t2))"
    unfolding http_calls by simp_all
  from renaming_found_at_call_time
         [where t = ?t and ?t2.0 = ?t2 and sv = documented_services and ?sv2.0 = "all_raising boom"
            and i = 0]
       12 13
  have d: "call_shape (fst (http_server documented_services ?t) ! 0) =
           call_shape (fst (http_server (all_raising boom) ?t2) ! 0)"
    by blast
  from a b c d show ?thesis by blast
qed

text \<open>
  \<^verbatim>\<open>search_flight_options\<close> is a tool of the server, \<^verbatim>\<open>search_flights\<close> requires \<^verbatim>\<open>date\<close>,
  no keyword of the call is \<^verbatim>\<open>date\<close>, and this is found when the tool is called, with the
  error \<^verbatim>\<open>PARAMETER_FIXES.py\<close> reports.
\<close>

theorem registration_check_counterexample:
  "required_unmapped search_flights_sig 0
     [''origin'', ''destination'', ''departure_date'', ''adults'', ''cabin_class'']
   \<and> http_server documented_services
       (Search_flight_options (py ''NYC'') (py ''LAX'') (py ''2024-12-15'') None 1 (py ''economy'')) =
     ([\<lparr>callee = ''search_flights'', args = [],
        kwargs = [(''origin'', PStr (py ''NYC'')), (''destination'', PStr (py ''LAX'')),
                  (''departure_date'', PStr (py ''2024-12-15'')), (''adults'', PInt 1),
                  (''cabin_class'', PStr (py ''economy''))]\<rparr>],
      Raise (McpError INTERNAL_ERROR
        (py ''Flight search failed: search_flights() got an unexpected keyword argument ''
         @ [39] @ py ''departure_date'' @ [39])))"
  by (simp add: required_unmapped_def search_flights_sig_def http_defs run_defs
        documented_services_def py_function_def bind_call_def unexpected_keyword_def quoted_def
        TypeError_def internal_error_def prod_eq_iff)

end
